theory Spec2Isabelle
  imports Complex_Main "HOL-Library.Word" "HOL-Library.Sublist"
begin

text \<open>
  A model of the swap client: the nursery (\<^verbatim>\<open>refundSwap\<close>, \<^verbatim>\<open>findLockupVout\<close>,
  \<^verbatim>\<open>handleSwapStatus\<close>), the RPC server (\<^verbatim>\<open>createSwap\<close>, \<^verbatim>\<open>createReverseSwap\<close>,
  \<^verbatim>\<open>unlock\<close> and the interceptors) and the websocket of the exchange (\<^verbatim>\<open>Connect\<close>,
  \<^verbatim>\<open>Subscribe\<close>, \<^verbatim>\<open>Close\<close>). Each Go function is a HOL function of the same name. A
  call that leaves the given sources (the Lightning node, the exchange, the database, the
  wallets, btcd, the standard library) is a field of a record of collaborators and stands
  for the outcome of that call; an error return is the \<open>Inl\<close> of a sum or the \<open>Some\<close>
  of an option. What a function does to the outside is returned as the list of its calls,
  in order. Calls of the logger are left out.
\<close>

section \<open>Common data\<close>

type_synonym bytes = "8 word list"

text \<open>Go \<^verbatim>\<open>error\<close> values: \<^verbatim>\<open>errors.New\<close> / \<^verbatim>\<open>fmt.Errorf\<close> messages,
  gRPC \<^verbatim>\<open>status.Errorf\<close> errors with their code, and a run-time panic.
  \<^verbatim>\<open>handleError\<close> logs the error and returns it as it is.\<close>

datatype Code = NotFound | FailedPrecondition | InvalidArgument

datatype error = Error string | StatusError Code string | Panic string

definition handleError :: "error \<Rightarrow> error" where
  "handleError err = err"

text \<open>\<^verbatim>\<open>codes.Code.String()\<close>: the name of a gRPC status code.\<close>

fun CodeString :: "Code \<Rightarrow> string" where
  "CodeString NotFound = ''NotFound''"
| "CodeString FailedPrecondition = ''FailedPrecondition''"
| "CodeString InvalidArgument = ''InvalidArgument''"

text \<open>\<^verbatim>\<open>err.Error()\<close>: the message of an error. A gRPC status error prints as
  \<^verbatim>\<open>rpc error: code = <code> desc = <message>\<close>.\<close>

fun ErrorString :: "error \<Rightarrow> string" where
  "ErrorString (Error msg) = msg"
| "ErrorString (StatusError code msg) =
     ''rpc error: code = '' @ CodeString code @ '' desc = '' @ msg"
| "ErrorString (Panic msg) = msg"

text \<open>Modelled from the spec: the type \<^verbatim>\<open>boltz.SwapUpdateEvent\<close> is declared outside the
  given sources; its values are the closed vocabulary of status events of the spec
  (section 4.C, event inputs) together with \<^verbatim>\<open>boltz.SwapRefunded\<close>, which the nursery
  names. \<^verbatim>\<open>boltz.ParseEvent\<close> and \<^verbatim>\<open>String\<close> are taken as parameters.\<close>

datatype SwapUpdateEvent =
    SwapCreated | TransactionMempool | TransactionConfirmed | TransactionClaimed
  | TransactionLockupFailed | InvoiceSet | InvoicePaid | InvoicePending | InvoiceSettled
  | InvoiceFailedToPay | SwapExpired | SwapRefunded | UnknownEvent

datatype SwapState = PENDING | SUCCESSFUL | ERROR | SERVER_ERROR | REFUNDED

datatype Currency = CurrencyBtc | CurrencyLiquid

record Pair =
  From :: Currency
  To :: Currency

text \<open>\<^verbatim>\<open>database.Swap\<close>, with the fields that the nursery and the RPC server read or
  write. \<^verbatim>\<open>TimoutBlockHeight\<close> is a Go \<^verbatim>\<open>int\<close> in the nursery (it is printed with
  \<^verbatim>\<open>strconv.Itoa\<close> and converted with \<^verbatim>\<open>uint32(...)\<close>). Keys and the swap tree
  are kept as their serialised bytes.\<close>

record Swap =
  Id :: string
  SwapPair :: Pair
  State :: SwapState
  ErrorText :: string
  Status :: SwapUpdateEvent
  PrivateKey :: bytes
  Preimage :: bytes
  RedeemScript :: bytes
  Invoice :: string
  Address :: string
  ExpectedAmount :: "64 word"
  TimoutBlockHeight :: int
  SwapTree :: bytes
  ClaimPubKey :: bytes
  BlindingKey :: bytes
  LockupTransactionId :: string
  RefundTransactionId :: string
  RefundAddress :: string
  IsAuto :: bool
  ServiceFeePercent :: real
  Wallet :: string


section \<open>Nursery (package nursery)\<close>

text \<open>\<^verbatim>\<open>wire.TxOut\<close>, \<^verbatim>\<open>wire.OutPoint\<close>, \<^verbatim>\<open>wire.TxIn\<close> and \<^verbatim>\<open>wire.MsgTx\<close> of btcd.\<close>

record TxOut =
  Value :: int
  PkScript :: bytes

record OutPoint =
  Hash :: string
  Index :: "32 word"

record TxIn =
  PreviousOutPoint :: OutPoint
  Witness :: "bytes list"
  Sequence :: "32 word"

record MsgTx =
  Version :: int
  MsgTxIn :: "TxIn list"
  MsgTxOut :: "TxOut list"
  LockTime :: "32 word"

datatype InvoiceState = Invoice_OPEN | Invoice_SETTLED | Invoice_CANCELED | Invoice_ACCEPTED

text \<open>Chain helpers used with \<^verbatim>\<open>nursery.chainParams\<close>:
  \<^verbatim>\<open>txscript.ExtractPkScriptAddrs\<close>, \<^verbatim>\<open>btcutil.DecodeAddress\<close>, the script that
  pays an address and the hash of a transaction. An address is represented by its
  \<^verbatim>\<open>EncodeAddress()\<close> string.\<close>

record Chain =
  ExtractPkScriptAddrs :: "bytes \<Rightarrow> error + string list"
  DecodeAddress :: "string \<Rightarrow> error + string"
  PayToAddrScript :: "string \<Rightarrow> bytes"
  TxHash :: "MsgTx \<Rightarrow> string"

text \<open>The collaborators of the nursery, each call given by its outcome: the Lightning node
  (\<^verbatim>\<open>nursery.lnd\<close>), the exchange client (\<^verbatim>\<open>nursery.boltz\<close>), the database and the
  decoding helpers. \<^verbatim>\<open>database.UpdateSwapStatus\<close> takes the swap by pointer: its outcome
  is the error, if any, and the swap as it leaves it. The last three fields are what the
  construction of a refund transaction needs beyond its arguments: the fee, the dust
  threshold and the script-path witness.\<close>

record Nursery =
  chainParams :: Chain
  lnd_NewAddress :: "error + string"
  lnd_LookupInvoice :: "bytes \<Rightarrow> error + InvoiceState"
  zpay32_Decode :: "string \<Rightarrow> error + bytes"
  boltz_GetSwapTransaction :: "string \<Rightarrow> error + string"
  boltz_BroadcastTransaction :: "string \<Rightarrow> error + string"
  boltz_SerializeTransaction :: "MsgTx \<Rightarrow> error + string"
  boltz_ParseEvent :: "string \<Rightarrow> SwapUpdateEvent"
  boltz_EventString :: "SwapUpdateEvent \<Rightarrow> string"
  hex_DecodeString :: "string \<Rightarrow> error + bytes"
  btcutil_NewTxFromBytes :: "bytes \<Rightarrow> error + MsgTx"
  database_UpdateSwapStatus :: "Swap \<Rightarrow> SwapUpdateEvent \<Rightarrow> error option \<times> Swap"
  refundFee :: "MsgTx \<Rightarrow> bytes \<Rightarrow> int"
  dustLimit :: int
  refundWitness :: "bytes \<Rightarrow> bytes \<Rightarrow> bytes list"

text \<open>What the nursery does to the outside: a call of \<^verbatim>\<open>database.UpdateSwapStatus\<close>
  with the id of the swap and the status, a transaction that the exchange accepted for
  broadcast.\<close>

datatype NurseryEvent =
    DatabaseUpdateSwapStatus string SwapUpdateEvent
  | BoltzBroadcastTransaction string

subsection \<open>findLockupVout\<close>

text \<open>The body of the \<^verbatim>\<open>for vout, output := range outputs\<close> loop of
  \<^verbatim>\<open>findLockupVout\<close>, with \<open>vout\<close> the index of the head of the remaining
  outputs. The result is converted with \<^verbatim>\<open>uint32(vout)\<close>.\<close>

fun findLockupVout_from :: "Chain \<Rightarrow> string \<Rightarrow> nat \<Rightarrow> TxOut list \<Rightarrow> error + 32 word" where
  "findLockupVout_from chain addressToFind vout [] = Inl (Error ''could not find lockup vout'')"
| "findLockupVout_from chain addressToFind vout (output # outputs) =
     (case ExtractPkScriptAddrs chain (PkScript output) of
        Inl err \<Rightarrow> findLockupVout_from chain addressToFind (Suc vout) outputs
      | Inr outputAddresses \<Rightarrow>
          if list_ex (\<lambda>outputAddress. outputAddress = addressToFind) outputAddresses
          then Inr (of_nat vout)
          else findLockupVout_from chain addressToFind (Suc vout) outputs)"

definition findLockupVout :: "Chain \<Rightarrow> string \<Rightarrow> TxOut list \<Rightarrow> error + 32 word" where
  "findLockupVout chain addressToFind outputs = findLockupVout_from chain addressToFind 0 outputs"

text \<open>An output pays an address when its script decodes and one of the decoded
  addresses is that address.\<close>

definition paysTo :: "Chain \<Rightarrow> string \<Rightarrow> TxOut \<Rightarrow> bool" where
  "paysTo chain address output =
     (case ExtractPkScriptAddrs chain (PkScript output) of
        Inl err \<Rightarrow> False
      | Inr outputAddresses \<Rightarrow> address \<in> set outputAddresses)"

subsection \<open>handleSwapStatus\<close>

text \<open>\<^verbatim>\<open>handleSwapStatus(swap *database.Swap, status string)\<close>: the swap as the call leaves
  it and the database updates it asked for (an error of the update is logged only). For \<^verbatim>\<open>transaction.claimed\<close> the invoice is decoded
  and looked up on the node first; each failure returns before the database is touched.\<close>

definition handleSwapStatus :: "Nursery \<Rightarrow> Swap \<Rightarrow> string \<Rightarrow> Swap \<times> NurseryEvent list" where
  "handleSwapStatus nursery swap status =
     (let parsedStatus = boltz_ParseEvent nursery status;
          update = (case database_UpdateSwapStatus nursery swap parsedStatus of
                      (err, swap') \<Rightarrow> (swap', [DatabaseUpdateSwapStatus (Id swap) parsedStatus]))
      in if parsedStatus = TransactionClaimed then
           (case zpay32_Decode nursery (Invoice swap) of
              Inl err \<Rightarrow> (swap, [])
            | Inr paymentHash \<Rightarrow>
                (case lnd_LookupInvoice nursery paymentHash of
                   Inl err \<Rightarrow> (swap, [])
                 | Inr invoiceState \<Rightarrow>
                     if invoiceState \<noteq> Invoice_SETTLED then (swap, []) else update))
         else update)"

subsection \<open>refundSwap\<close>

text \<open>Modelled from the spec: \<^verbatim>\<open>boltz.ConstructRefundTransaction\<close> is not among the given
  sources. Section 4.B of the spec: the transaction has a single input, spending the lockup
  output, and a single output to the destination address; \<open>nLockTime = timeoutBlockHeight\<close>
  for a refund; the fee is subtracted from the lockup amount and an output below the dust
  threshold fails with \<open>AmountTooSmall\<close>; a refund is signed on the script path.\<close>

definition ConstructRefundTransaction ::
  "Nursery \<Rightarrow> MsgTx \<Rightarrow> 32 word \<Rightarrow> bytes \<Rightarrow> bytes \<Rightarrow> string \<Rightarrow> 32 word \<Rightarrow> error + MsgTx" where
  "ConstructRefundTransaction nursery lockupTransaction lockupVout privateKey redeemScript address
       timeoutBlockHeight =
     (if length (MsgTxOut lockupTransaction) \<le> unat lockupVout
      then Inl (Panic ''index out of range'')
      else
        let lockupOutput = MsgTxOut lockupTransaction ! unat lockupVout;
            amount = Value lockupOutput - refundFee nursery lockupTransaction redeemScript
        in if amount < dustLimit nursery then Inl (Error ''AmountTooSmall'')
           else Inr \<lparr>Version = 1,
                     MsgTxIn = [\<lparr>PreviousOutPoint =
                                   \<lparr>Hash = TxHash (chainParams nursery) lockupTransaction,
                                    Index = lockupVout\<rparr>,
                                 Witness = refundWitness nursery privateKey redeemScript,
                                 Sequence = 0\<rparr>],
                     MsgTxOut = [\<lparr>Value = amount,
                                  PkScript = PayToAddrScript (chainParams nursery) address\<rparr>],
                     LockTime = timeoutBlockHeight\<rparr>)"

text \<open>\<^verbatim>\<open>refundSwap\<close> up to the construction of the refund transaction (every step returns
  on its error): the destination address, the lockup transaction, the lockup vout and the
  refund transaction. The destination is always a new address of the node.\<close>

definition refundSwap_construct :: "Nursery \<Rightarrow> Swap \<Rightarrow> error + (string \<times> MsgTx \<times> 32 word \<times> MsgTx)" where
  "refundSwap_construct nursery swap =
     (case lnd_NewAddress nursery of
        Inl err \<Rightarrow> Inl err
      | Inr addressString \<Rightarrow>
     (case DecodeAddress (chainParams nursery) addressString of
        Inl err \<Rightarrow> Inl err
      | Inr address \<Rightarrow>
     (case boltz_GetSwapTransaction nursery (Id swap) of
        Inl err \<Rightarrow> Inl err
      | Inr transactionHex \<Rightarrow>
     (case hex_DecodeString nursery transactionHex of
        Inl err \<Rightarrow> Inl err
      | Inr lockupTransactionRaw \<Rightarrow>
     (case btcutil_NewTxFromBytes nursery lockupTransactionRaw of
        Inl err \<Rightarrow> Inl err
      | Inr lockupTransaction \<Rightarrow>
     (case findLockupVout (chainParams nursery) (Address swap) (MsgTxOut lockupTransaction) of
        Inl err \<Rightarrow> Inl err
      | Inr lockupVout \<Rightarrow>
     (case ConstructRefundTransaction nursery lockupTransaction lockupVout (PrivateKey swap)
             (RedeemScript swap) address (word_of_int (TimoutBlockHeight swap)) of
        Inl err \<Rightarrow> Inl err
      | Inr refundTransaction \<Rightarrow>
          Inr (address, lockupTransaction, lockupVout, refundTransaction))))))))"

text \<open>\<^verbatim>\<open>refundSwap\<close>: the constructed transaction is serialised and broadcast through the
  exchange; only then the swap is handed to \<^verbatim>\<open>handleSwapStatus\<close> with
  \<^verbatim>\<open>boltz.SwapRefunded.String()\<close>.\<close>

definition refundSwap :: "Nursery \<Rightarrow> Swap \<Rightarrow> NurseryEvent list" where
  "refundSwap nursery swap =
     (case refundSwap_construct nursery swap of
        Inl err \<Rightarrow> []
      | Inr (address, lockupTransaction, lockupVout, refundTransaction) \<Rightarrow>
     (case boltz_SerializeTransaction nursery refundTransaction of
        Inl err \<Rightarrow> []
      | Inr refundTransactionHex \<Rightarrow>
     (case boltz_BroadcastTransaction nursery refundTransactionHex of
        Inl err \<Rightarrow> []
      | Inr txId \<Rightarrow>
          BoltzBroadcastTransaction refundTransactionHex #
          snd (handleSwapStatus nursery swap (boltz_EventString nursery SwapRefunded)))))"


section \<open>RPC server (package rpcserver)\<close>

subsection \<open>Messages and rows\<close>

text \<open>\<^verbatim>\<open>boltzrpc.CreateSwapRequest\<close>. The optional fields are pointers, read through their
  getters, which give the empty string for \<^verbatim>\<open>nil\<close>.\<close>

record RpcCreateSwapRequest =
  reqAmount :: int
  reqPair :: "Pair option"
  reqSendFromInternal :: bool
  reqRefundAddress :: "string option"
  reqWallet :: "string option"
  reqInvoice :: "string option"

definition getString :: "string option \<Rightarrow> string" where
  "getString field = (case field of None \<Rightarrow> [] | Some s \<Rightarrow> s)"

definition getBool :: "bool option \<Rightarrow> bool" where
  "getBool field = (case field of None \<Rightarrow> False | Some b \<Rightarrow> b)"

text \<open>\<^verbatim>\<open>boltzrpc.SubmarinePair\<close> and \<^verbatim>\<open>boltzrpc.ReversePair\<close>, as far as they are read.\<close>

record PairInfo =
  pairHash :: string
  feesPercentage :: real

text \<open>\<^verbatim>\<open>boltz.CreateSwapRequest\<close> and \<^verbatim>\<open>boltz.CreateSwapResponse\<close>: the exchange's
  messages for a submarine swap.\<close>

record BoltzCreateSwapRequest =
  bFrom :: Currency
  bTo :: Currency
  bPairHash :: string
  bRefundPublicKey :: bytes
  bReferralId :: string
  bInvoice :: string
  bPreimageHash :: bytes

record BoltzCreateSwapResponse =
  respId :: string
  respAddress :: string
  respExpectedAmount :: "64 word"
  respTimeoutBlockHeight :: "32 word"
  respSwapTree :: bytes
  respClaimPublicKey :: bytes
  respBlindingKey :: bytes
  respBip21 :: string

record RpcCreateSwapResponse =
  outId :: string
  outAddress :: string
  outExpectedAmount :: int
  outBip21 :: string
  outTimeoutBlockHeight :: "32 word"
  outTimeoutHours :: real
  outTxId :: string

text \<open>\<^verbatim>\<open>boltzrpc.CreateReverseSwapRequest\<close>, the exchange's messages for a reverse swap,
  \<^verbatim>\<open>database.ReverseSwap\<close> and \<^verbatim>\<open>boltzrpc.CreateReverseSwapResponse\<close>.\<close>

record RpcCreateReverseSwapRequest =
  rreqAmount :: int
  rreqAddress :: string
  rreqAcceptZeroConf :: bool
  rreqPair :: "Pair option"
  rreqChanIds :: "string list"
  rreqWallet :: "string option"
  rreqReturnImmediately :: "bool option"
  rreqExternalPay :: "bool option"

record BoltzCreateReverseSwapRequest =
  brFrom :: Currency
  brTo :: Currency
  brPairHash :: string
  brInvoiceAmount :: "64 word"
  brPreimageHash :: bytes
  brClaimPublicKey :: bytes
  brReferralId :: string

record BoltzCreateReverseSwapResponse =
  rrespId :: string
  rrespInvoice :: string
  rrespSwapTree :: bytes
  rrespRefundPublicKey :: bytes
  rrespLockupAddress :: string
  rrespTimeoutBlockHeight :: "32 word"
  rrespOnchainAmount :: "64 word"
  rrespBlindingKey :: bytes

record ReverseSwap =
  rsId :: string
  rsIsAuto :: bool
  rsPair :: Pair
  rsStatus :: SwapUpdateEvent
  rsState :: SwapState
  rsErrorText :: string
  rsAcceptZeroConf :: bool
  rsPrivateKey :: bytes
  rsSwapTree :: bytes
  rsRefundPubKey :: bytes
  rsPreimage :: bytes
  rsInvoice :: string
  rsClaimAddress :: string
  rsOnchainAmount :: "64 word"
  rsTimeoutBlockHeight :: int
  rsLockupTransactionId :: string
  rsClaimTransactionId :: string
  rsServiceFeePercent :: real
  rsExternalPay :: bool
  rsChanIds :: "64 word list"
  rsBlindingKey :: bytes
  rsRoutingFeeMsat :: "64 word option"

record RpcCreateReverseSwapResponse =
  routId :: string
  routLockupAddress :: string
  routInvoice :: "string option"
  routClaimTransactionId :: "string option"
  routRoutingFeeMilliSat :: "64 word option"

subsection \<open>Collaborators\<close>

text \<open>A wallet of \<^verbatim>\<open>server.onchain\<close> and the Lightning node, each call given by its
  outcome.\<close>

record WalletHandle =
  wallet_Name :: string
  wallet_NewAddress :: "error + string"
  wallet_SendToAddress :: "string \<Rightarrow> 64 word \<Rightarrow> real \<Rightarrow> error + string"

record AddInvoiceResponse =
  PaymentRequest :: string
  PaymentHash :: bytes

record LightningNode =
  lightning_CreateInvoice :: "int \<Rightarrow> string \<Rightarrow> error + AddInvoiceResponse"

text \<open>Everything \<^verbatim>\<open>createSwap\<close> and \<^verbatim>\<open>createReverseSwap\<close> call, by outcome: the
  random source and hash of the standard library, btcec, zpay32 with
  \<^verbatim>\<open>server.network.Btc\<close>, the helpers of \<^verbatim>\<open>utils\<close> and \<^verbatim>\<open>boltz\<close>, the swap tree
  (\<^verbatim>\<open>InitTree\<close>, \<^verbatim>\<open>Check\<close>, \<^verbatim>\<open>CheckAddress\<close>), the exchange, the wallets, the
  database and the nursery, and the two methods of the server that look a pair up at the
  exchange. Floating point values are reals. \<^verbatim>\<open>lightning = None\<close> is the standalone mode
  (\<^verbatim>\<open>server.lightning == nil\<close>). \<^verbatim>\<open>InitTree\<close> gives the tree it leaves in the swap.
  \<^verbatim>\<open>nursery_SwapUpdates\<close> gives the updates delivered on the stream of a swap until the
  nursery closes it.\<close>

record Backend =
  rand_Read :: "error option"
  rand_bytes :: "nat \<Rightarrow> 8 word"
  sha256_Sum256 :: "bytes \<Rightarrow> bytes"
  btcec_NewPrivateKey :: "error + bytes"
  btcec_PubKey :: "bytes \<Rightarrow> bytes"
  btcec_ParsePubKey :: "bytes \<Rightarrow> error + bytes"
  zpay32_DecodeBtc :: "string \<Rightarrow> error + bytes"
  utils_ParsePair :: "Pair option \<Rightarrow> Pair"
  utils_GetSwapMemo :: "Currency \<Rightarrow> string"
  boltz_ValidateAddress :: "string \<Rightarrow> Currency \<Rightarrow> error option"
  boltz_BlocksToHours :: "32 word \<Rightarrow> Currency \<Rightarrow> real"
  GetSubmarinePair :: "Pair option \<Rightarrow> error + PairInfo"
  GetReversePair :: "Pair option \<Rightarrow> error + PairInfo"
  lightning :: "LightningNode option"
  lightning_NewChanIdFromString :: "string \<Rightarrow> error + 64 word"
  onchain_GetWallet :: "string \<Rightarrow> Currency \<Rightarrow> bool \<Rightarrow> error + WalletHandle"
  onchain_GetBlockHeight :: "Currency \<Rightarrow> error + 32 word"
  onchain_EstimateFee :: "Currency \<Rightarrow> int \<Rightarrow> error + real"
  boltz_CreateSwap :: "BoltzCreateSwapRequest \<Rightarrow> error + BoltzCreateSwapResponse"
  boltz_CreateReverseSwap :: "BoltzCreateReverseSwapRequest \<Rightarrow> error + BoltzCreateReverseSwapResponse"
  SwapTree_Deserialize :: "bytes \<Rightarrow> bytes"
  swap_InitTree :: "Swap \<Rightarrow> error + bytes"
  swap_BlindingPubKey :: "Swap \<Rightarrow> bytes option"
  reverseSwap_InitTree :: "ReverseSwap \<Rightarrow> error + bytes"
  SwapTree_Check :: "bytes \<Rightarrow> bool \<Rightarrow> int \<Rightarrow> bytes \<Rightarrow> error option"
  SwapTree_CheckAddress :: "bytes \<Rightarrow> string \<Rightarrow> bytes option \<Rightarrow> error option"
  database_CreateSwap :: "Swap \<Rightarrow> error option"
  database_CreateReverseSwap :: "ReverseSwap \<Rightarrow> error option"
  database_UpdateReverseSwapState :: "ReverseSwap \<Rightarrow> SwapState \<Rightarrow> string \<Rightarrow> error option"
  nursery_RegisterSwap :: "Swap \<Rightarrow> error option"
  nursery_RegisterReverseSwap :: "ReverseSwap \<Rightarrow> error option"
  nursery_PayReverseSwap :: "ReverseSwap \<Rightarrow> error option"
  nursery_SwapUpdates :: "string \<Rightarrow> ReverseSwap list"

text \<open>The calls of a swap creation that act on the outside or verify the exchange's answer,
  in the order in which they are made. The two swap tree checks and the database writes
  carry their outcome.\<close>

datatype RouterEvent =
    LightningCreateInvoice int string
  | BoltzCreateSwap BoltzCreateSwapRequest
  | BoltzCreateReverseSwap BoltzCreateReverseSwapRequest
  | WalletNewAddress string
  | SwapTreeCheck bytes bool int bytes "error option"
  | SwapTreeCheckAddress bytes string "bytes option" "error option"
  | DatabaseCreateSwap Swap "error option"
  | DatabaseCreateReverseSwap ReverseSwap "error option"
  | DatabaseUpdateReverseSwapState string SwapState string
  | WalletSendToAddress string "64 word" real
  | NurseryRegisterSwap string
  | NurseryRegisterReverseSwap string
  | NurseryPayReverseSwap string

definition referralId :: string where
  "referralId = ''boltz-client''"


subsection \<open>newKeys and newPreimage\<close>

definition newKeys :: "Backend \<Rightarrow> error + (bytes \<times> bytes)" where
  "newKeys backend =
     (case btcec_NewPrivateKey backend of
        Inl err \<Rightarrow> Inl err
      | Inr privateKey \<Rightarrow> Inr (privateKey, btcec_PubKey backend privateKey))"

text \<open>\<^verbatim>\<open>newPreimage\<close>: a slice of 32 bytes is filled from \<^verbatim>\<open>crypto/rand\<close>; the result is
  the preimage and its SHA-256 hash.\<close>

definition newPreimage :: "Backend \<Rightarrow> error + (bytes \<times> bytes)" where
  "newPreimage backend =
     (case rand_Read backend of
        Some err \<Rightarrow> Inl err
      | None \<Rightarrow>
          let preimage = map (rand_bytes backend) [0..<32]
          in Inr (preimage, sha256_Sum256 backend preimage))"

subsection \<open>createSwap\<close>

text \<open>The choice between invoice and preimage in \<^verbatim>\<open>createSwap\<close>
  (\<^verbatim>\<open>var preimage, preimageHash []byte\<close> and the \<^verbatim>\<open>if\<close> chain that follows): the
  preimage, the preimage hash and the request to the exchange as the chain leaves them.\<close>

definition createSwap_preimage ::
  "Backend \<Rightarrow> RpcCreateSwapRequest \<Rightarrow> Pair \<Rightarrow> BoltzCreateSwapRequest \<Rightarrow>
     (error + (bytes \<times> bytes \<times> BoltzCreateSwapRequest)) \<times> RouterEvent list" where
  "createSwap_preimage backend request pair createSwap =
     (if getString (reqInvoice request) \<noteq> [] then
        (case zpay32_DecodeBtc backend (getString (reqInvoice request)) of
           Inl err \<Rightarrow> (Inl (handleError (Error (''invalid invoice: '' @ ErrorString err))), [])
         | Inr paymentHash \<Rightarrow>
             (Inr ([], paymentHash, createSwap\<lparr>bInvoice := getString (reqInvoice request)\<rparr>), []))
      else
        (case lightning backend of
           None \<Rightarrow> (Inl (handleError (Error ''invoice is required in standalone mode'')), [])
         | Some node \<Rightarrow>
             if reqAmount request \<noteq> 0 then
               (case lightning_CreateInvoice node (reqAmount request)
                       (utils_GetSwapMemo backend (From pair)) of
                  Inl err \<Rightarrow>
                    (Inl (handleError err),
                     [LightningCreateInvoice (reqAmount request)
                        (utils_GetSwapMemo backend (From pair))])
                | Inr invoice \<Rightarrow>
                    (Inr ([], PaymentHash invoice,
                          createSwap\<lparr>bInvoice := PaymentRequest invoice\<rparr>),
                     [LightningCreateInvoice (reqAmount request)
                        (utils_GetSwapMemo backend (From pair))]))
             else if reqSendFromInternal request then
               (Inl (handleError (Error ''cannot auto send if amount is 0'')), [])
             else
               (case newPreimage backend of
                  Inl err \<Rightarrow> (Inl (handleError err), [])
                | Inr (preimage, preimageHash) \<Rightarrow>
                    (Inr (preimage, preimageHash, createSwap\<lparr>bPreimageHash := preimageHash\<rparr>),
                     []))))"

text \<open>The verification of the exchange's answer in \<^verbatim>\<open>createSwap\<close>: the wallet name is
  set when the lockup is sent from the internal wallet, the claim key is parsed, the blinding
  key is taken for Liquid (the \<^verbatim>\<open>err\<close> tested there is the one of the parsed claim key,
  which is \<^verbatim>\<open>nil\<close> at that point), the tree is initialised and checked, and the address is
  checked against the tree. The result is the swap as it will be stored.\<close>

definition createSwap_verify ::
  "Backend \<Rightarrow> RpcCreateSwapRequest \<Rightarrow> BoltzCreateSwapResponse \<Rightarrow> WalletHandle option \<Rightarrow>
     bytes \<Rightarrow> Swap \<Rightarrow> (error + Swap) \<times> RouterEvent list" where
  "createSwap_verify backend request response wallet preimageHash swap0 =
     (case (if reqSendFromInternal request
            then (case wallet of
                    None \<Rightarrow> Inl (Panic ''nil pointer dereference'')
                  | Some w \<Rightarrow> Inr (swap0\<lparr>Wallet := wallet_Name w\<rparr>))
            else Inr swap0) of
        Inl err \<Rightarrow> (Inl err, [])
      | Inr swap1 \<Rightarrow>
     (case btcec_ParsePubKey backend (respClaimPublicKey response) of
        Inl err \<Rightarrow> (Inl (handleError err), [])
      | Inr claimPubKey \<Rightarrow>
     (let swap2 = swap1\<lparr>ClaimPubKey := claimPubKey\<rparr>;
          swap3 = (if From (SwapPair swap2) = CurrencyLiquid
                   then swap2\<lparr>BlindingKey := respBlindingKey response\<rparr>
                   else swap2)
      in
     (case swap_InitTree backend swap3 of
        Inl err \<Rightarrow> (Inl (handleError err), [])
      | Inr tree \<Rightarrow>
     (let swap = swap3\<lparr>SwapTree := tree\<rparr>;
          checked = SwapTree_Check backend (SwapTree swap) False (TimoutBlockHeight swap)
                      preimageHash;
          checkEvent = SwapTreeCheck (SwapTree swap) False (TimoutBlockHeight swap) preimageHash
                         checked
      in
     (case checked of
        Some err \<Rightarrow> (Inl (handleError err), [checkEvent])
      | None \<Rightarrow>
     (let addressChecked = SwapTree_CheckAddress backend (SwapTree swap) (respAddress response)
                             (swap_BlindingPubKey backend swap);
          addressEvent = SwapTreeCheckAddress (SwapTree swap) (respAddress response)
                             (swap_BlindingPubKey backend swap) addressChecked
      in
     (case addressChecked of
        Some err \<Rightarrow> (Inl (handleError err), [checkEvent, addressEvent])
      | None \<Rightarrow> (Inr swap, [checkEvent, addressEvent])))))))))"

text \<open>The end of \<^verbatim>\<open>createSwap\<close>, from the database write on: the row is written, the
  response is filled in, the lockup is paid from the internal wallet when asked for, and the
  swap is registered with the nursery.\<close>

definition createSwap_persist ::
  "Backend \<Rightarrow> RpcCreateSwapRequest \<Rightarrow> BoltzCreateSwapResponse \<Rightarrow> WalletHandle option \<Rightarrow>
     Pair \<Rightarrow> Swap \<Rightarrow> (error + RpcCreateSwapResponse) \<times> RouterEvent list" where
  "createSwap_persist backend request response wallet pair swap =
     (case database_CreateSwap backend swap of
        Some err \<Rightarrow> (Inl (handleError err), [DatabaseCreateSwap swap (Some err)])
      | None \<Rightarrow>
     (case onchain_GetBlockHeight backend (From pair) of
        Inl err \<Rightarrow> (Inl (handleError err), [DatabaseCreateSwap swap None])
      | Inr blockHeight \<Rightarrow>
     (let timeoutHours = boltz_BlocksToHours backend
                           (respTimeoutBlockHeight response - blockHeight) (From pair);
          swapResponse = \<lparr>outId = Id swap, outAddress = respAddress response,
                          outExpectedAmount = sint (respExpectedAmount response),
                          outBip21 = respBip21 response,
                          outTimeoutBlockHeight = respTimeoutBlockHeight response,
                          outTimeoutHours = timeoutHours, outTxId = []\<rparr>;
          sent =
            (if reqSendFromInternal request then
               (case onchain_EstimateFee backend (From pair) 2 of
                  Inl err \<Rightarrow> (Inl (handleError err), [])
                | Inr feeSatPerVbyte \<Rightarrow>
                    (case wallet of
                       None \<Rightarrow> (Inl (Panic ''nil pointer dereference''), [])
                     | Some w \<Rightarrow>
                         (case wallet_SendToAddress w (respAddress response)
                                 (respExpectedAmount response) feeSatPerVbyte of
                            Inl err \<Rightarrow>
                              (Inl (handleError err),
                               [WalletSendToAddress (respAddress response)
                                  (respExpectedAmount response) feeSatPerVbyte])
                          | Inr txId \<Rightarrow>
                              (Inr (swapResponse\<lparr>outTxId := txId\<rparr>),
                               [WalletSendToAddress (respAddress response)
                                  (respExpectedAmount response) feeSatPerVbyte]))))
             else (Inr swapResponse, []))
      in
     (case sent of
        (Inl err, events) \<Rightarrow> (Inl err, DatabaseCreateSwap swap None # events)
      | (Inr swapResponse', events) \<Rightarrow>
          (case nursery_RegisterSwap backend swap of
             Some err \<Rightarrow>
               (Inl (handleError err),
                DatabaseCreateSwap swap None # events @ [NurseryRegisterSwap (Id swap)])
           | None \<Rightarrow>
               (Inr swapResponse',
                DatabaseCreateSwap swap None # events @ [NurseryRegisterSwap (Id swap)]))))))"

text \<open>The beginning of \<^verbatim>\<open>createSwap\<close>, up to the swap built from the exchange's answer:
  keys, pair, invoice or preimage, wallet, the request to the exchange. A field that the
  struct literal leaves out has its zero value. When the wallet is not found and the request
  does not send from it, \<^verbatim>\<open>wallet\<close> stays \<^verbatim>\<open>nil\<close>.\<close>

definition createSwap_prepare ::
  "Backend \<Rightarrow> bool \<Rightarrow> RpcCreateSwapRequest \<Rightarrow>
     (error + (BoltzCreateSwapResponse \<times> WalletHandle option \<times> Pair \<times> bytes \<times> Swap)) \<times>
     RouterEvent list" where
  "createSwap_prepare backend isAuto request =
     (case newKeys backend of
        Inl err \<Rightarrow> (Inl (handleError err), [])
      | Inr (privateKey, publicKey) \<Rightarrow>
     (let pair = utils_ParsePair backend (reqPair request) in
     (case GetSubmarinePair backend (reqPair request) of
        Inl err \<Rightarrow> (Inl err, [])
      | Inr submarinePair \<Rightarrow>
     (case createSwap_preimage backend request pair
             \<lparr>bFrom = From pair, bTo = To pair, bPairHash = pairHash submarinePair,
              bRefundPublicKey = publicKey, bReferralId = referralId, bInvoice = [],
              bPreimageHash = []\<rparr> of
        (Inl err, events1) \<Rightarrow> (Inl err, events1)
      | (Inr (preimage, preimageHash, createSwap), events1) \<Rightarrow>
     (let walletResult = onchain_GetWallet backend (getString (reqWallet request)) (From pair) False;
          wallet = (case walletResult of Inl err \<Rightarrow> None | Inr w \<Rightarrow> Some w)
      in
     (case (if reqSendFromInternal request
            then (case walletResult of Inl err \<Rightarrow> Some err | Inr w \<Rightarrow> None)
            else None) of
        Some err \<Rightarrow> (Inl (handleError err), events1)
      | None \<Rightarrow>
     (case boltz_CreateSwap backend createSwap of
        Inl err \<Rightarrow>
          (Inl (handleError (Error (''boltz error: '' @ ErrorString err))),
           events1 @ [BoltzCreateSwap createSwap])
      | Inr response \<Rightarrow>
          (Inr (response, wallet, pair, preimageHash,
                \<lparr>Id = respId response, SwapPair = pair, State = PENDING, ErrorText = [],
                 Status = SwapCreated, PrivateKey = privateKey, Preimage = preimage,
                 RedeemScript = [], Invoice = bInvoice createSwap,
                 Address = respAddress response,
                 ExpectedAmount = respExpectedAmount response,
                 TimoutBlockHeight = uint (respTimeoutBlockHeight response),
                 SwapTree = SwapTree_Deserialize backend (respSwapTree response),
                 ClaimPubKey = [], BlindingKey = [], LockupTransactionId = [],
                 RefundTransactionId = [],
                 RefundAddress = getString (reqRefundAddress request), IsAuto = isAuto,
                 ServiceFeePercent = feesPercentage submarinePair, Wallet = []\<rparr>),
           events1 @ [BoltzCreateSwap createSwap]))))))))"

text \<open>\<^verbatim>\<open>createSwap(isAuto, request)\<close>: the response or the error, and the calls made, in
  order: preparation, verification, and only then the database write and what follows.\<close>

definition createSwap ::
  "Backend \<Rightarrow> bool \<Rightarrow> RpcCreateSwapRequest \<Rightarrow> (error + RpcCreateSwapResponse) \<times> RouterEvent list" where
  "createSwap backend isAuto request =
     (case createSwap_prepare backend isAuto request of
        (Inl err, events1) \<Rightarrow> (Inl err, events1)
      | (Inr (response, wallet, pair, preimageHash, swap0), events1) \<Rightarrow>
     (case createSwap_verify backend request response wallet preimageHash swap0 of
        (Inl err, events2) \<Rightarrow> (Inl err, events1 @ events2)
      | (Inr swap, events2) \<Rightarrow>
     (case createSwap_persist backend request response wallet pair swap of
        (result, events3) \<Rightarrow> (result, events1 @ events2 @ events3))))"


subsection \<open>createReverseSwap\<close>

text \<open>The flags \<^verbatim>\<open>externalPay\<close> and \<^verbatim>\<open>returnImmediately\<close> as \<^verbatim>\<open>createReverseSwap\<close>
  settles them first.\<close>

definition createReverseSwap_options :: "Backend \<Rightarrow> RpcCreateReverseSwapRequest \<Rightarrow> error + (bool \<times> bool)" where
  "createReverseSwap_options backend request =
     (case (if lightning backend = None then
              (if rreqExternalPay request = None then Inr True
               else if \<not> getBool (rreqExternalPay request)
               then Inl (handleError (Error
                      ''can not create reverse swap without external pay in standalone mode''))
               else Inr (getBool (rreqExternalPay request)))
            else Inr (getBool (rreqExternalPay request))) of
        Inl err \<Rightarrow> Inl err
      | Inr externalPay \<Rightarrow>
          if externalPay then
            (if rreqReturnImmediately request \<noteq> None \<and> \<not> getBool (rreqReturnImmediately request)
             then Inl (handleError (Error
                    ''can not wait for swap transaction when using external pay''))
             else Inr (externalPay, True))
          else Inr (externalPay, getBool (rreqReturnImmediately request)))"

text \<open>The claim address: the one of the request, validated, or a new address of the
  wallet.\<close>

definition createReverseSwap_claimAddress ::
  "Backend \<Rightarrow> RpcCreateReverseSwapRequest \<Rightarrow> Pair \<Rightarrow> (error + string) \<times> RouterEvent list" where
  "createReverseSwap_claimAddress backend request pair =
     (if rreqAddress request \<noteq> [] then
        (case boltz_ValidateAddress backend (rreqAddress request) (To pair) of
           Some err \<Rightarrow>
             (Inl (handleError (Error (''Invalid claim address '' @ rreqAddress request @ '': '' @
                     ErrorString err))), [])
         | None \<Rightarrow> (Inr (rreqAddress request), []))
      else
        (case onchain_GetWallet backend (getString (rreqWallet request)) (To pair) True of
           Inl err \<Rightarrow> (Inl (handleError err), [])
         | Inr wallet \<Rightarrow>
             (case wallet_NewAddress wallet of
                Inl err \<Rightarrow> (Inl (handleError err), [WalletNewAddress (wallet_Name wallet)])
              | Inr claimAddress \<Rightarrow> (Inr claimAddress, [WalletNewAddress (wallet_Name wallet)]))))"

text \<open>The loop over \<^verbatim>\<open>request.ChanIds\<close>: it returns at the first id that does not
  parse.\<close>

fun parseChanIds :: "Backend \<Rightarrow> string list \<Rightarrow> error + 64 word list" where
  "parseChanIds backend [] = Inr []"
| "parseChanIds backend (chanId # chanIds) =
     (case lightning_NewChanIdFromString backend chanId of
        Inl err \<Rightarrow> Inl (handleError (Error (''invalid channel id: '' @ ErrorString err)))
      | Inr parsed \<Rightarrow>
          (case parseChanIds backend chanIds of
             Inl err \<Rightarrow> Inl err
           | Inr rest \<Rightarrow> Inr (parsed # rest)))"

text \<open>The verification of the exchange's answer in \<^verbatim>\<open>createReverseSwap\<close>: channel ids,
  blinding key, tree, lockup address, and the payment hash of the invoice of the exchange,
  which has to be the hash of the preimage generated here.\<close>

definition createReverseSwap_verify ::
  "Backend \<Rightarrow> RpcCreateReverseSwapRequest \<Rightarrow> BoltzCreateReverseSwapResponse \<Rightarrow> bytes \<Rightarrow>
     ReverseSwap \<Rightarrow> (error + ReverseSwap) \<times> RouterEvent list" where
  "createReverseSwap_verify backend request response preimageHash reverseSwap0 =
     (case parseChanIds backend (rreqChanIds request) of
        Inl err \<Rightarrow> (Inl err, [])
      | Inr chanIds \<Rightarrow>
     (let reverseSwap1 = reverseSwap0\<lparr>rsChanIds := chanIds\<rparr>;
          reverseSwap2 = (if To (rsPair reverseSwap1) = CurrencyLiquid
                          then reverseSwap1\<lparr>rsBlindingKey := rrespBlindingKey response\<rparr>
                          else reverseSwap1);
          blindingPubKey = (if To (rsPair reverseSwap1) = CurrencyLiquid
                            then Some (btcec_PubKey backend (rsBlindingKey reverseSwap2))
                            else None)
      in
     (case reverseSwap_InitTree backend reverseSwap2 of
        Inl err \<Rightarrow> (Inl (handleError err), [])
      | Inr tree \<Rightarrow>
     (let reverseSwap = reverseSwap2\<lparr>rsSwapTree := tree\<rparr>;
          checked = SwapTree_Check backend (rsSwapTree reverseSwap) True
                      (rsTimeoutBlockHeight reverseSwap) preimageHash;
          checkEvent = SwapTreeCheck (rsSwapTree reverseSwap) True
                         (rsTimeoutBlockHeight reverseSwap) preimageHash checked
      in
     (case checked of
        Some err \<Rightarrow> (Inl (handleError err), [checkEvent])
      | None \<Rightarrow>
     (let addressChecked = SwapTree_CheckAddress backend (rsSwapTree reverseSwap)
                             (rrespLockupAddress response) blindingPubKey;
          addressEvent = SwapTreeCheckAddress (rsSwapTree reverseSwap)
                             (rrespLockupAddress response) blindingPubKey addressChecked
      in
     (case addressChecked of
        Some err \<Rightarrow> (Inl (handleError err), [checkEvent, addressEvent])
      | None \<Rightarrow>
     (case zpay32_DecodeBtc backend (rsInvoice reverseSwap) of
        Inl err \<Rightarrow> (Inl (handleError err), [checkEvent, addressEvent])
      | Inr paymentHash \<Rightarrow>
          if preimageHash \<noteq> paymentHash
          then (Inl (handleError (Error ''invalid invoice preimage hash'')),
                [checkEvent, addressEvent])
          else (Inr reverseSwap, [checkEvent, addressEvent])))))))))"

text \<open>The loop \<^verbatim>\<open>for update := range updates\<close> at the end of \<^verbatim>\<open>createReverseSwap\<close>,
  over the updates delivered before the stream is closed.\<close>

fun awaitUpdates ::
  "RpcCreateReverseSwapResponse \<Rightarrow> ReverseSwap list \<Rightarrow> error + RpcCreateReverseSwapResponse" where
  "awaitUpdates rpcResponse [] = Inr rpcResponse"
| "awaitUpdates rpcResponse (info # updates) =
     (let rpcResponse' =
            (if rsState info = SUCCESSFUL
             then rpcResponse\<lparr>routClaimTransactionId := Some (rsClaimTransactionId info),
                              routRoutingFeeMilliSat := rsRoutingFeeMsat info\<rparr>
             else rpcResponse)
      in if rsState info = ERROR \<or> rsState info = SERVER_ERROR
         then Inl (handleError (Error (''reverse swap failed: '' @ rsErrorText info)))
         else awaitUpdates rpcResponse' updates)"

text \<open>The end of \<^verbatim>\<open>createReverseSwap\<close>, from the database write on.\<close>

definition createReverseSwap_persist ::
  "Backend \<Rightarrow> RpcCreateReverseSwapRequest \<Rightarrow> BoltzCreateReverseSwapResponse \<Rightarrow> bool \<Rightarrow> bool \<Rightarrow>
     ReverseSwap \<Rightarrow> (error + RpcCreateReverseSwapResponse) \<times> RouterEvent list" where
  "createReverseSwap_persist backend request response externalPay returnImmediately reverseSwap =
     (case database_CreateReverseSwap backend reverseSwap of
        Some err \<Rightarrow> (Inl (handleError err), [DatabaseCreateReverseSwap reverseSwap (Some err)])
      | None \<Rightarrow>
     (case nursery_RegisterReverseSwap backend reverseSwap of
        Some err \<Rightarrow>
          (Inl (handleError err),
           [DatabaseCreateReverseSwap reverseSwap None, NurseryRegisterReverseSwap (rsId reverseSwap)])
      | None \<Rightarrow>
     (let rpcResponse = \<lparr>routId = rsId reverseSwap,
                         routLockupAddress = rrespLockupAddress response,
                         routInvoice = None, routClaimTransactionId = None,
                         routRoutingFeeMilliSat = None\<rparr>;
          registered = [DatabaseCreateReverseSwap reverseSwap None,
                        NurseryRegisterReverseSwap (rsId reverseSwap)];
          paid =
            (if externalPay
             then (Inr (rpcResponse\<lparr>routInvoice := Some (rsInvoice reverseSwap)\<rparr>), [])
             else
               (case nursery_PayReverseSwap backend reverseSwap of
                  Some err \<Rightarrow>
                    (case database_UpdateReverseSwapState backend reverseSwap ERROR
                            (ErrorString err) of
                       Some dbErr \<Rightarrow>
                         (Inl (handleError dbErr),
                          [NurseryPayReverseSwap (rsId reverseSwap),
                           DatabaseUpdateReverseSwapState (rsId reverseSwap) ERROR
                             (ErrorString err)])
                     | None \<Rightarrow>
                         (Inl (handleError err),
                          [NurseryPayReverseSwap (rsId reverseSwap),
                           DatabaseUpdateReverseSwapState (rsId reverseSwap) ERROR
                             (ErrorString err)]))
                | None \<Rightarrow> (Inr rpcResponse, [NurseryPayReverseSwap (rsId reverseSwap)])))
      in
     (case paid of
        (Inl err, events) \<Rightarrow> (Inl err, registered @ events)
      | (Inr rpcResponse', events) \<Rightarrow>
          if \<not> returnImmediately \<and> rreqAcceptZeroConf request
          then (awaitUpdates rpcResponse' (nursery_SwapUpdates backend (rsId reverseSwap)),
                registered @ events)
          else (Inr rpcResponse', registered @ events)))))"

text \<open>The beginning of \<^verbatim>\<open>createReverseSwap\<close>, up to the reverse swap built from the
  exchange's answer: flags, claim address, preimage, keys, pair, the request to the
  exchange.\<close>

definition createReverseSwap_prepare ::
  "Backend \<Rightarrow> bool \<Rightarrow> RpcCreateReverseSwapRequest \<Rightarrow>
     (error + (BoltzCreateReverseSwapResponse \<times> bool \<times> bool \<times> bytes \<times> ReverseSwap)) \<times>
     RouterEvent list" where
  "createReverseSwap_prepare backend isAuto request =
     (case createReverseSwap_options backend request of
        Inl err \<Rightarrow> (Inl err, [])
      | Inr (externalPay, returnImmediately) \<Rightarrow>
     (let pair = utils_ParsePair backend (rreqPair request) in
     (case createReverseSwap_claimAddress backend request pair of
        (Inl err, events1) \<Rightarrow> (Inl err, events1)
      | (Inr claimAddress, events1) \<Rightarrow>
     (case newPreimage backend of
        Inl err \<Rightarrow> (Inl (handleError err), events1)
      | Inr (preimage, preimageHash) \<Rightarrow>
     (case newKeys backend of
        Inl err \<Rightarrow> (Inl (handleError err), events1)
      | Inr (privateKey, publicKey) \<Rightarrow>
     (case GetReversePair backend (rreqPair request) of
        Inl err \<Rightarrow> (Inl (handleError err), events1)
      | Inr reversePair \<Rightarrow>
     (let createReverseSwapRequest =
            \<lparr>brFrom = From pair, brTo = To pair, brPairHash = pairHash reversePair,
             brInvoiceAmount = word_of_int (rreqAmount request), brPreimageHash = preimageHash,
             brClaimPublicKey = publicKey, brReferralId = referralId\<rparr>;
          events2 = events1 @ [BoltzCreateReverseSwap createReverseSwapRequest]
      in
     (case boltz_CreateReverseSwap backend createReverseSwapRequest of
        Inl err \<Rightarrow> (Inl (handleError err), events2)
      | Inr response \<Rightarrow>
     (case btcec_ParsePubKey backend (rrespRefundPublicKey response) of
        Inl err \<Rightarrow> (Inl (handleError err), events2)
      | Inr key \<Rightarrow>
          (Inr (response, externalPay, returnImmediately, preimageHash,
                \<lparr>rsId = rrespId response, rsIsAuto = isAuto, rsPair = pair,
                 rsStatus = SwapCreated, rsState = PENDING, rsErrorText = [],
                 rsAcceptZeroConf = rreqAcceptZeroConf request, rsPrivateKey = privateKey,
                 rsSwapTree = SwapTree_Deserialize backend (rrespSwapTree response),
                 rsRefundPubKey = key, rsPreimage = preimage,
                 rsInvoice = rrespInvoice response,
                 rsClaimAddress = claimAddress,
                 rsOnchainAmount = rrespOnchainAmount response,
                 rsTimeoutBlockHeight = uint (rrespTimeoutBlockHeight response),
                 rsLockupTransactionId = [], rsClaimTransactionId = [],
                 rsServiceFeePercent = feesPercentage reversePair,
                 rsExternalPay = externalPay,
                 rsChanIds = [], rsBlindingKey = [], rsRoutingFeeMsat = None\<rparr>),
           events2))))))))))"

text \<open>\<^verbatim>\<open>createReverseSwap(isAuto, request)\<close>: the response or the error, and the calls
  made, in order: preparation, verification, and only then the database write and what
  follows.\<close>

definition createReverseSwap ::
  "Backend \<Rightarrow> bool \<Rightarrow> RpcCreateReverseSwapRequest \<Rightarrow>
     (error + RpcCreateReverseSwapResponse) \<times> RouterEvent list" where
  "createReverseSwap backend isAuto request =
     (case createReverseSwap_prepare backend isAuto request of
        (Inl err, events1) \<Rightarrow> (Inl err, events1)
      | (Inr (response, externalPay, returnImmediately, preimageHash, reverseSwap0), events1) \<Rightarrow>
     (case createReverseSwap_verify backend request response preimageHash reverseSwap0 of
        (Inl err, events2) \<Rightarrow> (Inl err, events1 @ events2)
      | (Inr reverseSwap, events2) \<Rightarrow>
     (case createReverseSwap_persist backend request response externalPay returnImmediately
             reverseSwap of
        (result, events3) \<Rightarrow> (result, events1 @ events2 @ events3))))"


subsection \<open>Reading the calls of a swap creation\<close>

text \<open>A write of a swap row; a swap tree verification; a verification that returned an
  error; a verification event that carries the outcome of the very call it records.\<close>

fun isDatabaseCreate :: "RouterEvent \<Rightarrow> bool" where
  "isDatabaseCreate (DatabaseCreateSwap swap res) = True"
| "isDatabaseCreate (DatabaseCreateReverseSwap reverseSwap res) = True"
| "isDatabaseCreate e = False"

fun isVerification :: "RouterEvent \<Rightarrow> bool" where
  "isVerification (SwapTreeCheck tree isReverse timeout preimageHash res) = True"
| "isVerification (SwapTreeCheckAddress tree address blindingPubKey res) = True"
| "isVerification e = False"

fun failedVerification :: "RouterEvent \<Rightarrow> bool" where
  "failedVerification (SwapTreeCheck tree isReverse timeout preimageHash res) = (res \<noteq> None)"
| "failedVerification (SwapTreeCheckAddress tree address blindingPubKey res) = (res \<noteq> None)"
| "failedVerification e = False"

fun recordsCall :: "Backend \<Rightarrow> RouterEvent \<Rightarrow> bool" where
  "recordsCall backend (SwapTreeCheck tree isReverse timeout preimageHash res) =
     (res = SwapTree_Check backend tree isReverse timeout preimageHash)"
| "recordsCall backend (SwapTreeCheckAddress tree address blindingPubKey res) =
     (res = SwapTree_CheckAddress backend tree address blindingPubKey)"
| "recordsCall backend e = True"

text \<open>Neither a database write of a swap row nor a verification.\<close>

definition otherCall :: "RouterEvent \<Rightarrow> bool" where
  "otherCall e = (\<not> isDatabaseCreate e \<and> \<not> isVerification e)"

text \<open>A request to the exchange to create a swap.\<close>

fun isExchangeRequest :: "RouterEvent \<Rightarrow> bool" where
  "isExchangeRequest (BoltzCreateSwap exchangeRequest) = True"
| "isExchangeRequest (BoltzCreateReverseSwap exchangeRequest) = True"
| "isExchangeRequest e = False"

text \<open>The two ways in which a submarine swap gets its preimage hash, read off the stored
  swap, the request sent to the exchange and the preimage hash that the tree is checked
  against. With an invoice (of the request, or created on the node for the amount of the
  request) the preimage stays empty and the hash is the payment hash of the invoice; without
  one, 32 random bytes are the preimage and their SHA-256 is the hash sent to the
  exchange.\<close>

definition invoiceCase ::
  "Backend \<Rightarrow> RpcCreateSwapRequest \<Rightarrow> Swap \<Rightarrow> BoltzCreateSwapRequest \<Rightarrow> bytes \<Rightarrow> bool" where
  "invoiceCase backend request swap exchangeRequest preimageHash =
     (Preimage swap = [] \<and> bPreimageHash exchangeRequest = [] \<and>
      (if getString (reqInvoice request) \<noteq> [] then
         bInvoice exchangeRequest = getString (reqInvoice request) \<and>
         zpay32_DecodeBtc backend (getString (reqInvoice request)) = Inr preimageHash
       else
         (case lightning backend of
            None \<Rightarrow> False
          | Some node \<Rightarrow>
              (case lightning_CreateInvoice node (reqAmount request)
                      (utils_GetSwapMemo backend (From (SwapPair swap))) of
                 Inl err \<Rightarrow> False
               | Inr invoice \<Rightarrow>
                   reqAmount request \<noteq> 0 \<and> bInvoice exchangeRequest = PaymentRequest invoice \<and>
                   preimageHash = PaymentHash invoice))))"

definition preimageCase ::
  "Backend \<Rightarrow> RpcCreateSwapRequest \<Rightarrow> Swap \<Rightarrow> BoltzCreateSwapRequest \<Rightarrow> bytes \<Rightarrow> bool" where
  "preimageCase backend request swap exchangeRequest preimageHash =
     (length (Preimage swap) = 32 \<and> Preimage swap = map (rand_bytes backend) [0..<32] \<and>
      rand_Read backend = None \<and>
      preimageHash = sha256_Sum256 backend (Preimage swap) \<and>
      bPreimageHash exchangeRequest = preimageHash \<and> bInvoice exchangeRequest = [] \<and>
      getString (reqInvoice request) = [] \<and> reqAmount request = 0)"


subsection \<open>Locking\<close>

text \<open>\<^verbatim>\<open>strings.Contains(s, substr)\<close>: \<open>substr\<close> occurs in \<open>s\<close> at some position.\<close>

fun strings_Contains :: "string \<Rightarrow> string \<Rightarrow> bool" where
  "strings_Contains [] substr = (substr = [])"
| "strings_Contains (c # s) substr = (prefix substr (c # s) \<or> strings_Contains s substr)"

text \<open>The part of \<^verbatim>\<open>routedBoltzServer\<close> that \<^verbatim>\<open>unlock\<close> changes: the \<^verbatim>\<open>locked\<close>
  flag, the wallets added to \<^verbatim>\<open>server.onchain\<close> (by name) and whether
  \<^verbatim>\<open>server.nursery\<close> has been initialised.\<close>

record routedBoltzServer =
  locked :: bool
  onchainWallets :: "string list"
  nurseryInitialised :: bool

record Credentials =
  credentialsName :: string
  credentialsEncrypted :: bool

text \<open>What \<^verbatim>\<open>unlock\<close> calls, by outcome: the stored wallet credentials, their
  decryption with a password, the login of a wallet, the configuration of the swapper and
  the initialisation of the nursery.\<close>

record UnlockBackend =
  database_QueryWalletCredentials :: "error + Credentials list"
  credentials_Decrypt :: "Credentials \<Rightarrow> string \<Rightarrow> error + Credentials"
  wallet_Login :: "Credentials \<Rightarrow> error + string"
  swapper_LoadConfig :: "error option"
  nursery_Init :: "error option"

text \<open>The loop of \<^verbatim>\<open>decryptWalletCredentials\<close>: it returns at the first credentials that
  do not decrypt.\<close>

fun decryptAll :: "UnlockBackend \<Rightarrow> string \<Rightarrow> Credentials list \<Rightarrow> error + Credentials list" where
  "decryptAll backend password [] = Inr []"
| "decryptAll backend password (creds # credentials) =
     (case (if credentialsEncrypted creds
            then (case credentials_Decrypt backend creds password of
                    Inl err \<Rightarrow> Inl (StatusError InvalidArgument ''wrong password'')
                  | Inr decrypted \<Rightarrow> Inr decrypted)
            else Inr creds) of
        Inl err \<Rightarrow> Inl err
      | Inr creds' \<Rightarrow>
          (case decryptAll backend password credentials of
             Inl err \<Rightarrow> Inl err
           | Inr decrypted \<Rightarrow> Inr (creds' # decrypted)))"

definition decryptWalletCredentials :: "UnlockBackend \<Rightarrow> string \<Rightarrow> error + Credentials list" where
  "decryptWalletCredentials backend password =
     (case database_QueryWalletCredentials backend of
        Inl err \<Rightarrow> Inl err
      | Inr credentials \<Rightarrow> decryptAll backend password credentials)"

text \<open>The loop of \<^verbatim>\<open>unlock\<close> over the credentials: each wallet that logs in is added; the
  first that does not ends the call.\<close>

fun loginAll ::
  "UnlockBackend \<Rightarrow> Credentials list \<Rightarrow> routedBoltzServer \<Rightarrow> error option \<times> routedBoltzServer" where
  "loginAll backend [] server = (None, server)"
| "loginAll backend (creds # credentials) server =
     (case wallet_Login backend creds of
        Inl err \<Rightarrow> (Some (Error (''could not login to wallet: '' @ ErrorString err)), server)
      | Inr wallet \<Rightarrow>
          loginAll backend credentials
            (server\<lparr>onchainWallets := onchainWallets server @ [wallet]\<rparr>))"

text \<open>\<^verbatim>\<open>unlock(password)\<close>. A failure of \<^verbatim>\<open>swapper.LoadConfig\<close> is logged only. The flag
  is cleared in the last statement before \<^verbatim>\<open>return nil\<close>.\<close>

definition unlock ::
  "UnlockBackend \<Rightarrow> string \<Rightarrow> routedBoltzServer \<Rightarrow> error option \<times> routedBoltzServer" where
  "unlock backend password server =
     (if \<not> locked server then (Some (Error ''boltzd already unlocked!''), server)
      else
        (case decryptWalletCredentials backend password of
           Inl err \<Rightarrow> (Some err, server)
         | Inr credentials \<Rightarrow>
             (case loginAll backend credentials server of
                (Some err, server1) \<Rightarrow> (Some err, server1)
              | (None, server1) \<Rightarrow>
                  (let server2 = server1\<lparr>nurseryInitialised := False\<rparr> in
                   (case nursery_Init backend of
                      Some err \<Rightarrow> (Some err, server2)
                    | None \<Rightarrow>
                        (None, server2\<lparr>nurseryInitialised := True, locked := False\<rparr>))))))"

definition errLocked :: error where
  \<open>errLocked = Error ''boltzd is locked, use "unlock" to enable full RPC access''\<close>

definition requestAllowed :: "routedBoltzServer \<Rightarrow> string \<Rightarrow> error option" where
  "requestAllowed server fullMethod =
     (if locked server \<and> \<not> strings_Contains fullMethod ''Unlock''
      then Some (handleError errLocked)
      else None)"

text \<open>The two interceptors. A handler is what the gRPC server would run for the request: it
  takes the server as it is and gives its result and the server as it leaves it. The
  interceptor calls it only when \<^verbatim>\<open>requestAllowed\<close> returns \<^verbatim>\<open>nil\<close>.\<close>

definition UnaryServerInterceptor ::
  "routedBoltzServer \<Rightarrow> string \<Rightarrow> (routedBoltzServer \<Rightarrow> (error + 'resp) \<times> routedBoltzServer) \<Rightarrow>
     (error + 'resp) \<times> routedBoltzServer" where
  "UnaryServerInterceptor server fullMethod handler =
     (case requestAllowed server fullMethod of
        Some err \<Rightarrow> (Inl err, server)
      | None \<Rightarrow> handler server)"

definition StreamServerInterceptor ::
  "routedBoltzServer \<Rightarrow> string \<Rightarrow> (routedBoltzServer \<Rightarrow> error option \<times> routedBoltzServer) \<Rightarrow>
     error option \<times> routedBoltzServer" where
  "StreamServerInterceptor server fullMethod handler =
     (case requestAllowed server fullMethod of
        Some err \<Rightarrow> (Some err, server)
      | None \<Rightarrow> handler server)"


section \<open>Exchange websocket (package boltz)\<close>

text \<open>Durations are nanoseconds, as \<^verbatim>\<open>time.Duration\<close>.\<close>

definition Second :: nat where
  "Second = 1000000000"

definition reconnectInterval :: nat where
  "reconnectInterval = 15 * Second"

record SwapUpdate =
  updateId :: string
  updateStatus :: string

text \<open>\<^verbatim>\<open>BoltzWebsocket\<close>: the connection (\<^verbatim>\<open>nil\<close> before the first dial and after a
  failed one), the \<^verbatim>\<open>closed\<close> flag and whether the \<^verbatim>\<open>Updates\<close> channel has been
  closed.\<close>

record BoltzWebsocket =
  apiUrl :: string
  conn :: "nat option"
  closed :: bool
  updatesClosed :: bool

record wsResponse =
  wsEvent :: string
  wsError :: string
  wsChannel :: string
  wsArgs :: "SwapUpdate list"

text \<open>What \<^verbatim>\<open>conn.ReadMessage\<close> returns: an error, a ping, a text message (whose JSON
  parses to a \<^verbatim>\<open>wsResponse\<close> or not) or another kind of message.\<close>

datatype Frame = ReadError error | PingMessage | TextMessage "wsResponse option" | OtherMessage

text \<open>The request of \<^verbatim>\<open>Subscribe\<close>, a map with the keys \<^verbatim>\<open>op\<close>, \<^verbatim>\<open>channel\<close> and
  \<^verbatim>\<open>args\<close>.\<close>

record wsRequest =
  op :: string
  channel :: string
  args :: "string list"

record URL =
  Scheme :: string
  Host :: string
  Path :: string

text \<open>What the websocket does, in order: a sleep, a dial with its outcome, the start of
  the goroutine of a new connection, a pong or a request written to a connection with the
  outcome of the write, a value sent on \<^verbatim>\<open>Updates\<close> or on \<^verbatim>\<open>subscriptions\<close>, the
  closing of \<^verbatim>\<open>Updates\<close>, a return of \<^verbatim>\<open>Connect\<close> inside the reconnect loop, a value
  received from \<^verbatim>\<open>subscriptions\<close>.\<close>

datatype WsEvent =
    Slept nat
  | Dialed string "error option"
  | Started nat
  | WrotePong nat
  | WroteText nat wsRequest "error option"
  | SentUpdate SwapUpdate
  | SentSubscription
  | ClosedUpdates
  | ConnectReturned "error option"
  | ReceivedSubscription

text \<open>The outside of the websocket: \<^verbatim>\<open>net/url\<close>, the dialer (the outcome of the
  \<open>n\<close>-th dial), writes to and closing of a connection; the other goroutines of the client,
  as the number of values that they receive, as soon as these are offered, from the channel
  \<^verbatim>\<open>Updates\<close> and, apart from a call of \<^verbatim>\<open>Subscribe\<close> that is looked at, from the
  channel \<^verbatim>\<open>subscriptions\<close>;
  the messages that the read loop has yet to read once a request has been written, in
  order, each with the time in nanoseconds after the write at which \<^verbatim>\<open>ReadMessage\<close>
  returns it; and the choice that a \<^verbatim>\<open>select\<close> makes when a channel and a timer are
  ready at the same instant.\<close>

record WsBackend =
  url_Parse :: "string \<Rightarrow> error + URL"
  url_String :: "URL \<Rightarrow> string"
  websocket_Dial :: "nat \<Rightarrow> string \<Rightarrow> error + nat"
  conn_WriteMessage :: "nat \<Rightarrow> wsRequest \<Rightarrow> error option"
  conn_Close :: "nat \<Rightarrow> error option"
  updatesTaken :: nat
  subscriptionsTaken :: nat
  incoming :: "(nat \<times> Frame) list"
  selectPrefersChannel :: bool

record WsState =
  ws :: BoltzWebsocket
  dials :: nat
  wsEvents :: "WsEvent list"

text \<open>The address that \<^verbatim>\<open>Connect\<close> dials: the path \<open>/v2/ws\<close> is appended to the parsed
  API address and the scheme \<open>https\<close> becomes \<open>wss\<close>, \<open>http\<close> becomes \<open>ws\<close>.\<close>

definition wsUrlOf :: "URL \<Rightarrow> URL" where
  "wsUrlOf parsed =
     (let withPath = parsed\<lparr>Path := Path parsed @ ''/v2/ws''\<rparr>
      in if Scheme withPath = ''https'' then withPath\<lparr>Scheme := ''wss''\<rparr>
         else if Scheme withPath = ''http'' then withPath\<lparr>Scheme := ''ws''\<rparr>
         else withPath)"

text \<open>\<^verbatim>\<open>Connect\<close>, up to the start of the goroutine of the new connection. The connection
  is stored before the error of the dial is looked at.\<close>

definition Connect :: "WsBackend \<Rightarrow> WsState \<Rightarrow> error option \<times> WsState" where
  "Connect backend s =
     (if closed (ws s) then (Some (Error ''websocket is closed''), s)
      else
        (case url_Parse backend (apiUrl (ws s)) of
           Inl err \<Rightarrow> (Some err, s)
         | Inr parsed \<Rightarrow>
             (let target = url_String backend (wsUrlOf parsed)
              in
              (case websocket_Dial backend (dials s) target of
                 Inl err \<Rightarrow>
                   (Some (Error (''could not connect to boltz ws at '' @ target @ '': '' @
                            ErrorString err)),
                    s\<lparr>ws := (ws s)\<lparr>conn := None\<rparr>, dials := Suc (dials s),
                      wsEvents := wsEvents s @ [Dialed target (Some err)]\<rparr>)
               | Inr c \<Rightarrow>
                   (None,
                    s\<lparr>ws := (ws s)\<lparr>conn := Some c\<rparr>, dials := Suc (dials s),
                      wsEvents := wsEvents s @ [Dialed target None, Started c]\<rparr>)))))"

text \<open>\<^verbatim>\<open>Close\<close>: the flag is set, then the connection is closed; without a connection
  this is a nil pointer dereference.\<close>

definition Close :: "WsBackend \<Rightarrow> BoltzWebsocket \<Rightarrow> error option \<times> BoltzWebsocket" where
  "Close backend boltz =
     (case conn boltz of
        None \<Rightarrow> (Some (Panic ''nil pointer dereference''), boltz\<lparr>closed := True\<rparr>)
      | Some c \<Rightarrow> (conn_Close backend c, boltz\<lparr>closed := True\<rparr>))"

text \<open>How a goroutine of a connection stands: it has returned, the program has panicked,
  it waits for the next message, it is blocked at a send on a channel, or it is still in
  its reconnect loop after the iterations looked at.\<close>

datatype Goroutine =
  Returned WsState | Panicked WsState | Waiting WsState | Sending WsState | Looping WsState

text \<open>How the read loop stands after the messages given to it: it waits in
  \<^verbatim>\<open>ReadMessage\<close> for the next one; it is blocked at \<^verbatim>\<open>boltz.Updates <- update\<close> or at
  \<^verbatim>\<open>boltz.subscriptions <- true\<close>; it has left the loop after a read error, for the
  reconnect loop; or it has closed \<^verbatim>\<open>Updates\<close> and returned.\<close>

datatype Reading =
  AwaitsMessage | SendsUpdate SwapUpdate | SendsSubscription | LostConnection | ClosedAndReturned

text \<open>\<^verbatim>\<open>for _, arg := range response.Args { ...; boltz.Updates <- update }\<close>. The channel
  is unbuffered (\<^verbatim>\<open>make(chan SwapUpdate)\<close>): a send returns when another goroutine
  receives the value. With \<open>taken\<close> values still to be received by the other goroutines, the
  result is the update at which the loop is blocked, or the number of values still to be
  received after all updates have been sent.\<close>

fun sendUpdates :: "nat \<Rightarrow> SwapUpdate list \<Rightarrow> WsState \<Rightarrow> (SwapUpdate + nat) \<times> WsState" where
  "sendUpdates taken [] s = (Inr taken, s)"
| "sendUpdates 0 (update # updates) s = (Inl update, s)"
| "sendUpdates (Suc taken) (update # updates) s =
     sendUpdates taken updates (s\<lparr>wsEvents := wsEvents s @ [SentUpdate update]\<rparr>)"

text \<open>The read loop of the goroutine over the messages that arrive, with the number of
  values that other goroutines receive from \<^verbatim>\<open>Updates\<close> and from \<^verbatim>\<open>subscriptions\<close>
  (\<^verbatim>\<open>make(chan bool)\<close>, unbuffered as well). A read error ends the loop: when the
  websocket is closed, \<^verbatim>\<open>Updates\<close> is closed and the goroutine returns; otherwise the loop
  is left for the reconnect loop. A send that no goroutine receives blocks the loop, and the
  messages after it are not read.\<close>

fun readLoop :: "nat \<Rightarrow> nat \<Rightarrow> nat \<Rightarrow> Frame list \<Rightarrow> WsState \<Rightarrow> Reading \<times> WsState" where
  "readLoop c taken acks [] s = (AwaitsMessage, s)"
| "readLoop c taken acks (ReadError err # frames) s =
     (if closed (ws s)
      then (ClosedAndReturned, s\<lparr>ws := (ws s)\<lparr>updatesClosed := True\<rparr>,
                                  wsEvents := wsEvents s @ [ClosedUpdates]\<rparr>)
      else (LostConnection, s))"
| "readLoop c taken acks (PingMessage # frames) s =
     readLoop c taken acks frames (s\<lparr>wsEvents := wsEvents s @ [WrotePong c]\<rparr>)"
| "readLoop c taken acks (TextMessage None # frames) s = readLoop c taken acks frames s"
| "readLoop c taken acks (TextMessage (Some response) # frames) s =
     (if wsError response \<noteq> [] then readLoop c taken acks frames s
      else if wsEvent response = ''update'' then
        (if wsChannel response = ''swap.update''
         then (case sendUpdates taken (wsArgs response) s of
                 (Inl update, s') \<Rightarrow> (SendsUpdate update, s')
               | (Inr taken', s') \<Rightarrow> readLoop c taken' acks frames s')
         else readLoop c taken acks frames s)
      else if wsEvent response = ''subscribe'' then
        (case acks of
           0 \<Rightarrow> (SendsSubscription, s)
         | Suc acks' \<Rightarrow>
             readLoop c taken acks' frames (s\<lparr>wsEvents := wsEvents s @ [SentSubscription]\<rparr>))
      else readLoop c taken acks frames s)"
| "readLoop c taken acks (OtherMessage # frames) s = readLoop c taken acks frames s"

text \<open>The reconnect loop of the goroutine, \<^verbatim>\<open>for { Sleep(reconnectInterval); err :=
  Connect(); if err == nil { return } }\<close>, for a number of iterations. \<open>closes k\<close> tells
  whether the client calls \<^verbatim>\<open>Close\<close> during the \<open>k\<close>-th sleep. The loop returns only
  when \<^verbatim>\<open>Connect\<close> returns no error.\<close>

fun reconnectLoop :: "nat \<Rightarrow> WsBackend \<Rightarrow> (nat \<Rightarrow> bool) \<Rightarrow> nat \<Rightarrow> WsState \<Rightarrow> Goroutine" where
  "reconnectLoop 0 backend closes k s = Looping s"
| "reconnectLoop (Suc n) backend closes k s =
     (let slept = s\<lparr>wsEvents := wsEvents s @ [Slept reconnectInterval]\<rparr> in
      (case (if closes k
             then (case Close backend (ws slept) of
                     (Some (Panic msg), boltz) \<Rightarrow> Inl (slept\<lparr>ws := boltz\<rparr>)
                   | (res, boltz) \<Rightarrow> Inr (slept\<lparr>ws := boltz\<rparr>))
             else Inr slept) of
         Inl crashed \<Rightarrow> Panicked crashed
       | Inr woken \<Rightarrow>
           (case Connect backend woken of
              (None, s') \<Rightarrow> Returned (s'\<lparr>wsEvents := wsEvents s' @ [ConnectReturned None]\<rparr>)
            | (Some err, s') \<Rightarrow>
                reconnectLoop n backend closes (Suc k)
                  (s'\<lparr>wsEvents := wsEvents s' @ [ConnectReturned (Some err)]\<rparr>))))"

text \<open>The goroutine that \<^verbatim>\<open>Connect\<close> starts for the connection \<open>c\<close>: the read loop, and
  after a lost connection the reconnect loop.\<close>

definition connection ::
  "nat \<Rightarrow> WsBackend \<Rightarrow> (nat \<Rightarrow> bool) \<Rightarrow> nat \<Rightarrow> Frame list \<Rightarrow> WsState \<Rightarrow> Goroutine" where
  "connection n backend closes c frames s =
     (case readLoop c (updatesTaken backend) (subscriptionsTaken backend) frames s of
        (AwaitsMessage, s') \<Rightarrow> Waiting s'
      | (SendsUpdate update, s') \<Rightarrow> Sending s'
      | (SendsSubscription, s') \<Rightarrow> Sending s'
      | (ClosedAndReturned, s') \<Rightarrow> Returned s'
      | (LostConnection, s') \<Rightarrow> reconnectLoop n backend closes 0 s')"






section \<open>A concrete nursery\<close>

text \<open>A regtest-like setting used to run the definitions: three known addresses with their
  one-byte scripts, a lockup transaction whose first output does not decode and whose second
  output pays the lockup address, and a node that hands out \<open>bcrt1qnode\<close>.\<close>

definition chain_ex :: Chain where
  "chain_ex =
     \<lparr>ExtractPkScriptAddrs = (\<lambda>script.
          if script = [1] then Inr [''bcrt1qlockup'']
          else if script = [2] then Inr [''bcrt1qnode'']
          else if script = [3] then Inr [''bcrt1qstored'']
          else Inl (Error ''non-standard script'')),
      DecodeAddress = (\<lambda>a. Inr a),
      PayToAddrScript = (\<lambda>a.
          if a = ''bcrt1qlockup'' then [1]
          else if a = ''bcrt1qnode'' then [2]
          else if a = ''bcrt1qstored'' then [3]
          else [0]),
      TxHash = (\<lambda>tx. ''lockuptxid'')\<rparr>"

definition lockup_ex :: MsgTx where
  "lockup_ex =
     \<lparr>Version = 2, MsgTxIn = [],
      MsgTxOut = [\<lparr>Value = 5000, PkScript = [9]\<rparr>, \<lparr>Value = 100200, PkScript = [1]\<rparr>],
      LockTime = 0\<rparr>"

definition nursery_ex :: Nursery where
  "nursery_ex =
     \<lparr>chainParams = chain_ex,
      lnd_NewAddress = Inr ''bcrt1qnode'',
      lnd_LookupInvoice = (\<lambda>h. if h = [7] then Inr Invoice_SETTLED else Inr Invoice_OPEN),
      zpay32_Decode = (\<lambda>s.
          if s = ''lnbcrt1paid'' then Inr [7]
          else if s = ''lnbcrt1open'' then Inr [8]
          else Inl (Error ''invalid invoice'')),
      boltz_GetSwapTransaction = (\<lambda>swapId. Inr ''0200''),
      boltz_BroadcastTransaction = (\<lambda>txHex. Inr ''refundtxid''),
      boltz_SerializeTransaction = (\<lambda>tx. Inr ''0100''),
      boltz_ParseEvent = (\<lambda>s.
          if s = ''transaction.claimed'' then TransactionClaimed
          else if s = ''swap.refunded'' then SwapRefunded
          else UnknownEvent),
      boltz_EventString = (\<lambda>e. if e = SwapRefunded then ''swap.refunded'' else ''other''),
      hex_DecodeString = (\<lambda>s. Inr [2, 0]),
      btcutil_NewTxFromBytes = (\<lambda>raw. Inr lockup_ex),
      database_UpdateSwapStatus = (\<lambda>swap status. (None, swap\<lparr>Status := status\<rparr>)),
      refundFee = (\<lambda>tx script. 200),
      dustLimit = 546,
      refundWitness = (\<lambda>key script. [])\<rparr>"

definition swap_ex :: Swap where
  "swap_ex =
     \<lparr>Id = ''swap1'', SwapPair = \<lparr>From = CurrencyBtc, To = CurrencyBtc\<rparr>, State = PENDING,
      ErrorText = [], Status = TransactionMempool, PrivateKey = [11], Preimage = [],
      RedeemScript = [12], Invoice = ''lnbcrt1paid'', Address = ''bcrt1qlockup'',
      ExpectedAmount = 100200, TimoutBlockHeight = 800000, SwapTree = [], ClaimPubKey = [],
      BlindingKey = [], LockupTransactionId = ''lockuptxid'', RefundTransactionId = [],
      RefundAddress = ''bcrt1qstored'', IsAuto = False, ServiceFeePercent = 0, Wallet = []\<rparr>"

definition refund_ex :: MsgTx where
  "refund_ex =
     \<lparr>Version = 1,
      MsgTxIn = [\<lparr>PreviousOutPoint = \<lparr>Hash = ''lockuptxid'', Index = 1\<rparr>, Witness = [],
                  Sequence = 0\<rparr>],
      MsgTxOut = [\<lparr>Value = 100000, PkScript = [2]\<rparr>],
      LockTime = 800000\<rparr>"


section \<open>A concrete backend\<close>

text \<open>A setting used to run the definitions: a node that creates the invoice
  \<open>lnbcrt1node\<close>, an exchange that answers every request with the same swap, a swap tree
  check that accepts the trees and addresses of these answers only, and a database and a
  nursery that accept everything. The stand-in for SHA-256 reverses its input.\<close>

definition wallet_ex :: WalletHandle where
  "wallet_ex =
     \<lparr>wallet_Name = ''main'', wallet_NewAddress = Inr ''bcrt1qclaim'',
      wallet_SendToAddress = (\<lambda>address sats fee. Inr ''lockuptxid'')\<rparr>"

definition preimage_ex :: bytes where
  "preimage_ex = map (\<lambda>i. of_nat i) [0..<32]"

definition swapResponse_ex :: BoltzCreateSwapResponse where
  "swapResponse_ex =
     \<lparr>respId = ''swap1'', respAddress = ''bcrt1qlockup'', respExpectedAmount = 100200,
      respTimeoutBlockHeight = 800000, respSwapTree = [5], respClaimPublicKey = [3],
      respBlindingKey = [], respBip21 = ''bitcoin:bcrt1qlockup''\<rparr>"

definition reverseResponse_ex :: BoltzCreateReverseSwapResponse where
  "reverseResponse_ex =
     \<lparr>rrespId = ''rswap1'', rrespInvoice = ''lnbcrt1reverse'', rrespSwapTree = [6],
      rrespRefundPublicKey = [4], rrespLockupAddress = ''bcrt1qrlockup'',
      rrespTimeoutBlockHeight = 800100, rrespOnchainAmount = 99000, rrespBlindingKey = []\<rparr>"

definition backend_ex :: Backend where
  "backend_ex =
     \<lparr>rand_Read = None,
      rand_bytes = (\<lambda>i. of_nat i),
      sha256_Sum256 = rev,
      btcec_NewPrivateKey = Inr [1],
      btcec_PubKey = (\<lambda>key. 2 # key),
      btcec_ParsePubKey = (\<lambda>key. Inr key),
      zpay32_DecodeBtc = (\<lambda>invoice.
          if invoice = ''lnbcrt1user'' then Inr [9, 9]
          else if invoice = ''lnbcrt1node'' then Inr [8, 8]
          else if invoice = ''lnbcrt1reverse'' then Inr (rev preimage_ex)
          else Inl (Error ''invalid invoice'')),
      utils_ParsePair = (\<lambda>pair. case pair of
          None \<Rightarrow> \<lparr>From = CurrencyBtc, To = CurrencyBtc\<rparr> | Some p \<Rightarrow> p),
      utils_GetSwapMemo = (\<lambda>currency. ''Submarine Swap''),
      boltz_ValidateAddress = (\<lambda>address currency. None),
      boltz_BlocksToHours = (\<lambda>blocks currency. real (unat blocks) / 6),
      GetSubmarinePair = (\<lambda>pair. Inr \<lparr>pairHash = ''submarinehash'', feesPercentage = 1 / 10\<rparr>),
      GetReversePair = (\<lambda>pair. Inr \<lparr>pairHash = ''reversehash'', feesPercentage = 1 / 2\<rparr>),
      lightning = Some \<lparr>lightning_CreateInvoice = (\<lambda>amount memo.
          Inr \<lparr>PaymentRequest = ''lnbcrt1node'', PaymentHash = [8, 8]\<rparr>)\<rparr>,
      lightning_NewChanIdFromString = (\<lambda>chanId. Inr 0),
      onchain_GetWallet = (\<lambda>name currency readonly. Inr wallet_ex),
      onchain_GetBlockHeight = (\<lambda>currency. Inr 799900),
      onchain_EstimateFee = (\<lambda>currency target. Inr 2),
      boltz_CreateSwap = (\<lambda>request. Inr swapResponse_ex),
      boltz_CreateReverseSwap = (\<lambda>request. Inr reverseResponse_ex),
      SwapTree_Deserialize = (\<lambda>tree. tree),
      swap_InitTree = (\<lambda>swap. Inr (SwapTree swap)),
      swap_BlindingPubKey = (\<lambda>swap. None),
      reverseSwap_InitTree = (\<lambda>reverseSwap. Inr (rsSwapTree reverseSwap)),
      SwapTree_Check = (\<lambda>tree isReverse timeout preimageHash.
          if tree = [5] \<or> tree = [6] then None else Some (Error ''invalid tree'')),
      SwapTree_CheckAddress = (\<lambda>tree address blindingPubKey.
          if address = ''bcrt1qlockup'' \<or> address = ''bcrt1qrlockup'' then None
          else Some (Error ''invalid address'')),
      database_CreateSwap = (\<lambda>swap. None),
      database_CreateReverseSwap = (\<lambda>reverseSwap. None),
      database_UpdateReverseSwapState = (\<lambda>reverseSwap state msg. None),
      nursery_RegisterSwap = (\<lambda>swap. None),
      nursery_RegisterReverseSwap = (\<lambda>reverseSwap. None),
      nursery_PayReverseSwap = (\<lambda>reverseSwap. None),
      nursery_SwapUpdates = (\<lambda>swapId. [])\<rparr>"

text \<open>The same backend with an exchange whose answers do not verify: an address that is
  not the one of the tree, and an invoice with another payment hash.\<close>

definition backend_address_ex :: Backend where
  "backend_address_ex =
     backend_ex\<lparr>boltz_CreateSwap := (\<lambda>request. Inr (swapResponse_ex\<lparr>respAddress := ''bcrt1qevil''\<rparr>)),
                boltz_CreateReverseSwap := (\<lambda>request.
                  Inr (reverseResponse_ex\<lparr>rrespLockupAddress := ''bcrt1qevil''\<rparr>))\<rparr>"

definition backend_invoice_ex :: Backend where
  "backend_invoice_ex =
     backend_ex\<lparr>boltz_CreateReverseSwap := (\<lambda>request.
                  Inr (reverseResponse_ex\<lparr>rrespInvoice := ''lnbcrt1user''\<rparr>))\<rparr>"

text \<open>Requests: a submarine swap for an invoice of the user, one for an amount (the node
  creates the invoice), one without invoice and amount (a preimage is generated); a reverse
  swap to a given address, paid externally.\<close>

definition request_invoice_ex :: RpcCreateSwapRequest where
  "request_invoice_ex =
     \<lparr>reqAmount = 0, reqPair = None, reqSendFromInternal = False, reqRefundAddress = None,
      reqWallet = None, reqInvoice = Some ''lnbcrt1user''\<rparr>"

definition request_preimage_ex :: RpcCreateSwapRequest where
  "request_preimage_ex =
     \<lparr>reqAmount = 0, reqPair = None, reqSendFromInternal = False, reqRefundAddress = None,
      reqWallet = None, reqInvoice = None\<rparr>"

definition reverseRequest_ex :: RpcCreateReverseSwapRequest where
  "reverseRequest_ex =
     \<lparr>rreqAmount = 100000, rreqAddress = ''bcrt1qclaim'', rreqAcceptZeroConf = False,
      rreqPair = None, rreqChanIds = [], rreqWallet = None, rreqReturnImmediately = None,
      rreqExternalPay = Some True\<rparr>"

definition exchangeRequest_invoice_ex :: BoltzCreateSwapRequest where
  "exchangeRequest_invoice_ex =
     \<lparr>bFrom = CurrencyBtc, bTo = CurrencyBtc, bPairHash = ''submarinehash'',
      bRefundPublicKey = [2, 1], bReferralId = ''boltz-client'', bInvoice = ''lnbcrt1user'',
      bPreimageHash = []\<rparr>"

definition exchangeRequest_preimage_ex :: BoltzCreateSwapRequest where
  "exchangeRequest_preimage_ex =
     \<lparr>bFrom = CurrencyBtc, bTo = CurrencyBtc, bPairHash = ''submarinehash'',
      bRefundPublicKey = [2, 1], bReferralId = ''boltz-client'', bInvoice = [],
      bPreimageHash = rev preimage_ex\<rparr>"

definition reverseExchangeRequest_ex :: BoltzCreateReverseSwapRequest where
  "reverseExchangeRequest_ex =
     \<lparr>brFrom = CurrencyBtc, brTo = CurrencyBtc, brPairHash = ''reversehash'',
      brInvoiceAmount = 100000, brPreimageHash = rev preimage_ex, brClaimPublicKey = [2, 1],
      brReferralId = ''boltz-client''\<rparr>"

definition created_ex :: "string \<Rightarrow> bytes \<Rightarrow> Swap" where
  "created_ex invoice preimage =
     \<lparr>Id = ''swap1'', SwapPair = \<lparr>From = CurrencyBtc, To = CurrencyBtc\<rparr>, State = PENDING,
      ErrorText = [], Status = SwapCreated, PrivateKey = [1], Preimage = preimage,
      RedeemScript = [], Invoice = invoice, Address = ''bcrt1qlockup'',
      ExpectedAmount = 100200, TimoutBlockHeight = 800000, SwapTree = [5], ClaimPubKey = [3],
      BlindingKey = [], LockupTransactionId = [], RefundTransactionId = [],
      RefundAddress = [], IsAuto = False, ServiceFeePercent = 1 / 10, Wallet = []\<rparr>"

definition createdReverse_ex :: "string \<Rightarrow> ReverseSwap" where
  "createdReverse_ex invoice =
     \<lparr>rsId = ''rswap1'', rsIsAuto = False, rsPair = \<lparr>From = CurrencyBtc, To = CurrencyBtc\<rparr>,
      rsStatus = SwapCreated, rsState = PENDING, rsErrorText = [], rsAcceptZeroConf = False,
      rsPrivateKey = [1], rsSwapTree = [6], rsRefundPubKey = [4], rsPreimage = preimage_ex,
      rsInvoice = invoice, rsClaimAddress = ''bcrt1qclaim'', rsOnchainAmount = 99000,
      rsTimeoutBlockHeight = 800100, rsLockupTransactionId = [], rsClaimTransactionId = [],
      rsServiceFeePercent = 1 / 2, rsExternalPay = True, rsChanIds = [], rsBlindingKey = [],
      rsRoutingFeeMsat = None\<rparr>"




section \<open>A concrete locked server\<close>

text \<open>A locked daemon with one encrypted wallet, whose password is \<open>secret\<close>; a unary
  handler and a stream handler that both succeed and leave a trace in the server.\<close>

definition server_ex :: routedBoltzServer where
  "server_ex = \<lparr>locked = True, onchainWallets = [], nurseryInitialised = False\<rparr>"

definition unlockBackend_ex :: UnlockBackend where
  "unlockBackend_ex =
     \<lparr>database_QueryWalletCredentials =
        Inr [\<lparr>credentialsName = ''main'', credentialsEncrypted = True\<rparr>],
      credentials_Decrypt = (\<lambda>creds password.
        if password = ''secret'' then Inr (creds\<lparr>credentialsEncrypted := False\<rparr>)
        else Inl (Error ''cipher: message authentication failed'')),
      wallet_Login = (\<lambda>creds. Inr (credentialsName creds)),
      swapper_LoadConfig = None,
      nursery_Init = None\<rparr>"

definition unaryHandler_ex :: "routedBoltzServer \<Rightarrow> (error + string) \<times> routedBoltzServer" where
  "unaryHandler_ex server = (Inr ''handled'', server\<lparr>onchainWallets := ''touched'' # onchainWallets server\<rparr>)"

definition streamHandler_ex :: "routedBoltzServer \<Rightarrow> error option \<times> routedBoltzServer" where
  "streamHandler_ex server = (None, server\<lparr>onchainWallets := ''streamed'' # onchainWallets server\<rparr>)"


section \<open>A concrete websocket\<close>

text \<open>An exchange whose dials fail twice after the connection \<open>0\<close> was lost and succeed
  from the third on; after a request it sends a ping, an update of a swap and, one second
  after the request, the acknowledgement, and another goroutine receives one value from
  \<^verbatim>\<open>Updates\<close>. A websocket whose connection \<open>0\<close> is still stored; a client that calls
  \<^verbatim>\<open>Close\<close> during the first sleep of the reconnect loop.\<close>

definition update_ex :: wsResponse where
  "update_ex =
     \<lparr>wsEvent = ''update'', wsError = [], wsChannel = ''swap.update'',
      wsArgs = [\<lparr>updateId = ''swap0'', updateStatus = ''transaction.mempool''\<rparr>]\<rparr>"

definition acknowledgement_ex :: wsResponse where
  "acknowledgement_ex =
     \<lparr>wsEvent = ''subscribe'', wsError = [], wsChannel = ''swap.update'', wsArgs = []\<rparr>"

definition wsBackend_ex :: WsBackend where
  "wsBackend_ex =
     \<lparr>url_Parse = (\<lambda>raw. Inr \<lparr>Scheme = ''https'', Host = raw, Path = []\<rparr>),
      url_String = (\<lambda>u. Scheme u @ ''://'' @ Host u @ Path u),
      websocket_Dial = (\<lambda>n target. if n < 2 then Inl (Error ''connection refused'') else Inr n),
      conn_WriteMessage = (\<lambda>c request. None),
      conn_Close = (\<lambda>c. None),
      updatesTaken = 1,
      subscriptionsTaken = 0,
      incoming = [(200000000, PingMessage),
                  (400000000, TextMessage (Some update_ex)),
                  (1000000000, TextMessage (Some acknowledgement_ex))],
      selectPrefersChannel = False\<rparr>"

definition wsState_ex :: WsState where
  "wsState_ex =
     \<lparr>ws = \<lparr>apiUrl = ''api.boltz.exchange'', conn = Some 0, closed = False,
             updatesClosed = False\<rparr>,
      dials = 0, wsEvents = []\<rparr>"

definition closesFirst :: "nat \<Rightarrow> bool" where
  "closesFirst k = (k = 0)"

definition closedError :: WsEvent where
  "closedError = ConnectReturned (Some (Error ''websocket is closed''))"


section \<open>Properties of findLockupVout\<close>

lemma findLockupVout_from_found:
  "findLockupVout_from chain a k outs = Inr v \<Longrightarrow>
   \<exists>i<length outs. v = of_nat (k + i) \<and> paysTo chain a (outs ! i) \<and>
      (\<forall>j<i. \<not> paysTo chain a (outs ! j))"
proof (induction outs arbitrary: k)
  case Nil
  then show ?case by simp
next
  case (Cons out outs)
  show ?case
  proof (cases "paysTo chain a out")
    case True
    with Cons.prems have "v = of_nat k"
      by (auto simp: paysTo_def list_ex_iff split: sum.splits if_splits)
    with True show ?thesis by (intro exI[of _ 0]) simp
  next
    case False
    with Cons.prems have "findLockupVout_from chain a (Suc k) outs = Inr v"
      by (auto simp: paysTo_def list_ex_iff split: sum.splits if_splits)
    from Cons.IH[OF this] obtain i where i: "i < length outs" "v = of_nat (Suc k + i)"
      "paysTo chain a (outs ! i)" "\<forall>j<i. \<not> paysTo chain a (outs ! j)" by blast
    have "\<forall>j<Suc i. \<not> paysTo chain a ((out # outs) ! j)"
      using False i(4) by (auto simp: less_Suc_eq_0_disj)
    with i show ?thesis by (intro exI[of _ "Suc i"]) simp
  qed
qed

lemma findLockupVout_from_error:
  "(\<exists>e. findLockupVout_from chain a k outs = Inl e) \<longleftrightarrow> (\<forall>out\<in>set outs. \<not> paysTo chain a out)"
  by (induction outs arbitrary: k) (auto simp: paysTo_def list_ex_iff split: sum.splits)

lemma findLockupVout_from_error_value:
  "findLockupVout_from chain a k outs = Inl e \<Longrightarrow> e = Error ''could not find lockup vout''"
  by (induction outs arbitrary: k) (auto split: sum.splits if_splits)

text \<open>Claim C7. \<^verbatim>\<open>findLockupVout\<close> returns the index of the first output whose decoded
  script address equals the lockup address (outputs that fail to decode never match and
  are skipped), as the \<^verbatim>\<open>uint32\<close> conversion of that index, which is the index itself
  for every transaction with at most \<open>2^32\<close> outputs; it returns an error exactly when
  no output matches, and that error is "could not find lockup vout".\<close>

theorem findLockupVout_first_match:
  "(findLockupVout chain a outs = Inr v \<longrightarrow>
      (\<exists>i<length outs. v = of_nat i \<and> paysTo chain a (outs ! i) \<and>
          (\<forall>j<i. \<not> paysTo chain a (outs ! j)) \<and>
          (length outs \<le> 2 ^ 32 \<longrightarrow> unat v = i))) \<and>
   ((\<exists>e. findLockupVout chain a outs = Inl e) \<longleftrightarrow> (\<forall>out\<in>set outs. \<not> paysTo chain a out)) \<and>
   (findLockupVout chain a outs = Inl e \<longrightarrow> e = Error ''could not find lockup vout'')"
proof (intro conjI impI)
  assume "findLockupVout chain a outs = Inr v"
  then obtain i where i: "i < length outs" "v = of_nat i" "paysTo chain a (outs ! i)"
    "\<forall>j<i. \<not> paysTo chain a (outs ! j)"
    using findLockupVout_from_found[of chain a 0 outs v] by (auto simp: findLockupVout_def)
  have "length outs \<le> 2 ^ 32 \<longrightarrow> unat v = i"
  proof
    assume "length outs \<le> 2 ^ 32"
    with i(1) have "i < 2 ^ 32" by simp
    then show "unat v = i" using i(2) by (simp add: unat_of_nat)
  qed
  with i show "\<exists>i<length outs. v = of_nat i \<and> paysTo chain a (outs ! i) \<and>
          (\<forall>j<i. \<not> paysTo chain a (outs ! j)) \<and> (length outs \<le> 2 ^ 32 \<longrightarrow> unat v = i)"
    by blast
next
  show "(\<exists>e. findLockupVout chain a outs = Inl e) \<longleftrightarrow> (\<forall>out\<in>set outs. \<not> paysTo chain a out)"
    by (simp add: findLockupVout_def findLockupVout_from_error)
next
  assume "findLockupVout chain a outs = Inl e"
  then show "e = Error ''could not find lockup vout''"
    by (simp add: findLockupVout_def findLockupVout_from_error_value)
qed

theorem findLockupVout_first_match_witness:
  "findLockupVout chain_ex ''bcrt1qlockup'' (MsgTxOut lockup_ex) = Inr 1 \<and>
   length (MsgTxOut lockup_ex) \<le> 2 ^ 32 \<and>
   paysTo chain_ex ''bcrt1qlockup'' (MsgTxOut lockup_ex ! 1) \<and>
   \<not> paysTo chain_ex ''bcrt1qlockup'' (MsgTxOut lockup_ex ! 0) \<and>
   findLockupVout chain_ex ''bcrt1qabsent'' (MsgTxOut lockup_ex) =
     Inl (Error ''could not find lockup vout'') \<and>
   list_all (\<lambda>out. \<not> paysTo chain_ex ''bcrt1qabsent'' out) (MsgTxOut lockup_ex)"
proof -
  have found: "findLockupVout chain_ex ''bcrt1qlockup'' (MsgTxOut lockup_ex) = Inr 1"
    by (simp add: findLockupVout_def chain_ex_def lockup_ex_def)
  have len: "length (MsgTxOut lockup_ex) \<le> 2 ^ 32"
    by (simp add: lockup_ex_def)
  have missing: "findLockupVout chain_ex ''bcrt1qabsent'' (MsgTxOut lockup_ex) =
      Inl (Error ''could not find lockup vout'')"
    by (simp add: findLockupVout_def chain_ex_def lockup_ex_def)
  from findLockupVout_first_match[of chain_ex "''bcrt1qlockup''" "MsgTxOut lockup_ex" 1] found len
  obtain i where "unat (1 :: 32 word) = i"
    "paysTo chain_ex ''bcrt1qlockup'' (MsgTxOut lockup_ex ! i)"
    "\<forall>j<i. \<not> paysTo chain_ex ''bcrt1qlockup'' (MsgTxOut lockup_ex ! j)"
    by blast
  then have first: "paysTo chain_ex ''bcrt1qlockup'' (MsgTxOut lockup_ex ! 1)"
    "\<not> paysTo chain_ex ''bcrt1qlockup'' (MsgTxOut lockup_ex ! 0)"
    by auto
  from findLockupVout_first_match[of chain_ex "''bcrt1qabsent''" "MsgTxOut lockup_ex"] missing
  have "\<forall>out\<in>set (MsgTxOut lockup_ex). \<not> paysTo chain_ex ''bcrt1qabsent'' out"
    by blast
  then have none: "list_all (\<lambda>out. \<not> paysTo chain_ex ''bcrt1qabsent'' out) (MsgTxOut lockup_ex)"
    by (simp add: list_all_iff)
  from found len first missing none show ?thesis by simp
qed


section \<open>Properties of handleSwapStatus\<close>

lemma handleSwapStatus_other:
  "boltz_ParseEvent nursery status \<noteq> TransactionClaimed \<Longrightarrow>
   handleSwapStatus nursery swap status =
     (snd (database_UpdateSwapStatus nursery swap (boltz_ParseEvent nursery status)),
      [DatabaseUpdateSwapStatus (Id swap) (boltz_ParseEvent nursery status)])"
  by (simp add: handleSwapStatus_def Let_def split: prod.splits)

text \<open>Claim C2. On \<^verbatim>\<open>transaction.claimed\<close> the nursery writes the status of the swap, and
  it writes the claimed (successful) status, exactly when the invoice of the swap decodes and
  the node reports it settled. When the invoice does not decode, the lookup fails or the
  invoice is not settled, \<^verbatim>\<open>handleSwapStatus\<close> returns with the swap as it was and without
  a write to the database.\<close>

theorem handleSwapStatus_claimed:
  assumes "boltz_ParseEvent nursery status = TransactionClaimed"
  shows "((\<exists>h. zpay32_Decode nursery (Invoice swap) = Inr h \<and>
               lnd_LookupInvoice nursery h = Inr Invoice_SETTLED) \<longrightarrow>
            handleSwapStatus nursery swap status =
              (snd (database_UpdateSwapStatus nursery swap TransactionClaimed),
               [DatabaseUpdateSwapStatus (Id swap) TransactionClaimed])) \<and>
         (\<not> (\<exists>h. zpay32_Decode nursery (Invoice swap) = Inr h \<and>
               lnd_LookupInvoice nursery h = Inr Invoice_SETTLED) \<longrightarrow>
            handleSwapStatus nursery swap status = (swap, []))"
  using assms
  by (auto simp: handleSwapStatus_def Let_def split: sum.splits prod.splits)

theorem handleSwapStatus_claimed_witness:
  "boltz_ParseEvent nursery_ex ''transaction.claimed'' = TransactionClaimed \<and>
   zpay32_Decode nursery_ex (Invoice swap_ex) = Inr [7] \<and>
   lnd_LookupInvoice nursery_ex [7] = Inr Invoice_SETTLED \<and>
   handleSwapStatus nursery_ex swap_ex ''transaction.claimed'' =
     (swap_ex\<lparr>Status := TransactionClaimed\<rparr>,
      [DatabaseUpdateSwapStatus ''swap1'' TransactionClaimed]) \<and>
   zpay32_Decode nursery_ex (Invoice (swap_ex\<lparr>Invoice := ''lnbcrt1open''\<rparr>)) = Inr [8] \<and>
   lnd_LookupInvoice nursery_ex [8] = Inr Invoice_OPEN \<and>
   handleSwapStatus nursery_ex (swap_ex\<lparr>Invoice := ''lnbcrt1open''\<rparr>) ''transaction.claimed'' =
     (swap_ex\<lparr>Invoice := ''lnbcrt1open''\<rparr>, [])"
proof -
  have parsed: "boltz_ParseEvent nursery_ex ''transaction.claimed'' = TransactionClaimed"
    by (simp add: nursery_ex_def)
  have paid: "zpay32_Decode nursery_ex (Invoice swap_ex) = Inr [7]"
    "lnd_LookupInvoice nursery_ex [7] = Inr Invoice_SETTLED"
    by (simp_all add: nursery_ex_def swap_ex_def)
  have unpaid: "zpay32_Decode nursery_ex (Invoice (swap_ex\<lparr>Invoice := ''lnbcrt1open''\<rparr>)) = Inr [8]"
    "lnd_LookupInvoice nursery_ex [8] = Inr Invoice_OPEN"
    by (simp_all add: nursery_ex_def swap_ex_def)
  have written: "snd (database_UpdateSwapStatus nursery_ex swap_ex TransactionClaimed) =
      swap_ex\<lparr>Status := TransactionClaimed\<rparr>" "Id swap_ex = ''swap1''"
    by (simp_all add: nursery_ex_def swap_ex_def)
  from handleSwapStatus_claimed[OF parsed, of swap_ex] paid written
  have settled: "handleSwapStatus nursery_ex swap_ex ''transaction.claimed'' =
     (swap_ex\<lparr>Status := TransactionClaimed\<rparr>,
      [DatabaseUpdateSwapStatus ''swap1'' TransactionClaimed])"
    by simp
  from handleSwapStatus_claimed[OF parsed, of "swap_ex\<lparr>Invoice := ''lnbcrt1open''\<rparr>"] unpaid
  have unsettled: "handleSwapStatus nursery_ex (swap_ex\<lparr>Invoice := ''lnbcrt1open''\<rparr>)
      ''transaction.claimed'' = (swap_ex\<lparr>Invoice := ''lnbcrt1open''\<rparr>, [])"
    by simp
  from parsed paid unpaid settled unsettled show ?thesis by blast
qed


section \<open>Properties of refundSwap\<close>

lemma ConstructRefundTransaction_result:
  assumes "ConstructRefundTransaction nursery lockupTransaction lockupVout key script address
             timeout = Inr tx"
  shows "LockTime tx = timeout"
    and "map PreviousOutPoint (MsgTxIn tx) =
           [\<lparr>Hash = TxHash (chainParams nursery) lockupTransaction, Index = lockupVout\<rparr>]"
    and "map PkScript (MsgTxOut tx) = [PayToAddrScript (chainParams nursery) address]"
    and "unat lockupVout < length (MsgTxOut lockupTransaction)"
  using assms
  by (auto simp: ConstructRefundTransaction_def Let_def split: if_splits)

lemma refundSwap_construct_steps:
  assumes "refundSwap_construct nursery swap = Inr (address, lockupTransaction, lockupVout, tx)"
  shows "\<exists>addressString. lnd_NewAddress nursery = Inr addressString \<and>
           DecodeAddress (chainParams nursery) addressString = Inr address"
    and "\<exists>transactionHex raw. boltz_GetSwapTransaction nursery (Id swap) = Inr transactionHex \<and>
           hex_DecodeString nursery transactionHex = Inr raw \<and>
           btcutil_NewTxFromBytes nursery raw = Inr lockupTransaction"
    and "findLockupVout (chainParams nursery) (Address swap) (MsgTxOut lockupTransaction) =
           Inr lockupVout"
    and "ConstructRefundTransaction nursery lockupTransaction lockupVout (PrivateKey swap)
           (RedeemScript swap) address (word_of_int (TimoutBlockHeight swap)) = Inr tx"
  using assms
  by (auto simp: refundSwap_construct_def split: sum.splits)

lemma refundSwap_broadcast:
  assumes "BoltzBroadcastTransaction txHex \<in> set (refundSwap nursery swap)"
  shows "\<exists>address lockupTransaction lockupVout tx.
           refundSwap_construct nursery swap = Inr (address, lockupTransaction, lockupVout, tx) \<and>
           boltz_SerializeTransaction nursery tx = Inr txHex"
proof -
  have no_broadcast: "BoltzBroadcastTransaction txHex \<notin> set (snd (handleSwapStatus nursery swap s))"
    for s
    by (auto simp: handleSwapStatus_def Let_def split: sum.splits prod.splits if_splits)
  show ?thesis
  proof (cases "refundSwap_construct nursery swap")
    case (Inl err)
    with assms show ?thesis by (simp add: refundSwap_def)
  next
    case (Inr built)
    obtain address lockupTransaction lockupVout tx
      where built: "built = (address, lockupTransaction, lockupVout, tx)"
      by (cases built) auto
    from assms Inr built no_broadcast
    have "boltz_SerializeTransaction nursery tx = Inr txHex"
      by (auto simp: refundSwap_def split: sum.splits)
    with Inr built show ?thesis by simp
  qed
qed

text \<open>Claim C3. A refund transaction built by \<^verbatim>\<open>refundSwap\<close> carries as lock time the
  \<^verbatim>\<open>uint32\<close> conversion of the timeout block height of the swap, which is the timeout
  block height itself whenever that is a block height (\<open>0 \<le> h < 2^32\<close>); its single input
  spends, in the lockup transaction fetched for the swap, the first output that pays the
  lockup address of the swap. A transaction read from the wire has fewer than \<open>2^32\<close>
  outputs. Every transaction that \<^verbatim>\<open>refundSwap\<close> broadcasts is one built this way.\<close>

theorem refund_locktime_and_outpoint:
  assumes "refundSwap_construct nursery swap = Inr (address, lockupTransaction, lockupVout, tx)"
    and "length (MsgTxOut lockupTransaction) \<le> 2 ^ 32"
  shows "LockTime tx = word_of_int (TimoutBlockHeight swap) \<and>
         (0 \<le> TimoutBlockHeight swap \<and> TimoutBlockHeight swap < 2 ^ 32 \<longrightarrow>
            uint (LockTime tx) = TimoutBlockHeight swap) \<and>
         (\<exists>transactionHex raw. boltz_GetSwapTransaction nursery (Id swap) = Inr transactionHex \<and>
            hex_DecodeString nursery transactionHex = Inr raw \<and>
            btcutil_NewTxFromBytes nursery raw = Inr lockupTransaction) \<and>
         (\<exists>i<length (MsgTxOut lockupTransaction).
            map PreviousOutPoint (MsgTxIn tx) =
              [\<lparr>Hash = TxHash (chainParams nursery) lockupTransaction, Index = of_nat i\<rparr>] \<and>
            unat lockupVout = i \<and>
            paysTo (chainParams nursery) (Address swap) (MsgTxOut lockupTransaction ! i) \<and>
            (\<forall>j<i. \<not> paysTo (chainParams nursery) (Address swap) (MsgTxOut lockupTransaction ! j))) \<and>
         (\<forall>txHex. BoltzBroadcastTransaction txHex \<in> set (refundSwap nursery swap) \<longrightarrow>
            boltz_SerializeTransaction nursery tx = Inr txHex)"
proof -
  note steps = refundSwap_construct_steps[OF assms(1)]
  note built = ConstructRefundTransaction_result[OF steps(4)]
  have locktime: "LockTime tx = word_of_int (TimoutBlockHeight swap)"
    by (rule built(1))
  have in_range: "0 \<le> TimoutBlockHeight swap \<and> TimoutBlockHeight swap < 2 ^ 32 \<longrightarrow>
      uint (LockTime tx) = TimoutBlockHeight swap"
    by (simp add: locktime uint_word_of_int take_bit_int_eq_self)
  from steps(3) obtain i where i: "i < length (MsgTxOut lockupTransaction)"
      "lockupVout = of_nat i"
      "paysTo (chainParams nursery) (Address swap) (MsgTxOut lockupTransaction ! i)"
      "\<forall>j<i. \<not> paysTo (chainParams nursery) (Address swap) (MsgTxOut lockupTransaction ! j)"
    using findLockupVout_from_found[of "chainParams nursery" "Address swap" 0
        "MsgTxOut lockupTransaction" lockupVout]
    by (auto simp: findLockupVout_def)
  from i(1) assms(2) have "i < 2 ^ 32" by simp
  then have vout: "unat lockupVout = i"
    using i(2) by (simp add: unat_of_nat)
  have outpoint: "map PreviousOutPoint (MsgTxIn tx) =
      [\<lparr>Hash = TxHash (chainParams nursery) lockupTransaction, Index = of_nat i\<rparr>]"
    using built(2) i(2) by simp
  have spent: "\<exists>i<length (MsgTxOut lockupTransaction).
            map PreviousOutPoint (MsgTxIn tx) =
              [\<lparr>Hash = TxHash (chainParams nursery) lockupTransaction, Index = of_nat i\<rparr>] \<and>
            unat lockupVout = i \<and>
            paysTo (chainParams nursery) (Address swap) (MsgTxOut lockupTransaction ! i) \<and>
            (\<forall>j<i. \<not> paysTo (chainParams nursery) (Address swap) (MsgTxOut lockupTransaction ! j))"
  proof (intro exI[of _ i] conjI)
    show "i < length (MsgTxOut lockupTransaction)" by (rule i(1))
    show "map PreviousOutPoint (MsgTxIn tx) =
        [\<lparr>Hash = TxHash (chainParams nursery) lockupTransaction, Index = of_nat i\<rparr>]"
      by (rule outpoint)
    show "unat lockupVout = i" by (rule vout)
    show "paysTo (chainParams nursery) (Address swap) (MsgTxOut lockupTransaction ! i)"
      by (rule i(3))
    show "\<forall>j<i. \<not> paysTo (chainParams nursery) (Address swap) (MsgTxOut lockupTransaction ! j)"
      by (rule i(4))
  qed
  have sent: "\<forall>txHex. BoltzBroadcastTransaction txHex \<in> set (refundSwap nursery swap) \<longrightarrow>
            boltz_SerializeTransaction nursery tx = Inr txHex"
    using refundSwap_broadcast assms(1) by fastforce
  from locktime in_range steps(2) spent sent show ?thesis
    by - (intro conjI; assumption)
qed

lemma refundSwap_construct_ex:
  "refundSwap_construct nursery_ex swap_ex = Inr (''bcrt1qnode'', lockup_ex, 1, refund_ex)"
  by (simp add: refundSwap_construct_def nursery_ex_def swap_ex_def chain_ex_def lockup_ex_def
      refund_ex_def findLockupVout_def ConstructRefundTransaction_def)

theorem refund_locktime_and_outpoint_witness:
  "refundSwap_construct nursery_ex swap_ex = Inr (''bcrt1qnode'', lockup_ex, 1, refund_ex) \<and>
   length (MsgTxOut lockup_ex) \<le> 2 ^ 32 \<and>
   TimoutBlockHeight swap_ex = 800000 \<and>
   uint (LockTime refund_ex) = 800000 \<and>
   map PreviousOutPoint (MsgTxIn refund_ex) = [\<lparr>Hash = ''lockuptxid'', Index = 1\<rparr>] \<and>
   paysTo (chainParams nursery_ex) (Address swap_ex) (MsgTxOut lockup_ex ! 1) \<and>
   \<not> paysTo (chainParams nursery_ex) (Address swap_ex) (MsgTxOut lockup_ex ! 0) \<and>
   refundSwap nursery_ex swap_ex =
     [BoltzBroadcastTransaction ''0100'', DatabaseUpdateSwapStatus ''swap1'' SwapRefunded] \<and>
   boltz_SerializeTransaction nursery_ex refund_ex = Inr ''0100''"
proof -
  have len: "length (MsgTxOut lockup_ex) \<le> 2 ^ 32"
    by (simp add: lockup_ex_def)
  have height: "TimoutBlockHeight swap_ex = 800000"
    by (simp add: swap_ex_def)
  have sent: "refundSwap nursery_ex swap_ex =
     [BoltzBroadcastTransaction ''0100'', DatabaseUpdateSwapStatus ''swap1'' SwapRefunded]"
    unfolding refundSwap_def refundSwap_construct_ex
    by (simp add: handleSwapStatus_def nursery_ex_def swap_ex_def)
  from refund_locktime_and_outpoint[OF refundSwap_construct_ex len]
  have "uint (LockTime refund_ex) = TimoutBlockHeight swap_ex"
    and "\<exists>i<length (MsgTxOut lockup_ex).
            map PreviousOutPoint (MsgTxIn refund_ex) =
              [\<lparr>Hash = TxHash (chainParams nursery_ex) lockup_ex, Index = of_nat i\<rparr>] \<and>
            unat (1 :: 32 word) = i \<and>
            paysTo (chainParams nursery_ex) (Address swap_ex) (MsgTxOut lockup_ex ! i) \<and>
            (\<forall>j<i. \<not> paysTo (chainParams nursery_ex) (Address swap_ex) (MsgTxOut lockup_ex ! j))"
    and "boltz_SerializeTransaction nursery_ex refund_ex = Inr ''0100''"
    by (simp_all add: height sent)
  then have "uint (LockTime refund_ex) = 800000"
    and "map PreviousOutPoint (MsgTxIn refund_ex) = [\<lparr>Hash = ''lockuptxid'', Index = 1\<rparr>]"
    and "paysTo (chainParams nursery_ex) (Address swap_ex) (MsgTxOut lockup_ex ! 1)"
    and "\<not> paysTo (chainParams nursery_ex) (Address swap_ex) (MsgTxOut lockup_ex ! 0)"
    and "boltz_SerializeTransaction nursery_ex refund_ex = Inr ''0100''"
    by (auto simp: height nursery_ex_def chain_ex_def)
  with refundSwap_construct_ex len height sent show ?thesis by blast
qed


section \<open>Properties of swap creation\<close>

subsection \<open>The calls of each part\<close>

lemma otherCall_simps [simp]:
  "otherCall (LightningCreateInvoice amount memo)"
  "otherCall (BoltzCreateSwap exchangeRequest)"
  "otherCall (BoltzCreateReverseSwap reverseRequest)"
  "otherCall (WalletNewAddress name)"
  "\<not> otherCall (SwapTreeCheck tree isReverse timeout preimageHash res)"
  "\<not> otherCall (SwapTreeCheckAddress tree address blindingPubKey res)"
  "\<not> otherCall (DatabaseCreateSwap swap res)"
  "\<not> otherCall (DatabaseCreateReverseSwap reverseSwap res)"
  "otherCall (DatabaseUpdateReverseSwapState swapId state msg)"
  "otherCall (WalletSendToAddress address sats fee)"
  "otherCall (NurseryRegisterSwap swapId)"
  "otherCall (NurseryRegisterReverseSwap swapId)"
  "otherCall (NurseryPayReverseSwap swapId)"
  by (simp_all add: otherCall_def)

lemma otherCall_neither:
  "otherCall e \<Longrightarrow> \<not> isDatabaseCreate e \<and> \<not> failedVerification e \<and> recordsCall backend e"
  by (cases e) simp_all

lemma list_all_otherCall:
  assumes "list_all otherCall events"
  shows "\<not> list_ex isDatabaseCreate events" and "\<not> list_ex failedVerification events"
    and "list_all (recordsCall backend) events"
    and "list_all (\<lambda>e. \<not> isDatabaseCreate e \<and> recordsCall backend e) events"
  using assms otherCall_neither
  by (auto simp: list_all_iff list_ex_iff)

lemma createSwap_preimage_events:
  "createSwap_preimage backend request pair exchangeRequest = (res, events) \<Longrightarrow>
   list_all otherCall events \<and> list_all (\<lambda>e. \<not> isExchangeRequest e) events"
  by (auto simp: createSwap_preimage_def split: if_splits sum.splits option.splits prod.splits)

lemma createSwap_prepare_events:
  "createSwap_prepare backend isAuto request = (res, events) \<Longrightarrow> list_all otherCall events"
  apply (clarsimp simp: createSwap_prepare_def Let_def
      split: sum.splits prod.splits option.splits if_splits)
  apply (auto dest: createSwap_preimage_events)
  done

lemma createSwap_prepare_ok:
  "createSwap_prepare backend isAuto request = (Inr (response, wallet, pair, ph, swap0), events) \<Longrightarrow>
     \<exists>exchangeRequest events1 hash publicKey.
        createSwap_preimage backend request pair
          \<lparr>bFrom = From pair, bTo = To pair, bPairHash = hash,
           bRefundPublicKey = publicKey, bReferralId = referralId, bInvoice = [],
           bPreimageHash = []\<rparr> = (Inr (Preimage swap0, ph, exchangeRequest), events1) \<and>
        events = events1 @ [BoltzCreateSwap exchangeRequest] \<and>
        boltz_CreateSwap backend exchangeRequest = Inr response \<and>
        Invoice swap0 = bInvoice exchangeRequest \<and> Address swap0 = respAddress response \<and>
        SwapPair swap0 = pair \<and>
        TimoutBlockHeight swap0 = uint (respTimeoutBlockHeight response) \<and>
        SwapTree swap0 = SwapTree_Deserialize backend (respSwapTree response)"
  apply (clarsimp simp: createSwap_prepare_def Let_def
      split: sum.splits prod.splits option.splits if_splits)
   apply (intro conjI exI, assumption)+
  done

lemma createSwap_verify_error:
  "createSwap_verify backend request response wallet ph swap0 = (Inl err, events) \<Longrightarrow>
     list_all (\<lambda>e. \<not> isDatabaseCreate e \<and> recordsCall backend e) events"
  by (auto simp: createSwap_verify_def Let_def split: if_splits sum.splits option.splits)

lemma createSwap_verify_ok:
  "createSwap_verify backend request response wallet ph swap0 = (Inr swap, events) \<Longrightarrow>
     events = [SwapTreeCheck (SwapTree swap) False (TimoutBlockHeight swap) ph None,
               SwapTreeCheckAddress (SwapTree swap) (respAddress response)
                 (swap_BlindingPubKey backend swap) None] \<and>
     SwapTree_Check backend (SwapTree swap) False (TimoutBlockHeight swap) ph = None \<and>
     SwapTree_CheckAddress backend (SwapTree swap) (respAddress response)
       (swap_BlindingPubKey backend swap) = None \<and>
     Address swap = Address swap0 \<and> Preimage swap = Preimage swap0 \<and>
     Invoice swap = Invoice swap0 \<and> TimoutBlockHeight swap = TimoutBlockHeight swap0 \<and>
     SwapPair swap = SwapPair swap0"
  by (auto simp: createSwap_verify_def Let_def split: if_splits sum.splits option.splits)

lemma createSwap_verify_key:
  "createSwap_verify backend request response wallet ph swap0 = (Inr swap, events) \<Longrightarrow>
     From (SwapPair swap) = CurrencyLiquid \<longrightarrow> BlindingKey swap = respBlindingKey response"
  by (auto simp: createSwap_verify_def Let_def split: if_splits sum.splits option.splits)

lemma createSwap_verify_tree:
  "createSwap_verify backend request response wallet ph swap0 = (Inr swap, events) \<Longrightarrow>
     swap_InitTree backend (swap\<lparr>SwapTree := SwapTree swap0\<rparr>) = Inr (SwapTree swap)"
  by (auto simp: createSwap_verify_def Let_def split: if_splits sum.splits option.splits)

lemma createSwap_persist_events:
  "createSwap_persist backend request response wallet pair swap = (res, events) \<Longrightarrow>
     \<exists>rest. events = DatabaseCreateSwap swap (database_CreateSwap backend swap) # rest \<and>
       list_all otherCall rest \<and>
       (\<forall>out. res = Inr out \<longrightarrow> database_CreateSwap backend swap = None)"
  by (auto simp: createSwap_persist_def Let_def
      split: if_splits sum.splits option.splits prod.splits)

lemma createSwap_stages:
  assumes "createSwap backend isAuto request = (result, events)"
  obtains (prepare) err where
      "createSwap_prepare backend isAuto request = (Inl err, events)" "result = Inl err"
    | (verify) response wallet pair ph swap0 e1 e2 err where
      "createSwap_prepare backend isAuto request = (Inr (response, wallet, pair, ph, swap0), e1)"
      "createSwap_verify backend request response wallet ph swap0 = (Inl err, e2)"
      "result = Inl err" "events = e1 @ e2"
    | (persist) response wallet pair ph swap0 swap e1 e2 e3 where
      "createSwap_prepare backend isAuto request = (Inr (response, wallet, pair, ph, swap0), e1)"
      "createSwap_verify backend request response wallet ph swap0 = (Inr swap, e2)"
      "createSwap_persist backend request response wallet pair swap = (result, e3)"
      "events = e1 @ e2 @ e3"
  using assms
  by (auto simp: createSwap_def split: sum.splits prod.splits)

lemma createReverseSwap_claimAddress_events:
  "createReverseSwap_claimAddress backend request pair = (res, events) \<Longrightarrow>
   list_all otherCall events \<and> list_all (\<lambda>e. \<not> isExchangeRequest e) events"
  by (auto simp: createReverseSwap_claimAddress_def split: if_splits sum.splits option.splits)

lemma createReverseSwap_prepare_events:
  "createReverseSwap_prepare backend isAuto request = (res, events) \<Longrightarrow> list_all otherCall events"
  apply (clarsimp simp: createReverseSwap_prepare_def Let_def
      split: sum.splits prod.splits option.splits if_splits)
  apply (auto dest: createReverseSwap_claimAddress_events)
  done

lemma createReverseSwap_prepare_requests:
  "createReverseSwap_prepare backend isAuto request = (res, events) \<Longrightarrow>
   length (filter isExchangeRequest events) \<le> 1"
  apply (clarsimp simp: createReverseSwap_prepare_def Let_def
      split: sum.splits prod.splits option.splits if_splits)
  apply (auto simp: list_all_iff filter_empty_conv[THEN iffD2]
      dest!: createReverseSwap_claimAddress_events)
  done

lemma createReverseSwap_prepare_ok:
  "createReverseSwap_prepare backend isAuto request =
     (Inr (response, externalPay, returnImmediately, ph, reverseSwap0), events) \<Longrightarrow>
   newPreimage backend = Inr (rsPreimage reverseSwap0, ph) \<and>
   rsInvoice reverseSwap0 = rrespInvoice response \<and>
   rsTimeoutBlockHeight reverseSwap0 = uint (rrespTimeoutBlockHeight response) \<and>
   rsSwapTree reverseSwap0 = SwapTree_Deserialize backend (rrespSwapTree response) \<and>
   (\<exists>events1 request'. events = events1 @ [BoltzCreateReverseSwap request'] \<and>
      brPreimageHash request' = ph \<and>
      boltz_CreateReverseSwap backend request' = Inr response \<and>
      list_all (\<lambda>e. \<not> isExchangeRequest e) events1)"
  apply (clarsimp simp: createReverseSwap_prepare_def Let_def
      split: sum.splits prod.splits option.splits if_splits)
  apply (auto dest: createReverseSwap_claimAddress_events)
  done

lemma createReverseSwap_verify_error:
  "createReverseSwap_verify backend request response ph reverseSwap0 = (Inl err, events) \<Longrightarrow>
     list_all (\<lambda>e. \<not> isDatabaseCreate e \<and> recordsCall backend e) events \<and>
     list_all (\<lambda>e. \<not> isExchangeRequest e) events"
  by (auto simp: createReverseSwap_verify_def Let_def split: if_splits sum.splits option.splits)

lemma createReverseSwap_verify_ok:
  "createReverseSwap_verify backend request response ph reverseSwap0 = (Inr reverseSwap, events) \<Longrightarrow>
     (\<exists>blindingPubKey.
        events = [SwapTreeCheck (rsSwapTree reverseSwap) True (rsTimeoutBlockHeight reverseSwap)
                    ph None,
                  SwapTreeCheckAddress (rsSwapTree reverseSwap) (rrespLockupAddress response)
                    blindingPubKey None] \<and>
        SwapTree_Check backend (rsSwapTree reverseSwap) True (rsTimeoutBlockHeight reverseSwap)
          ph = None \<and>
        SwapTree_CheckAddress backend (rsSwapTree reverseSwap) (rrespLockupAddress response)
          blindingPubKey = None \<and>
        blindingPubKey = (if To (rsPair reverseSwap) = CurrencyLiquid
                          then Some (btcec_PubKey backend (rsBlindingKey reverseSwap))
                          else None)) \<and>
     zpay32_DecodeBtc backend (rsInvoice reverseSwap) = Inr ph \<and>
     rsPreimage reverseSwap = rsPreimage reverseSwap0 \<and>
     rsInvoice reverseSwap = rsInvoice reverseSwap0"
  by (auto simp: createReverseSwap_verify_def Let_def split: if_splits sum.splits option.splits)

lemma createReverseSwap_verify_fields:
  "createReverseSwap_verify backend request response ph reverseSwap0 = (Inr reverseSwap, events) \<Longrightarrow>
     rsTimeoutBlockHeight reverseSwap = rsTimeoutBlockHeight reverseSwap0 \<and>
     rsPair reverseSwap = rsPair reverseSwap0 \<and>
     (To (rsPair reverseSwap) = CurrencyLiquid \<longrightarrow>
        rsBlindingKey reverseSwap = rrespBlindingKey response) \<and>
     (To (rsPair reverseSwap) \<noteq> CurrencyLiquid \<longrightarrow>
        rsBlindingKey reverseSwap = rsBlindingKey reverseSwap0)"
  by (auto simp: createReverseSwap_verify_def Let_def split: if_splits sum.splits option.splits)

lemma createReverseSwap_verify_tree:
  "createReverseSwap_verify backend request response ph reverseSwap0 = (Inr reverseSwap, events) \<Longrightarrow>
     reverseSwap_InitTree backend (reverseSwap\<lparr>rsSwapTree := rsSwapTree reverseSwap0\<rparr>) =
       Inr (rsSwapTree reverseSwap)"
  by (auto simp: createReverseSwap_verify_def Let_def split: if_splits sum.splits option.splits)

lemma createReverseSwap_persist_events:
  "createReverseSwap_persist backend request response externalPay returnImmediately reverseSwap
      = (res, events) \<Longrightarrow>
     \<exists>rest. events = DatabaseCreateReverseSwap reverseSwap
                       (database_CreateReverseSwap backend reverseSwap) # rest \<and>
       list_all otherCall rest \<and> list_all (\<lambda>e. \<not> isExchangeRequest e) rest \<and>
       (\<forall>out. res = Inr out \<longrightarrow> database_CreateReverseSwap backend reverseSwap = None)"
  by (auto simp: createReverseSwap_persist_def Let_def
      split: if_splits sum.splits option.splits prod.splits)

lemma createReverseSwap_stages:
  assumes "createReverseSwap backend isAuto request = (result, events)"
  obtains (prepare) err where
      "createReverseSwap_prepare backend isAuto request = (Inl err, events)" "result = Inl err"
    | (verify) response externalPay returnImmediately ph reverseSwap0 e1 e2 err where
      "createReverseSwap_prepare backend isAuto request =
         (Inr (response, externalPay, returnImmediately, ph, reverseSwap0), e1)"
      "createReverseSwap_verify backend request response ph reverseSwap0 = (Inl err, e2)"
      "result = Inl err" "events = e1 @ e2"
    | (persist) response externalPay returnImmediately ph reverseSwap0 reverseSwap e1 e2 e3 where
      "createReverseSwap_prepare backend isAuto request =
         (Inr (response, externalPay, returnImmediately, ph, reverseSwap0), e1)"
      "createReverseSwap_verify backend request response ph reverseSwap0 = (Inr reverseSwap, e2)"
      "createReverseSwap_persist backend request response externalPay returnImmediately
         reverseSwap = (result, e3)"
      "events = e1 @ e2 @ e3"
  using assms
  by (auto simp: createReverseSwap_def split: sum.splits prod.splits)

subsection \<open>The generated preimage\<close>

lemma generated_length: "map f [0..<32] = xs \<Longrightarrow> length xs = 32"
  by auto

lemma createSwap_preimage_cases:
  assumes "createSwap_preimage backend request pair
             \<lparr>bFrom = From pair, bTo = To pair, bPairHash = hash, bRefundPublicKey = publicKey,
              bReferralId = referralId, bInvoice = [], bPreimageHash = []\<rparr> =
           (Inr (preimage, ph, exchangeRequest), events)"
    and "Preimage swap = preimage" and "SwapPair swap = pair"
  shows "(invoiceCase backend request swap exchangeRequest ph \<or>
          preimageCase backend request swap exchangeRequest ph) \<and>
         \<not> (invoiceCase backend request swap exchangeRequest ph \<and>
            preimageCase backend request swap exchangeRequest ph) \<and>
         (Preimage swap \<noteq> [] \<longrightarrow>
            sha256_Sum256 backend (Preimage swap) = bPreimageHash exchangeRequest \<and>
            ph = bPreimageHash exchangeRequest)"
  using assms
  by (auto simp: createSwap_preimage_def invoiceCase_def preimageCase_def newPreimage_def Let_def
      dest: generated_length split: if_splits sum.splits option.splits)

lemma newPreimage_result:
  "newPreimage backend = Inr (preimage, ph) \<Longrightarrow>
   preimage = map (rand_bytes backend) [0..<32] \<and> ph = sha256_Sum256 backend preimage"
  by (auto simp: newPreimage_def Let_def split: option.splits)

subsection \<open>The shape of the calls of a creation\<close>

text \<open>Either the creation fails before any row is written, or its calls are: calls that
  neither verify nor write, the last of them the request to the exchange; the successful
  tree check; the successful check of the address of the exchange's answer; the database
  write; and again calls that neither verify nor write.\<close>

lemma createSwap_shape:
  assumes "createSwap backend isAuto request = (result, events)"
  shows "(isl result \<and> list_all (\<lambda>e. \<not> isDatabaseCreate e \<and> recordsCall backend e) events) \<or>
         (\<exists>before swap ph exchangeRequest response after.
            events = before @
              [BoltzCreateSwap exchangeRequest,
               SwapTreeCheck (SwapTree swap) False (TimoutBlockHeight swap) ph None,
               SwapTreeCheckAddress (SwapTree swap) (respAddress response)
                 (swap_BlindingPubKey backend swap) None,
               DatabaseCreateSwap swap (database_CreateSwap backend swap)] @ after \<and>
            list_all otherCall before \<and> list_all otherCall after \<and>
            SwapTree_Check backend (SwapTree swap) False (TimoutBlockHeight swap) ph = None \<and>
            SwapTree_CheckAddress backend (SwapTree swap) (respAddress response)
              (swap_BlindingPubKey backend swap) = None \<and>
            boltz_CreateSwap backend exchangeRequest = Inr response \<and>
            swap_InitTree backend
              (swap\<lparr>SwapTree := SwapTree_Deserialize backend (respSwapTree response)\<rparr>) =
              Inr (SwapTree swap) \<and>
            Address swap = respAddress response \<and>
            TimoutBlockHeight swap = uint (respTimeoutBlockHeight response) \<and>
            (invoiceCase backend request swap exchangeRequest ph \<or>
             preimageCase backend request swap exchangeRequest ph) \<and>
            (From (SwapPair swap) = CurrencyLiquid \<longrightarrow>
               BlindingKey swap = respBlindingKey response) \<and>
            (\<forall>out. result = Inr out \<longrightarrow> database_CreateSwap backend swap = None))"
  using assms
proof (cases rule: createSwap_stages)
  case (prepare err)
  then show ?thesis
    using createSwap_prepare_events list_all_otherCall(4) by fastforce
next
  case (verify response wallet pair ph swap0 e1 e2 err)
  have "list_all (\<lambda>e. \<not> isDatabaseCreate e \<and> recordsCall backend e) e1"
    using createSwap_prepare_events[OF verify(1)] by (rule list_all_otherCall(4))
  with createSwap_verify_error[OF verify(2)] verify(3,4) show ?thesis by simp
next
  case (persist response wallet pair ph swap0 swap e1 e2 e3)
  note ok = createSwap_verify_ok[OF persist(2)]
  from createSwap_prepare_ok[OF persist(1)] obtain exchangeRequest events1 hash publicKey where
    prepared: "createSwap_preimage backend request pair
        \<lparr>bFrom = From pair, bTo = To pair, bPairHash = hash, bRefundPublicKey = publicKey,
         bReferralId = referralId, bInvoice = [], bPreimageHash = []\<rparr> =
        (Inr (Preimage swap0, ph, exchangeRequest), events1)"
      "e1 = events1 @ [BoltzCreateSwap exchangeRequest]"
      "boltz_CreateSwap backend exchangeRequest = Inr response"
      "Address swap0 = respAddress response" "SwapPair swap0 = pair"
      "TimoutBlockHeight swap0 = uint (respTimeoutBlockHeight response)"
      "SwapTree swap0 = SwapTree_Deserialize backend (respSwapTree response)"
    by blast
  have tree: "swap_InitTree backend
      (swap\<lparr>SwapTree := SwapTree_Deserialize backend (respSwapTree response)\<rparr>) =
      Inr (SwapTree swap)"
    using createSwap_verify_tree[OF persist(2)] prepared(7) by simp
  from createSwap_persist_events[OF persist(3)] obtain rest where
    rest: "e3 = DatabaseCreateSwap swap (database_CreateSwap backend swap) # rest"
      "list_all otherCall rest"
      "\<forall>out. result = Inr out \<longrightarrow> database_CreateSwap backend swap = None"
    by blast
  have preimage: "Preimage swap = Preimage swap0" and pair: "SwapPair swap = pair"
    using ok prepared(5) by simp_all
  have shape: "events = events1 @
      [BoltzCreateSwap exchangeRequest,
       SwapTreeCheck (SwapTree swap) False (TimoutBlockHeight swap) ph None,
       SwapTreeCheckAddress (SwapTree swap) (respAddress response)
         (swap_BlindingPubKey backend swap) None,
       DatabaseCreateSwap swap (database_CreateSwap backend swap)] @ rest"
    using persist(4) ok rest(1) prepared(2) by simp
  have quiet: "list_all otherCall events1"
    using createSwap_prepare_events[OF persist(1)] prepared(2) by simp
  have checked: "SwapTree_Check backend (SwapTree swap) False (TimoutBlockHeight swap) ph = None"
    "SwapTree_CheckAddress backend (SwapTree swap) (respAddress response)
       (swap_BlindingPubKey backend swap) = None"
    using ok by blast+
  have stored: "Address swap = respAddress response"
    "TimoutBlockHeight swap = uint (respTimeoutBlockHeight response)"
    using ok prepared(4,6) by simp_all
  have hash: "invoiceCase backend request swap exchangeRequest ph \<or>
      preimageCase backend request swap exchangeRequest ph"
    using createSwap_preimage_cases[OF prepared(1) preimage pair] by blast
  note key = createSwap_verify_key[OF persist(2)]
  show ?thesis
    apply (rule disjI2)
    apply (rule exI[of _ events1], rule exI[of _ swap], rule exI[of _ ph],
        rule exI[of _ exchangeRequest], rule exI[of _ response], rule exI[of _ rest])
    using shape quiet rest(2,3) checked prepared(3) tree stored hash key
    apply -
    apply (intro conjI; assumption)
    done
qed

lemma createReverseSwap_shape:
  assumes "createReverseSwap backend isAuto request = (result, events)"
  shows "(isl result \<and> list_all (\<lambda>e. \<not> isDatabaseCreate e \<and> recordsCall backend e) events) \<or>
         (\<exists>before reverseSwap exchangeRequest response after.
            events = before @
              [BoltzCreateReverseSwap exchangeRequest,
               SwapTreeCheck (rsSwapTree reverseSwap) True (rsTimeoutBlockHeight reverseSwap)
                 (brPreimageHash exchangeRequest) None,
               SwapTreeCheckAddress (rsSwapTree reverseSwap) (rrespLockupAddress response)
                 (if To (rsPair reverseSwap) = CurrencyLiquid
                  then Some (btcec_PubKey backend (rsBlindingKey reverseSwap)) else None) None,
               DatabaseCreateReverseSwap reverseSwap
                 (database_CreateReverseSwap backend reverseSwap)] @ after \<and>
            list_all otherCall before \<and> list_all otherCall after \<and>
            SwapTree_Check backend (rsSwapTree reverseSwap) True
              (rsTimeoutBlockHeight reverseSwap) (brPreimageHash exchangeRequest) = None \<and>
            SwapTree_CheckAddress backend (rsSwapTree reverseSwap) (rrespLockupAddress response)
              (if To (rsPair reverseSwap) = CurrencyLiquid
               then Some (btcec_PubKey backend (rsBlindingKey reverseSwap)) else None) = None \<and>
            boltz_CreateReverseSwap backend exchangeRequest = Inr response \<and>
            reverseSwap_InitTree backend
              (reverseSwap\<lparr>rsSwapTree :=
                 SwapTree_Deserialize backend (rrespSwapTree response)\<rparr>) =
              Inr (rsSwapTree reverseSwap) \<and>
            rsPreimage reverseSwap = map (rand_bytes backend) [0..<32] \<and>
            brPreimageHash exchangeRequest = sha256_Sum256 backend (rsPreimage reverseSwap) \<and>
            rsTimeoutBlockHeight reverseSwap = uint (rrespTimeoutBlockHeight response) \<and>
            (To (rsPair reverseSwap) = CurrencyLiquid \<longrightarrow>
               rsBlindingKey reverseSwap = rrespBlindingKey response) \<and>
            (\<forall>out. result = Inr out \<longrightarrow> database_CreateReverseSwap backend reverseSwap = None))"
  using assms
proof (cases rule: createReverseSwap_stages)
  case (prepare err)
  then show ?thesis
    using createReverseSwap_prepare_events list_all_otherCall(4) by fastforce
next
  case (verify response externalPay returnImmediately ph reverseSwap0 e1 e2 err)
  have "list_all (\<lambda>e. \<not> isDatabaseCreate e \<and> recordsCall backend e) e1"
    using createReverseSwap_prepare_events[OF verify(1)] by (rule list_all_otherCall(4))
  with createReverseSwap_verify_error[OF verify(2)] verify(3,4) show ?thesis by simp
next
  case (persist response externalPay returnImmediately ph reverseSwap0 reverseSwap e1 e2 e3)
  let ?key = "if To (rsPair reverseSwap) = CurrencyLiquid
              then Some (btcec_PubKey backend (rsBlindingKey reverseSwap)) else None"
  from createReverseSwap_verify_ok[OF persist(2)] have
    ok: "e2 = [SwapTreeCheck (rsSwapTree reverseSwap) True (rsTimeoutBlockHeight reverseSwap)
                 ph None,
               SwapTreeCheckAddress (rsSwapTree reverseSwap) (rrespLockupAddress response)
                 ?key None]"
      "SwapTree_Check backend (rsSwapTree reverseSwap) True (rsTimeoutBlockHeight reverseSwap)
         ph = None"
      "SwapTree_CheckAddress backend (rsSwapTree reverseSwap) (rrespLockupAddress response)
         ?key = None"
      "rsPreimage reverseSwap = rsPreimage reverseSwap0"
    by auto
  note fields = createReverseSwap_verify_fields[OF persist(2)]
  from createReverseSwap_prepare_ok[OF persist(1)] obtain events1 exchangeRequest where
    prepared: "newPreimage backend = Inr (rsPreimage reverseSwap0, ph)"
      "rsTimeoutBlockHeight reverseSwap0 = uint (rrespTimeoutBlockHeight response)"
      "rsSwapTree reverseSwap0 = SwapTree_Deserialize backend (rrespSwapTree response)"
      "e1 = events1 @ [BoltzCreateReverseSwap exchangeRequest]"
      "brPreimageHash exchangeRequest = ph"
      "boltz_CreateReverseSwap backend exchangeRequest = Inr response"
    by blast
  note generated = newPreimage_result[OF prepared(1)]
  from createReverseSwap_persist_events[OF persist(3)] obtain rest where
    rest: "e3 = DatabaseCreateReverseSwap reverseSwap
                  (database_CreateReverseSwap backend reverseSwap) # rest"
      "list_all otherCall rest"
      "\<forall>out. result = Inr out \<longrightarrow> database_CreateReverseSwap backend reverseSwap = None"
    by blast
  have shape: "events = events1 @
      [BoltzCreateReverseSwap exchangeRequest,
       SwapTreeCheck (rsSwapTree reverseSwap) True (rsTimeoutBlockHeight reverseSwap)
         (brPreimageHash exchangeRequest) None,
       SwapTreeCheckAddress (rsSwapTree reverseSwap) (rrespLockupAddress response) ?key None,
       DatabaseCreateReverseSwap reverseSwap (database_CreateReverseSwap backend reverseSwap)] @
      rest"
    using persist(4) ok(1) rest(1) prepared(4,5) by simp
  have quiet: "list_all otherCall events1"
    using createReverseSwap_prepare_events[OF persist(1)] prepared(4) by simp
  have tree: "reverseSwap_InitTree backend
      (reverseSwap\<lparr>rsSwapTree := SwapTree_Deserialize backend (rrespSwapTree response)\<rparr>) =
      Inr (rsSwapTree reverseSwap)"
    using createReverseSwap_verify_tree[OF persist(2)] prepared(3) by simp
  have checked: "SwapTree_Check backend (rsSwapTree reverseSwap) True
        (rsTimeoutBlockHeight reverseSwap) (brPreimageHash exchangeRequest) = None"
    using ok(2) prepared(5) by simp
  have preimage: "rsPreimage reverseSwap = map (rand_bytes backend) [0..<32]"
    "brPreimageHash exchangeRequest = sha256_Sum256 backend (rsPreimage reverseSwap)"
    using generated ok(4) prepared(5) by simp_all
  have timeout: "rsTimeoutBlockHeight reverseSwap = uint (rrespTimeoutBlockHeight response)"
    using fields prepared(2) by simp
  have key: "To (rsPair reverseSwap) = CurrencyLiquid \<longrightarrow>
      rsBlindingKey reverseSwap = rrespBlindingKey response"
    using fields by simp
  show ?thesis
    apply (rule disjI2)
    apply (rule exI[of _ events1], rule exI[of _ reverseSwap],
        rule exI[of _ exchangeRequest], rule exI[of _ response], rule exI[of _ rest])
    using shape quiet rest(2,3) checked ok(3) prepared(6) tree preimage timeout key
    apply -
    apply (intro conjI; assumption)
    done
qed

text \<open>What the two shapes give: a failed verification excludes a write and a success; the
  verification events carry the outcome of their calls.\<close>

lemma shape_verified:
  assumes "events = before @ [request, SwapTreeCheck tree isReverse timeout ph None,
                              SwapTreeCheckAddress tree' address key None, dbWrite] @ after"
    and "list_all otherCall before" and "list_all otherCall after"
    and "otherCall request" and "isDatabaseCreate dbWrite"
    and "SwapTree_Check backend tree isReverse timeout ph = None"
    and "SwapTree_CheckAddress backend tree' address key = None"
  shows "\<not> list_ex failedVerification events" and "list_all (recordsCall backend) events"
proof -
  have dbWrite: "\<not> failedVerification dbWrite" "recordsCall backend dbWrite"
    using assms(5) by (cases dbWrite; simp)+
  have request: "\<not> failedVerification request" "recordsCall backend request"
    using otherCall_neither[OF assms(4)] by simp_all
  show "\<not> list_ex failedVerification events"
    using assms(1) list_all_otherCall(2)[OF assms(2)] list_all_otherCall(2)[OF assms(3)]
      dbWrite request
    by (auto simp: list_ex_iff)
  show "list_all (recordsCall backend) events"
    using assms(1,6,7)
      list_all_otherCall(3)[OF assms(2), of backend]
      list_all_otherCall(3)[OF assms(3), of backend] dbWrite request
    by simp
qed

subsection \<open>Runs on the concrete backend\<close>

lemma backend_ex_fields:
  "rand_Read backend_ex = None"
  "rand_bytes backend_ex = (\<lambda>i. of_nat i)"
  "sha256_Sum256 backend_ex = rev"
  "btcec_NewPrivateKey backend_ex = Inr [1]"
  "btcec_PubKey backend_ex = (\<lambda>key. 2 # key)"
  "btcec_ParsePubKey backend_ex = (\<lambda>key. Inr key)"
  "zpay32_DecodeBtc backend_ex ''lnbcrt1user'' = Inr [9, 9]"
  "zpay32_DecodeBtc backend_ex ''lnbcrt1node'' = Inr [8, 8]"
  "zpay32_DecodeBtc backend_ex ''lnbcrt1reverse'' = Inr (rev preimage_ex)"
  "utils_ParsePair backend_ex None = \<lparr>From = CurrencyBtc, To = CurrencyBtc\<rparr>"
  "utils_GetSwapMemo backend_ex = (\<lambda>currency. ''Submarine Swap'')"
  "boltz_ValidateAddress backend_ex = (\<lambda>address currency. None)"
  "boltz_BlocksToHours backend_ex = (\<lambda>blocks currency. real (unat blocks) / 6)"
  "GetSubmarinePair backend_ex =
     (\<lambda>pair. Inr \<lparr>pairHash = ''submarinehash'', feesPercentage = 1 / 10\<rparr>)"
  "GetReversePair backend_ex =
     (\<lambda>pair. Inr \<lparr>pairHash = ''reversehash'', feesPercentage = 1 / 2\<rparr>)"
  "lightning backend_ex = Some \<lparr>lightning_CreateInvoice = (\<lambda>amount memo.
          Inr \<lparr>PaymentRequest = ''lnbcrt1node'', PaymentHash = [8, 8]\<rparr>)\<rparr>"
  "lightning_NewChanIdFromString backend_ex = (\<lambda>chanId. Inr 0)"
  "onchain_GetWallet backend_ex = (\<lambda>name currency readonly. Inr wallet_ex)"
  "onchain_GetBlockHeight backend_ex = (\<lambda>currency. Inr 799900)"
  "onchain_EstimateFee backend_ex = (\<lambda>currency target. Inr 2)"
  "boltz_CreateSwap backend_ex = (\<lambda>request. Inr swapResponse_ex)"
  "boltz_CreateReverseSwap backend_ex = (\<lambda>request. Inr reverseResponse_ex)"
  "SwapTree_Deserialize backend_ex = (\<lambda>tree. tree)"
  "swap_InitTree backend_ex = (\<lambda>swap. Inr (SwapTree swap))"
  "swap_BlindingPubKey backend_ex = (\<lambda>swap. None)"
  "reverseSwap_InitTree backend_ex = (\<lambda>reverseSwap. Inr (rsSwapTree reverseSwap))"
  "SwapTree_Check backend_ex = (\<lambda>tree isReverse timeout preimageHash.
          if tree = [5] \<or> tree = [6] then None else Some (Error ''invalid tree''))"
  "SwapTree_CheckAddress backend_ex = (\<lambda>tree address blindingPubKey.
          if address = ''bcrt1qlockup'' \<or> address = ''bcrt1qrlockup'' then None
          else Some (Error ''invalid address''))"
  "database_CreateSwap backend_ex = (\<lambda>swap. None)"
  "database_CreateReverseSwap backend_ex = (\<lambda>reverseSwap. None)"
  "database_UpdateReverseSwapState backend_ex = (\<lambda>reverseSwap state msg. None)"
  "nursery_RegisterSwap backend_ex = (\<lambda>swap. None)"
  "nursery_RegisterReverseSwap backend_ex = (\<lambda>reverseSwap. None)"
  "nursery_PayReverseSwap backend_ex = (\<lambda>reverseSwap. None)"
  "nursery_SwapUpdates backend_ex = (\<lambda>swapId. [])"
  by (simp_all add: backend_ex_def)

lemma preimage_ex_length: "length preimage_ex = 32"
  by (simp add: preimage_ex_def)

lemma preimage_ex_hash_differs: "rev preimage_ex \<noteq> [9, 9]"
proof
  assume "rev preimage_ex = [9, 9]"
  then have "length (rev preimage_ex) = length [9 :: 8 word, 9]" by simp
  then show False by (simp add: preimage_ex_length)
qed

lemma newPreimage_ex: "newPreimage backend_ex = Inr (preimage_ex, rev preimage_ex)"
  by (simp add: newPreimage_def backend_ex_fields preimage_ex_def Let_def)

lemma newKeys_ex: "newKeys backend_ex = Inr ([1], [2, 1])"
  by (simp add: newKeys_def backend_ex_fields)

lemmas run_defs =
  createSwap_def createSwap_prepare_def createSwap_preimage_def createSwap_verify_def
  createSwap_persist_def createReverseSwap_def createReverseSwap_prepare_def
  createReverseSwap_options_def createReverseSwap_claimAddress_def createReverseSwap_verify_def
  createReverseSwap_persist_def newKeys_def newPreimage_def
  backend_ex_fields backend_address_ex_def backend_invoice_ex_def
  request_invoice_ex_def request_preimage_ex_def reverseRequest_ex_def
  exchangeRequest_invoice_ex_def exchangeRequest_preimage_ex_def reverseExchangeRequest_ex_def
  created_ex_def createdReverse_ex_def swapResponse_ex_def reverseResponse_ex_def
  getString_def getBool_def referralId_def handleError_def Let_def

lemma createSwap_invoice_run:
  "createSwap backend_ex False request_invoice_ex =
   (Inr \<lparr>outId = ''swap1'', outAddress = ''bcrt1qlockup'', outExpectedAmount = 100200,
          outBip21 = ''bitcoin:bcrt1qlockup'', outTimeoutBlockHeight = 800000,
          outTimeoutHours = 50 / 3, outTxId = []\<rparr>,
    [BoltzCreateSwap exchangeRequest_invoice_ex,
     SwapTreeCheck [5] False 800000 [9, 9] None,
     SwapTreeCheckAddress [5] ''bcrt1qlockup'' None None,
     DatabaseCreateSwap (created_ex ''lnbcrt1user'' []) None,
     NurseryRegisterSwap ''swap1''])"
  by (simp add: run_defs)

lemma createSwap_preimage_run:
  "createSwap backend_ex False request_preimage_ex =
   (Inr \<lparr>outId = ''swap1'', outAddress = ''bcrt1qlockup'', outExpectedAmount = 100200,
          outBip21 = ''bitcoin:bcrt1qlockup'', outTimeoutBlockHeight = 800000,
          outTimeoutHours = 50 / 3, outTxId = []\<rparr>,
    [BoltzCreateSwap exchangeRequest_preimage_ex,
     SwapTreeCheck [5] False 800000 (rev preimage_ex) None,
     SwapTreeCheckAddress [5] ''bcrt1qlockup'' None None,
     DatabaseCreateSwap (created_ex [] preimage_ex) None,
     NurseryRegisterSwap ''swap1''])"
  by (simp add: run_defs preimage_ex_def)

lemma createSwap_address_run:
  "createSwap backend_address_ex False request_invoice_ex =
   (Inl (Error ''invalid address''),
    [BoltzCreateSwap exchangeRequest_invoice_ex,
     SwapTreeCheck [5] False 800000 [9, 9] None,
     SwapTreeCheckAddress [5] ''bcrt1qevil'' None (Some (Error ''invalid address''))])"
  by (simp add: run_defs)

lemma createReverseSwap_run:
  "createReverseSwap backend_ex False reverseRequest_ex =
   (Inr \<lparr>routId = ''rswap1'', routLockupAddress = ''bcrt1qrlockup'',
          routInvoice = Some ''lnbcrt1reverse'', routClaimTransactionId = None,
          routRoutingFeeMilliSat = None\<rparr>,
    [BoltzCreateReverseSwap reverseExchangeRequest_ex,
     SwapTreeCheck [6] True 800100 (rev preimage_ex) None,
     SwapTreeCheckAddress [6] ''bcrt1qrlockup'' None None,
     DatabaseCreateReverseSwap (createdReverse_ex ''lnbcrt1reverse'') None,
     NurseryRegisterReverseSwap ''rswap1''])"
  by (simp add: run_defs preimage_ex_def)

lemma createReverseSwap_address_run:
  "createReverseSwap backend_address_ex False reverseRequest_ex =
   (Inl (Error ''invalid address''),
    [BoltzCreateReverseSwap reverseExchangeRequest_ex,
     SwapTreeCheck [6] True 800100 (rev preimage_ex) None,
     SwapTreeCheckAddress [6] ''bcrt1qevil'' None (Some (Error ''invalid address''))])"
  by (simp add: run_defs preimage_ex_def)

lemma createReverseSwap_invoice_run:
  "createReverseSwap backend_invoice_ex False reverseRequest_ex =
   (Inl (Error ''invalid invoice preimage hash''),
    [BoltzCreateReverseSwap reverseExchangeRequest_ex,
     SwapTreeCheck [6] True 800100 (rev preimage_ex) None,
     SwapTreeCheckAddress [6] ''bcrt1qrlockup'' None None])"
  using preimage_ex_hash_differs
  by (simp add: run_defs preimage_ex_def)


section \<open>The destination of a refund\<close>

text \<open>The stored refund address of the swap plays no part in \<^verbatim>\<open>refundSwap\<close>: the
  destination handed to the construction of every refund transaction is the decoding of an
  address newly obtained from the node (\<^verbatim>\<open>nursery.lnd.NewAddress()\<close>), and the result is
  the same whatever refund address is stored.\<close>

lemma refundSwap_destination:
  assumes "refundSwap_construct nursery swap = Inr (address, lockupTransaction, lockupVout, tx)"
  shows "(\<exists>addressString. lnd_NewAddress nursery = Inr addressString \<and>
            DecodeAddress (chainParams nursery) addressString = Inr address) \<and>
         map PkScript (MsgTxOut tx) = [PayToAddrScript (chainParams nursery) address] \<and>
         refundSwap_construct nursery (swap\<lparr>RefundAddress := stored\<rparr>) =
           Inr (address, lockupTransaction, lockupVout, tx)"
proof -
  note steps = refundSwap_construct_steps[OF assms]
  note built = ConstructRefundTransaction_result[OF steps(4)]
  have "refundSwap_construct nursery (swap\<lparr>RefundAddress := stored\<rparr>) =
      refundSwap_construct nursery swap"
    by (simp add: refundSwap_construct_def cong: sum.case_cong)
  with steps(1) built(3) assms show ?thesis by simp
qed





subsection \<open>Creation is verified before it is written\<close>

lemma unwritten_run:
  assumes "isl result"
    and "list_all (\<lambda>e. \<not> isDatabaseCreate e \<and> recordsCall backend e) events"
  shows "isl result \<and> \<not> list_ex isDatabaseCreate events \<and> list_all (recordsCall backend) events"
  using assms by (auto simp: list_all_iff list_ex_iff)

text \<open>Claim C1. In every call of \<^verbatim>\<open>createSwap\<close> and of \<^verbatim>\<open>createReverseSwap\<close> in which
  \<^verbatim>\<open>SwapTree.Check\<close> or \<^verbatim>\<open>SwapTree.CheckAddress\<close> returns an error, the call returns an
  error and makes no database write of a swap row. The verification events are the outcomes
  of the calls they record. A call that writes a row has made, immediately before the write
  and immediately after its request to the exchange, a tree check and an address check that
  both succeeded, and before them no write. The checks are those of the exchange's answer:
  the tree is the tree of the row, initialised from the tree of the answer, the timeout is
  the one of the answer, the address is the lockup address of the answer, and the preimage
  hash is the one of the swap (for a submarine swap the payment hash of its invoice or the
  SHA-256 of its generated preimage, for a reverse swap the SHA-256 of the generated
  preimage, sent to the exchange). The blinding key of the row is the one of the answer on
  Liquid; for a reverse swap the blinding key checked is its public key on Liquid, and none
  otherwise.\<close>

theorem swap_creation_all_or_nothing:
  assumes "createSwap backend isAuto request = (result, events)"
    and "createReverseSwap backend isAuto' request' = (result', events')"
  shows "(list_ex failedVerification events \<longrightarrow>
            isl result \<and> \<not> list_ex isDatabaseCreate events) \<and>
         (list_ex failedVerification events' \<longrightarrow>
            isl result' \<and> \<not> list_ex isDatabaseCreate events') \<and>
         list_all (recordsCall backend) events \<and> list_all (recordsCall backend) events' \<and>
         (list_ex isDatabaseCreate events \<longrightarrow>
            (\<exists>before swap ph exchangeRequest response after.
               events = before @
                 [BoltzCreateSwap exchangeRequest,
                  SwapTreeCheck (SwapTree swap) False (TimoutBlockHeight swap) ph None,
                  SwapTreeCheckAddress (SwapTree swap) (respAddress response)
                    (swap_BlindingPubKey backend swap) None,
                  DatabaseCreateSwap swap (database_CreateSwap backend swap)] @ after \<and>
               list_all otherCall before \<and> list_all otherCall after \<and>
               boltz_CreateSwap backend exchangeRequest = Inr response \<and>
               swap_InitTree backend
                 (swap\<lparr>SwapTree := SwapTree_Deserialize backend (respSwapTree response)\<rparr>) =
                 Inr (SwapTree swap) \<and>
               Address swap = respAddress response \<and>
               TimoutBlockHeight swap = uint (respTimeoutBlockHeight response) \<and>
               (invoiceCase backend request swap exchangeRequest ph \<or>
                preimageCase backend request swap exchangeRequest ph) \<and>
               (From (SwapPair swap) = CurrencyLiquid \<longrightarrow>
                  BlindingKey swap = respBlindingKey response))) \<and>
         (list_ex isDatabaseCreate events' \<longrightarrow>
            (\<exists>before reverseSwap exchangeRequest response after.
               events' = before @
                 [BoltzCreateReverseSwap exchangeRequest,
                  SwapTreeCheck (rsSwapTree reverseSwap) True (rsTimeoutBlockHeight reverseSwap)
                    (brPreimageHash exchangeRequest) None,
                  SwapTreeCheckAddress (rsSwapTree reverseSwap) (rrespLockupAddress response)
                    (if To (rsPair reverseSwap) = CurrencyLiquid
                     then Some (btcec_PubKey backend (rsBlindingKey reverseSwap))
                     else None) None,
                  DatabaseCreateReverseSwap reverseSwap
                    (database_CreateReverseSwap backend reverseSwap)] @ after \<and>
               list_all otherCall before \<and> list_all otherCall after \<and>
               boltz_CreateReverseSwap backend exchangeRequest = Inr response \<and>
               reverseSwap_InitTree backend
                 (reverseSwap\<lparr>rsSwapTree :=
                    SwapTree_Deserialize backend (rrespSwapTree response)\<rparr>) =
                 Inr (rsSwapTree reverseSwap) \<and>
               rsPreimage reverseSwap = map (rand_bytes backend) [0..<32] \<and>
               brPreimageHash exchangeRequest = sha256_Sum256 backend (rsPreimage reverseSwap) \<and>
               rsTimeoutBlockHeight reverseSwap = uint (rrespTimeoutBlockHeight response) \<and>
               (To (rsPair reverseSwap) = CurrencyLiquid \<longrightarrow>
                  rsBlindingKey reverseSwap = rrespBlindingKey response)))"
proof -
  have submarine:
    "(list_ex failedVerification events \<longrightarrow>
        isl result \<and> \<not> list_ex isDatabaseCreate events) \<and>
     list_all (recordsCall backend) events \<and>
     (list_ex isDatabaseCreate events \<longrightarrow>
        (\<exists>before swap ph exchangeRequest response after.
           events = before @
             [BoltzCreateSwap exchangeRequest,
              SwapTreeCheck (SwapTree swap) False (TimoutBlockHeight swap) ph None,
              SwapTreeCheckAddress (SwapTree swap) (respAddress response)
                (swap_BlindingPubKey backend swap) None,
              DatabaseCreateSwap swap (database_CreateSwap backend swap)] @ after \<and>
           list_all otherCall before \<and> list_all otherCall after \<and>
           boltz_CreateSwap backend exchangeRequest = Inr response \<and>
           swap_InitTree backend
             (swap\<lparr>SwapTree := SwapTree_Deserialize backend (respSwapTree response)\<rparr>) =
             Inr (SwapTree swap) \<and>
           Address swap = respAddress response \<and>
           TimoutBlockHeight swap = uint (respTimeoutBlockHeight response) \<and>
           (invoiceCase backend request swap exchangeRequest ph \<or>
            preimageCase backend request swap exchangeRequest ph) \<and>
           (From (SwapPair swap) = CurrencyLiquid \<longrightarrow>
              BlindingKey swap = respBlindingKey response)))"
    using createSwap_shape[OF assms(1)]
  proof (rule disjE)
    assume "isl result \<and>
        list_all (\<lambda>e. \<not> isDatabaseCreate e \<and> recordsCall backend e) events"
    then have "isl result"
      and "list_all (\<lambda>e. \<not> isDatabaseCreate e \<and> recordsCall backend e) events"
      by simp_all
    from unwritten_run[OF this] show ?thesis by simp
  next
    assume "\<exists>before swap ph exchangeRequest response after.
        events = before @
          [BoltzCreateSwap exchangeRequest,
           SwapTreeCheck (SwapTree swap) False (TimoutBlockHeight swap) ph None,
           SwapTreeCheckAddress (SwapTree swap) (respAddress response)
             (swap_BlindingPubKey backend swap) None,
           DatabaseCreateSwap swap (database_CreateSwap backend swap)] @ after \<and>
        list_all otherCall before \<and> list_all otherCall after \<and>
        SwapTree_Check backend (SwapTree swap) False (TimoutBlockHeight swap) ph = None \<and>
        SwapTree_CheckAddress backend (SwapTree swap) (respAddress response)
          (swap_BlindingPubKey backend swap) = None \<and>
        boltz_CreateSwap backend exchangeRequest = Inr response \<and>
        swap_InitTree backend
          (swap\<lparr>SwapTree := SwapTree_Deserialize backend (respSwapTree response)\<rparr>) =
          Inr (SwapTree swap) \<and>
        Address swap = respAddress response \<and>
        TimoutBlockHeight swap = uint (respTimeoutBlockHeight response) \<and>
        (invoiceCase backend request swap exchangeRequest ph \<or>
         preimageCase backend request swap exchangeRequest ph) \<and>
        (From (SwapPair swap) = CurrencyLiquid \<longrightarrow>
           BlindingKey swap = respBlindingKey response) \<and>
        (\<forall>out. result = Inr out \<longrightarrow> database_CreateSwap backend swap = None)"
    then obtain before swap ph exchangeRequest response after where shape: "events = before @
        [BoltzCreateSwap exchangeRequest,
         SwapTreeCheck (SwapTree swap) False (TimoutBlockHeight swap) ph None,
         SwapTreeCheckAddress (SwapTree swap) (respAddress response)
           (swap_BlindingPubKey backend swap) None,
         DatabaseCreateSwap swap (database_CreateSwap backend swap)] @ after"
      and quiet: "list_all otherCall before" "list_all otherCall after"
      and ok: "SwapTree_Check backend (SwapTree swap) False (TimoutBlockHeight swap) ph = None"
        "SwapTree_CheckAddress backend (SwapTree swap) (respAddress response)
           (swap_BlindingPubKey backend swap) = None"
      and answer: "boltz_CreateSwap backend exchangeRequest = Inr response"
        "swap_InitTree backend
           (swap\<lparr>SwapTree := SwapTree_Deserialize backend (respSwapTree response)\<rparr>) =
           Inr (SwapTree swap)"
        "Address swap = respAddress response"
        "TimoutBlockHeight swap = uint (respTimeoutBlockHeight response)"
        "invoiceCase backend request swap exchangeRequest ph \<or>
         preimageCase backend request swap exchangeRequest ph"
        "From (SwapPair swap) = CurrencyLiquid \<longrightarrow>
           BlindingKey swap = respBlindingKey response"
      by (elim exE conjE) (rule that)
    have verified: "\<not> list_ex failedVerification events" "list_all (recordsCall backend) events"
      using shape_verified[OF shape quiet _ _ ok] by simp_all
    have "\<exists>before swap ph exchangeRequest response after.
        events = before @
          [BoltzCreateSwap exchangeRequest,
           SwapTreeCheck (SwapTree swap) False (TimoutBlockHeight swap) ph None,
           SwapTreeCheckAddress (SwapTree swap) (respAddress response)
             (swap_BlindingPubKey backend swap) None,
           DatabaseCreateSwap swap (database_CreateSwap backend swap)] @ after \<and>
        list_all otherCall before \<and> list_all otherCall after \<and>
        boltz_CreateSwap backend exchangeRequest = Inr response \<and>
        swap_InitTree backend
          (swap\<lparr>SwapTree := SwapTree_Deserialize backend (respSwapTree response)\<rparr>) =
          Inr (SwapTree swap) \<and>
        Address swap = respAddress response \<and>
        TimoutBlockHeight swap = uint (respTimeoutBlockHeight response) \<and>
        (invoiceCase backend request swap exchangeRequest ph \<or>
         preimageCase backend request swap exchangeRequest ph) \<and>
        (From (SwapPair swap) = CurrencyLiquid \<longrightarrow>
           BlindingKey swap = respBlindingKey response)"
      apply (rule exI[of _ before], rule exI[of _ swap], rule exI[of _ ph],
          rule exI[of _ exchangeRequest], rule exI[of _ response], rule exI[of _ after])
      using shape quiet answer
      apply -
      apply (intro conjI; assumption)
      done
    with verified show ?thesis by simp
  qed
  have reverse:
    "(list_ex failedVerification events' \<longrightarrow>
        isl result' \<and> \<not> list_ex isDatabaseCreate events') \<and>
     list_all (recordsCall backend) events' \<and>
     (list_ex isDatabaseCreate events' \<longrightarrow>
        (\<exists>before reverseSwap exchangeRequest response after.
           events' = before @
             [BoltzCreateReverseSwap exchangeRequest,
              SwapTreeCheck (rsSwapTree reverseSwap) True (rsTimeoutBlockHeight reverseSwap)
                (brPreimageHash exchangeRequest) None,
              SwapTreeCheckAddress (rsSwapTree reverseSwap) (rrespLockupAddress response)
                (if To (rsPair reverseSwap) = CurrencyLiquid
                 then Some (btcec_PubKey backend (rsBlindingKey reverseSwap))
                 else None) None,
              DatabaseCreateReverseSwap reverseSwap
                (database_CreateReverseSwap backend reverseSwap)] @ after \<and>
           list_all otherCall before \<and> list_all otherCall after \<and>
           boltz_CreateReverseSwap backend exchangeRequest = Inr response \<and>
           reverseSwap_InitTree backend
             (reverseSwap\<lparr>rsSwapTree :=
                SwapTree_Deserialize backend (rrespSwapTree response)\<rparr>) =
             Inr (rsSwapTree reverseSwap) \<and>
           rsPreimage reverseSwap = map (rand_bytes backend) [0..<32] \<and>
           brPreimageHash exchangeRequest = sha256_Sum256 backend (rsPreimage reverseSwap) \<and>
           rsTimeoutBlockHeight reverseSwap = uint (rrespTimeoutBlockHeight response) \<and>
           (To (rsPair reverseSwap) = CurrencyLiquid \<longrightarrow>
              rsBlindingKey reverseSwap = rrespBlindingKey response)))"
    using createReverseSwap_shape[OF assms(2)]
  proof (rule disjE)
    assume "isl result' \<and>
        list_all (\<lambda>e. \<not> isDatabaseCreate e \<and> recordsCall backend e) events'"
    then have "isl result'"
      and "list_all (\<lambda>e. \<not> isDatabaseCreate e \<and> recordsCall backend e) events'"
      by simp_all
    from unwritten_run[OF this] show ?thesis by simp
  next
    assume "\<exists>before reverseSwap exchangeRequest response after.
        events' = before @
          [BoltzCreateReverseSwap exchangeRequest,
           SwapTreeCheck (rsSwapTree reverseSwap) True (rsTimeoutBlockHeight reverseSwap)
             (brPreimageHash exchangeRequest) None,
           SwapTreeCheckAddress (rsSwapTree reverseSwap) (rrespLockupAddress response)
             (if To (rsPair reverseSwap) = CurrencyLiquid
              then Some (btcec_PubKey backend (rsBlindingKey reverseSwap)) else None) None,
           DatabaseCreateReverseSwap reverseSwap
             (database_CreateReverseSwap backend reverseSwap)] @ after \<and>
        list_all otherCall before \<and> list_all otherCall after \<and>
        SwapTree_Check backend (rsSwapTree reverseSwap) True
          (rsTimeoutBlockHeight reverseSwap) (brPreimageHash exchangeRequest) = None \<and>
        SwapTree_CheckAddress backend (rsSwapTree reverseSwap) (rrespLockupAddress response)
          (if To (rsPair reverseSwap) = CurrencyLiquid
           then Some (btcec_PubKey backend (rsBlindingKey reverseSwap)) else None) = None \<and>
        boltz_CreateReverseSwap backend exchangeRequest = Inr response \<and>
        reverseSwap_InitTree backend
          (reverseSwap\<lparr>rsSwapTree :=
             SwapTree_Deserialize backend (rrespSwapTree response)\<rparr>) =
          Inr (rsSwapTree reverseSwap) \<and>
        rsPreimage reverseSwap = map (rand_bytes backend) [0..<32] \<and>
        brPreimageHash exchangeRequest = sha256_Sum256 backend (rsPreimage reverseSwap) \<and>
        rsTimeoutBlockHeight reverseSwap = uint (rrespTimeoutBlockHeight response) \<and>
        (To (rsPair reverseSwap) = CurrencyLiquid \<longrightarrow>
           rsBlindingKey reverseSwap = rrespBlindingKey response) \<and>
        (\<forall>out. result' = Inr out \<longrightarrow>
           database_CreateReverseSwap backend reverseSwap = None)"
    then obtain before reverseSwap exchangeRequest response after where shape: "events' = before @
        [BoltzCreateReverseSwap exchangeRequest,
         SwapTreeCheck (rsSwapTree reverseSwap) True (rsTimeoutBlockHeight reverseSwap)
           (brPreimageHash exchangeRequest) None,
         SwapTreeCheckAddress (rsSwapTree reverseSwap) (rrespLockupAddress response)
           (if To (rsPair reverseSwap) = CurrencyLiquid
            then Some (btcec_PubKey backend (rsBlindingKey reverseSwap)) else None) None,
         DatabaseCreateReverseSwap reverseSwap
           (database_CreateReverseSwap backend reverseSwap)] @ after"
      and quiet: "list_all otherCall before" "list_all otherCall after"
      and ok: "SwapTree_Check backend (rsSwapTree reverseSwap) True
                 (rsTimeoutBlockHeight reverseSwap) (brPreimageHash exchangeRequest) = None"
        "SwapTree_CheckAddress backend (rsSwapTree reverseSwap) (rrespLockupAddress response)
           (if To (rsPair reverseSwap) = CurrencyLiquid
            then Some (btcec_PubKey backend (rsBlindingKey reverseSwap)) else None) = None"
      and answer: "boltz_CreateReverseSwap backend exchangeRequest = Inr response"
        "reverseSwap_InitTree backend
           (reverseSwap\<lparr>rsSwapTree :=
              SwapTree_Deserialize backend (rrespSwapTree response)\<rparr>) =
           Inr (rsSwapTree reverseSwap)"
        "rsPreimage reverseSwap = map (rand_bytes backend) [0..<32]"
        "brPreimageHash exchangeRequest = sha256_Sum256 backend (rsPreimage reverseSwap)"
        "rsTimeoutBlockHeight reverseSwap = uint (rrespTimeoutBlockHeight response)"
        "To (rsPair reverseSwap) = CurrencyLiquid \<longrightarrow>
           rsBlindingKey reverseSwap = rrespBlindingKey response"
      by (elim exE conjE) (rule that)
    have verified: "\<not> list_ex failedVerification events'"
      "list_all (recordsCall backend) events'"
      using shape_verified[OF shape quiet _ _ ok] by simp_all
    have "\<exists>before reverseSwap exchangeRequest response after.
        events' = before @
          [BoltzCreateReverseSwap exchangeRequest,
           SwapTreeCheck (rsSwapTree reverseSwap) True (rsTimeoutBlockHeight reverseSwap)
             (brPreimageHash exchangeRequest) None,
           SwapTreeCheckAddress (rsSwapTree reverseSwap) (rrespLockupAddress response)
             (if To (rsPair reverseSwap) = CurrencyLiquid
              then Some (btcec_PubKey backend (rsBlindingKey reverseSwap))
              else None) None,
           DatabaseCreateReverseSwap reverseSwap
             (database_CreateReverseSwap backend reverseSwap)] @ after \<and>
        list_all otherCall before \<and> list_all otherCall after \<and>
        boltz_CreateReverseSwap backend exchangeRequest = Inr response \<and>
        reverseSwap_InitTree backend
          (reverseSwap\<lparr>rsSwapTree :=
             SwapTree_Deserialize backend (rrespSwapTree response)\<rparr>) =
          Inr (rsSwapTree reverseSwap) \<and>
        rsPreimage reverseSwap = map (rand_bytes backend) [0..<32] \<and>
        brPreimageHash exchangeRequest = sha256_Sum256 backend (rsPreimage reverseSwap) \<and>
        rsTimeoutBlockHeight reverseSwap = uint (rrespTimeoutBlockHeight response) \<and>
        (To (rsPair reverseSwap) = CurrencyLiquid \<longrightarrow>
           rsBlindingKey reverseSwap = rrespBlindingKey response)"
      apply (rule exI[of _ before], rule exI[of _ reverseSwap],
          rule exI[of _ exchangeRequest], rule exI[of _ response], rule exI[of _ after])
      using shape quiet answer
      apply -
      apply (intro conjI; assumption)
      done
    with verified show ?thesis by simp
  qed
  from submarine reverse show ?thesis by blast
qed

theorem swap_creation_all_or_nothing_witness:
  "createSwap backend_address_ex False request_invoice_ex =
     (Inl (Error ''invalid address''),
      [BoltzCreateSwap exchangeRequest_invoice_ex,
       SwapTreeCheck [5] False 800000 [9, 9] None,
       SwapTreeCheckAddress [5] ''bcrt1qevil'' None (Some (Error ''invalid address''))]) \<and>
   createReverseSwap backend_address_ex False reverseRequest_ex =
     (Inl (Error ''invalid address''),
      [BoltzCreateReverseSwap reverseExchangeRequest_ex,
       SwapTreeCheck [6] True 800100 (rev preimage_ex) None,
       SwapTreeCheckAddress [6] ''bcrt1qevil'' None (Some (Error ''invalid address''))]) \<and>
   list_ex failedVerification (snd (createSwap backend_address_ex False request_invoice_ex)) \<and>
   list_ex failedVerification
     (snd (createReverseSwap backend_address_ex False reverseRequest_ex)) \<and>
   \<not> list_ex isDatabaseCreate (snd (createSwap backend_address_ex False request_invoice_ex)) \<and>
   \<not> list_ex isDatabaseCreate
     (snd (createReverseSwap backend_address_ex False reverseRequest_ex)) \<and>
   snd (createSwap backend_ex False request_invoice_ex) =
     [BoltzCreateSwap exchangeRequest_invoice_ex,
      SwapTreeCheck [5] False 800000 [9, 9] None,
      SwapTreeCheckAddress [5] ''bcrt1qlockup'' None None,
      DatabaseCreateSwap (created_ex ''lnbcrt1user'' []) None,
      NurseryRegisterSwap ''swap1''] \<and>
   snd (createReverseSwap backend_ex False reverseRequest_ex) =
     [BoltzCreateReverseSwap reverseExchangeRequest_ex,
      SwapTreeCheck [6] True 800100 (rev preimage_ex) None,
      SwapTreeCheckAddress [6] ''bcrt1qrlockup'' None None,
      DatabaseCreateReverseSwap (createdReverse_ex ''lnbcrt1reverse'') None,
      NurseryRegisterReverseSwap ''rswap1''] \<and>
   boltz_CreateSwap backend_ex exchangeRequest_invoice_ex = Inr swapResponse_ex \<and>
   respAddress swapResponse_ex = ''bcrt1qlockup'' \<and>
   boltz_CreateReverseSwap backend_ex reverseExchangeRequest_ex = Inr reverseResponse_ex \<and>
   rrespLockupAddress reverseResponse_ex = ''bcrt1qrlockup'' \<and>
   list_ex isDatabaseCreate (snd (createSwap backend_ex False request_invoice_ex)) \<and>
   list_ex isDatabaseCreate (snd (createReverseSwap backend_ex False reverseRequest_ex)) \<and>
   list_all (recordsCall backend_ex) (snd (createSwap backend_ex False request_invoice_ex)) \<and>
   list_all (recordsCall backend_ex)
     (snd (createReverseSwap backend_ex False reverseRequest_ex))"
proof -
  have failing:
    "list_ex failedVerification (snd (createSwap backend_address_ex False request_invoice_ex))"
    "list_ex failedVerification
       (snd (createReverseSwap backend_address_ex False reverseRequest_ex))"
    by (simp_all add: createSwap_address_run createReverseSwap_address_run)
  have written:
    "list_ex isDatabaseCreate (snd (createSwap backend_ex False request_invoice_ex))"
    "list_ex isDatabaseCreate (snd (createReverseSwap backend_ex False reverseRequest_ex))"
    by (simp_all add: createSwap_invoice_run createReverseSwap_run)
  from swap_creation_all_or_nothing[OF createSwap_address_run createReverseSwap_address_run]
  have rejected:
    "list_ex failedVerification
       [BoltzCreateSwap exchangeRequest_invoice_ex,
        SwapTreeCheck [5] False 800000 [9, 9] None,
        SwapTreeCheckAddress [5] ''bcrt1qevil'' None (Some (Error ''invalid address''))] \<longrightarrow>
     \<not> list_ex isDatabaseCreate
       [BoltzCreateSwap exchangeRequest_invoice_ex,
        SwapTreeCheck [5] False 800000 [9, 9] None,
        SwapTreeCheckAddress [5] ''bcrt1qevil'' None (Some (Error ''invalid address''))]"
    "list_ex failedVerification
       [BoltzCreateReverseSwap reverseExchangeRequest_ex,
        SwapTreeCheck [6] True 800100 (rev preimage_ex) None,
        SwapTreeCheckAddress [6] ''bcrt1qevil'' None (Some (Error ''invalid address''))] \<longrightarrow>
     \<not> list_ex isDatabaseCreate
       [BoltzCreateReverseSwap reverseExchangeRequest_ex,
        SwapTreeCheck [6] True 800100 (rev preimage_ex) None,
        SwapTreeCheckAddress [6] ''bcrt1qevil'' None (Some (Error ''invalid address''))]"
    by blast+
  with failing have unwritten:
    "\<not> list_ex isDatabaseCreate (snd (createSwap backend_address_ex False request_invoice_ex))"
    "\<not> list_ex isDatabaseCreate
       (snd (createReverseSwap backend_address_ex False reverseRequest_ex))"
    by (simp_all add: createSwap_address_run createReverseSwap_address_run)
  from swap_creation_all_or_nothing[OF createSwap_invoice_run createReverseSwap_run]
  have recorded:
    "list_all (recordsCall backend_ex) (snd (createSwap backend_ex False request_invoice_ex))"
    "list_all (recordsCall backend_ex)
       (snd (createReverseSwap backend_ex False reverseRequest_ex))"
    unfolding createSwap_invoice_run createReverseSwap_run snd_conv by blast+
  have runs:
    "snd (createSwap backend_ex False request_invoice_ex) =
       [BoltzCreateSwap exchangeRequest_invoice_ex,
        SwapTreeCheck [5] False 800000 [9, 9] None,
        SwapTreeCheckAddress [5] ''bcrt1qlockup'' None None,
        DatabaseCreateSwap (created_ex ''lnbcrt1user'' []) None,
        NurseryRegisterSwap ''swap1'']"
    "snd (createReverseSwap backend_ex False reverseRequest_ex) =
       [BoltzCreateReverseSwap reverseExchangeRequest_ex,
        SwapTreeCheck [6] True 800100 (rev preimage_ex) None,
        SwapTreeCheckAddress [6] ''bcrt1qrlockup'' None None,
        DatabaseCreateReverseSwap (createdReverse_ex ''lnbcrt1reverse'') None,
        NurseryRegisterReverseSwap ''rswap1'']"
    by (simp_all add: createSwap_invoice_run createReverseSwap_run)
  have answers:
    "boltz_CreateSwap backend_ex exchangeRequest_invoice_ex = Inr swapResponse_ex"
    "respAddress swapResponse_ex = ''bcrt1qlockup''"
    "boltz_CreateReverseSwap backend_ex reverseExchangeRequest_ex = Inr reverseResponse_ex"
    "rrespLockupAddress reverseResponse_ex = ''bcrt1qrlockup''"
    by (simp_all add: backend_ex_fields swapResponse_ex_def reverseResponse_ex_def)
  from createSwap_address_run createReverseSwap_address_run failing unwritten written recorded
    runs answers
  show ?thesis by (intro conjI)
qed


subsection \<open>Invoice or preimage\<close>

lemma createSwap_written_row:
  assumes "createSwap backend isAuto request = (result, events)"
    and "DatabaseCreateSwap swap res \<in> set events"
  shows "\<exists>exchangeRequest ph hash publicKey events1.
           createSwap_preimage backend request (SwapPair swap)
             \<lparr>bFrom = From (SwapPair swap), bTo = To (SwapPair swap), bPairHash = hash,
              bRefundPublicKey = publicKey, bReferralId = referralId, bInvoice = [],
              bPreimageHash = []\<rparr> = (Inr (Preimage swap, ph, exchangeRequest), events1) \<and>
           BoltzCreateSwap exchangeRequest \<in> set events \<and>
           SwapTreeCheck (SwapTree swap) False (TimoutBlockHeight swap) ph None \<in> set events \<and>
           Invoice swap = bInvoice exchangeRequest"
  using assms(1)
proof (cases rule: createSwap_stages)
  case (prepare err)
  from createSwap_prepare_events[OF prepare(1)] assms(2) show ?thesis
    by (auto simp: list_all_iff)
next
  case (verify response wallet pair ph swap0 e1 e2 err)
  from createSwap_prepare_events[OF verify(1)] createSwap_verify_error[OF verify(2)]
    assms(2) verify(4)
  show ?thesis by (auto simp: list_all_iff)
next
  case (persist response wallet pair ph swap0 swap' e1 e2 e3)
  note ok = createSwap_verify_ok[OF persist(2)]
  from createSwap_persist_events[OF persist(3)] obtain rest where
    rest: "e3 = DatabaseCreateSwap swap' (database_CreateSwap backend swap') # rest"
      "list_all otherCall rest"
    by blast
  from createSwap_prepare_events[OF persist(1)] have "DatabaseCreateSwap swap res \<notin> set e1"
    by (auto simp: list_all_iff)
  moreover have "DatabaseCreateSwap swap res \<notin> set e2"
    using ok by auto
  moreover have "DatabaseCreateSwap swap res \<notin> set rest"
    using rest(2) by (auto simp: list_all_iff)
  ultimately have same: "swap' = swap"
    using assms(2) persist(4) rest(1) by auto
  from createSwap_prepare_ok[OF persist(1)] obtain exchangeRequest events1 hash publicKey where
    prepared: "createSwap_preimage backend request pair
        \<lparr>bFrom = From pair, bTo = To pair, bPairHash = hash, bRefundPublicKey = publicKey,
         bReferralId = referralId, bInvoice = [], bPreimageHash = []\<rparr> =
        (Inr (Preimage swap0, ph, exchangeRequest), events1)"
      "e1 = events1 @ [BoltzCreateSwap exchangeRequest]"
      "Invoice swap0 = bInvoice exchangeRequest" "SwapPair swap0 = pair"
    by blast
  have "createSwap_preimage backend request (SwapPair swap)
        \<lparr>bFrom = From (SwapPair swap), bTo = To (SwapPair swap), bPairHash = hash,
         bRefundPublicKey = publicKey, bReferralId = referralId, bInvoice = [],
         bPreimageHash = []\<rparr> = (Inr (Preimage swap, ph, exchangeRequest), events1)"
    using prepared(1,4) ok same by simp
  moreover have "BoltzCreateSwap exchangeRequest \<in> set events"
    using persist(4) prepared(2) by simp
  moreover have "SwapTreeCheck (SwapTree swap) False (TimoutBlockHeight swap) ph None \<in> set events"
    using persist(4) ok same by simp
  moreover have "Invoice swap = bInvoice exchangeRequest"
    using prepared(3) ok same by simp
  ultimately show ?thesis by blast
qed

text \<open>Claim C5. When \<^verbatim>\<open>createSwap\<close> writes the row of a submarine swap, a request has been
  sent to the exchange and the tree has been checked against a preimage hash such that
  exactly one of two cases holds. Either the swap has an invoice (the one of the request, or
  one created on the node), the stored preimage is empty, no preimage hash is sent and the
  preimage hash checked is the payment hash of the invoice; or 32 random bytes are stored as
  the preimage and their SHA-256 is the preimage hash sent to the exchange. Whenever the
  stored preimage is not empty, its SHA-256 is the preimage hash sent to the exchange, and
  the one the tree is checked against.\<close>

theorem createSwap_invoice_xor_preimage:
  assumes "createSwap backend isAuto request = (result, events)"
    and "DatabaseCreateSwap swap res \<in> set events"
  shows "\<exists>exchangeRequest ph.
           BoltzCreateSwap exchangeRequest \<in> set events \<and>
           SwapTreeCheck (SwapTree swap) False (TimoutBlockHeight swap) ph None \<in> set events \<and>
           Invoice swap = bInvoice exchangeRequest \<and>
           (invoiceCase backend request swap exchangeRequest ph \<or>
            preimageCase backend request swap exchangeRequest ph) \<and>
           \<not> (invoiceCase backend request swap exchangeRequest ph \<and>
              preimageCase backend request swap exchangeRequest ph) \<and>
           (Preimage swap \<noteq> [] \<longrightarrow>
              sha256_Sum256 backend (Preimage swap) = bPreimageHash exchangeRequest \<and>
              ph = bPreimageHash exchangeRequest)"
proof -
  from createSwap_written_row[OF assms] obtain exchangeRequest ph hash publicKey events1 where
    row: "createSwap_preimage backend request (SwapPair swap)
        \<lparr>bFrom = From (SwapPair swap), bTo = To (SwapPair swap), bPairHash = hash,
         bRefundPublicKey = publicKey, bReferralId = referralId, bInvoice = [],
         bPreimageHash = []\<rparr> = (Inr (Preimage swap, ph, exchangeRequest), events1)"
      "BoltzCreateSwap exchangeRequest \<in> set events"
      "SwapTreeCheck (SwapTree swap) False (TimoutBlockHeight swap) ph None \<in> set events"
      "Invoice swap = bInvoice exchangeRequest"
    by blast
  from createSwap_preimage_cases[OF row(1) refl refl] row(2,3,4) show ?thesis
    by blast
qed

theorem createSwap_invoice_xor_preimage_witness:
  "createSwap backend_ex False request_invoice_ex =
     (Inr \<lparr>outId = ''swap1'', outAddress = ''bcrt1qlockup'', outExpectedAmount = 100200,
            outBip21 = ''bitcoin:bcrt1qlockup'', outTimeoutBlockHeight = 800000,
            outTimeoutHours = 50 / 3, outTxId = []\<rparr>,
      [BoltzCreateSwap exchangeRequest_invoice_ex,
       SwapTreeCheck [5] False 800000 [9, 9] None,
       SwapTreeCheckAddress [5] ''bcrt1qlockup'' None None,
       DatabaseCreateSwap (created_ex ''lnbcrt1user'' []) None,
       NurseryRegisterSwap ''swap1'']) \<and>
   invoiceCase backend_ex request_invoice_ex (created_ex ''lnbcrt1user'' [])
     exchangeRequest_invoice_ex [9, 9] \<and>
   \<not> preimageCase backend_ex request_invoice_ex (created_ex ''lnbcrt1user'' [])
     exchangeRequest_invoice_ex [9, 9] \<and>
   createSwap backend_ex False request_preimage_ex =
     (Inr \<lparr>outId = ''swap1'', outAddress = ''bcrt1qlockup'', outExpectedAmount = 100200,
            outBip21 = ''bitcoin:bcrt1qlockup'', outTimeoutBlockHeight = 800000,
            outTimeoutHours = 50 / 3, outTxId = []\<rparr>,
      [BoltzCreateSwap exchangeRequest_preimage_ex,
       SwapTreeCheck [5] False 800000 (rev preimage_ex) None,
       SwapTreeCheckAddress [5] ''bcrt1qlockup'' None None,
       DatabaseCreateSwap (created_ex [] preimage_ex) None,
       NurseryRegisterSwap ''swap1'']) \<and>
   preimageCase backend_ex request_preimage_ex (created_ex [] preimage_ex)
     exchangeRequest_preimage_ex (rev preimage_ex) \<and>
   \<not> invoiceCase backend_ex request_preimage_ex (created_ex [] preimage_ex)
     exchangeRequest_preimage_ex (rev preimage_ex) \<and>
   sha256_Sum256 backend_ex preimage_ex = bPreimageHash exchangeRequest_preimage_ex"
proof -
  have stored: "Preimage (created_ex [] preimage_ex) = preimage_ex"
    "Preimage (created_ex ''lnbcrt1user'' []) = []" "preimage_ex \<noteq> []"
    using preimage_ex_length by (auto simp: created_ex_def)
  have invoice_row: "DatabaseCreateSwap (created_ex ''lnbcrt1user'' []) None \<in>
      set [BoltzCreateSwap exchangeRequest_invoice_ex,
           SwapTreeCheck [5] False 800000 [9, 9] None,
           SwapTreeCheckAddress [5] ''bcrt1qlockup'' None None,
           DatabaseCreateSwap (created_ex ''lnbcrt1user'' []) None,
           NurseryRegisterSwap ''swap1'']"
    by simp
  have preimage_row: "DatabaseCreateSwap (created_ex [] preimage_ex) None \<in>
      set [BoltzCreateSwap exchangeRequest_preimage_ex,
           SwapTreeCheck [5] False 800000 (rev preimage_ex) None,
           SwapTreeCheckAddress [5] ''bcrt1qlockup'' None None,
           DatabaseCreateSwap (created_ex [] preimage_ex) None,
           NurseryRegisterSwap ''swap1'']"
    by simp
  from createSwap_invoice_xor_preimage[OF createSwap_invoice_run invoice_row]
  have with_invoice:
    "(invoiceCase backend_ex request_invoice_ex (created_ex ''lnbcrt1user'' [])
        exchangeRequest_invoice_ex [9, 9] \<or>
      preimageCase backend_ex request_invoice_ex (created_ex ''lnbcrt1user'' [])
        exchangeRequest_invoice_ex [9, 9]) \<and>
     \<not> (invoiceCase backend_ex request_invoice_ex (created_ex ''lnbcrt1user'' [])
        exchangeRequest_invoice_ex [9, 9] \<and>
      preimageCase backend_ex request_invoice_ex (created_ex ''lnbcrt1user'' [])
        exchangeRequest_invoice_ex [9, 9])"
    by (auto simp: created_ex_def)
  have not_generated: "\<not> preimageCase backend_ex request_invoice_ex
      (created_ex ''lnbcrt1user'' []) exchangeRequest_invoice_ex [9, 9]"
    by (simp add: preimageCase_def stored)
  from createSwap_invoice_xor_preimage[OF createSwap_preimage_run preimage_row]
  have with_preimage:
    "(invoiceCase backend_ex request_preimage_ex (created_ex [] preimage_ex)
        exchangeRequest_preimage_ex (rev preimage_ex) \<or>
      preimageCase backend_ex request_preimage_ex (created_ex [] preimage_ex)
        exchangeRequest_preimage_ex (rev preimage_ex)) \<and>
     \<not> (invoiceCase backend_ex request_preimage_ex (created_ex [] preimage_ex)
        exchangeRequest_preimage_ex (rev preimage_ex) \<and>
      preimageCase backend_ex request_preimage_ex (created_ex [] preimage_ex)
        exchangeRequest_preimage_ex (rev preimage_ex)) \<and>
     sha256_Sum256 backend_ex preimage_ex = bPreimageHash exchangeRequest_preimage_ex"
    using stored by (auto simp: created_ex_def)
  have not_invoice: "\<not> invoiceCase backend_ex request_preimage_ex
      (created_ex [] preimage_ex) exchangeRequest_preimage_ex (rev preimage_ex)"
    using stored by (simp add: invoiceCase_def)
  from createSwap_invoice_run createSwap_preimage_run with_invoice not_generated
    with_preimage not_invoice
  show ?thesis by blast
qed


subsection \<open>The invoice of a reverse swap\<close>

lemma no_exchange_request:
  "list_all (\<lambda>e. \<not> isExchangeRequest e) events \<Longrightarrow>
   BoltzCreateReverseSwap exchangeRequest \<notin> set events"
  by (auto simp: list_all_iff)

lemma createReverseSwap_prepare_request:
  assumes "createReverseSwap_prepare backend isAuto request = (res, events)"
    and "BoltzCreateReverseSwap exchangeRequest \<in> set events"
  shows "brPreimageHash exchangeRequest =
           sha256_Sum256 backend (map (rand_bytes backend) [0..<32])"
  using assms
  apply (clarsimp simp: createReverseSwap_prepare_def newPreimage_def Let_def
      split: sum.splits prod.splits option.splits if_splits)
  apply (auto dest!: createReverseSwap_claimAddress_events dest: no_exchange_request)
  done

text \<open>Claim C6. \<^verbatim>\<open>createReverseSwap\<close> sends the SHA-256 of the preimage it generated as
  preimage hash to the exchange, and it asks the exchange once. When the invoice of the
  exchange's answer does not decode to that hash as its payment hash, the call returns an
  error and writes no row. A row that is written holds the generated preimage and an invoice
  whose payment hash is the SHA-256 of that preimage.\<close>

theorem createReverseSwap_invoice_hash:
  assumes "createReverseSwap backend isAuto request = (result, events)"
  shows "(\<forall>exchangeRequest response.
            BoltzCreateReverseSwap exchangeRequest \<in> set events \<and>
            boltz_CreateReverseSwap backend exchangeRequest = Inr response \<and>
            zpay32_DecodeBtc backend (rrespInvoice response) \<noteq>
              Inr (sha256_Sum256 backend (map (rand_bytes backend) [0..<32])) \<longrightarrow>
            isl result \<and> \<not> list_ex isDatabaseCreate events) \<and>
         (\<forall>exchangeRequest. BoltzCreateReverseSwap exchangeRequest \<in> set events \<longrightarrow>
            brPreimageHash exchangeRequest =
              sha256_Sum256 backend (map (rand_bytes backend) [0..<32])) \<and>
         (\<forall>reverseSwap res. DatabaseCreateReverseSwap reverseSwap res \<in> set events \<longrightarrow>
            rsPreimage reverseSwap = map (rand_bytes backend) [0..<32] \<and>
            zpay32_DecodeBtc backend (rsInvoice reverseSwap) =
              Inr (sha256_Sum256 backend (rsPreimage reverseSwap))) \<and>
         length (filter isExchangeRequest events) \<le> 1"
  using assms
proof (cases rule: createReverseSwap_stages)
  case (prepare err)
  note quiet = createReverseSwap_prepare_events[OF prepare(1)]
  have "\<not> list_ex isDatabaseCreate events"
    by (rule list_all_otherCall(1)[OF quiet])
  moreover have "\<forall>reverseSwap res. DatabaseCreateReverseSwap reverseSwap res \<notin> set events"
    using quiet by (auto simp: list_all_iff)
  ultimately show ?thesis
    using prepare(2) createReverseSwap_prepare_request[OF prepare(1)]
      createReverseSwap_prepare_requests[OF prepare(1)]
    by auto
next
  case (verify response externalPay returnImmediately ph reverseSwap0 e1 e2 err)
  note quiet = createReverseSwap_prepare_events[OF verify(1)]
  note failed = createReverseSwap_verify_error[OF verify(2)]
  have unwritten: "\<not> list_ex isDatabaseCreate events"
    using list_all_otherCall(1)[OF quiet] failed verify(4)
    by (auto simp: list_all_iff list_ex_iff)
  then have "\<forall>reverseSwap res. DatabaseCreateReverseSwap reverseSwap res \<notin> set events"
    by (auto simp: list_ex_iff)
  moreover have "filter isExchangeRequest e2 = []"
    using failed by (auto simp: list_all_iff filter_empty_conv)
  moreover have "\<forall>exchangeRequest. BoltzCreateReverseSwap exchangeRequest \<in> set events \<longrightarrow>
      BoltzCreateReverseSwap exchangeRequest \<in> set e1"
    using failed verify(4) by (auto simp: list_all_iff)
  ultimately show ?thesis
    using verify(3,4) unwritten createReverseSwap_prepare_request[OF verify(1)]
      createReverseSwap_prepare_requests[OF verify(1)]
    by auto
next
  case (persist response externalPay returnImmediately ph reverseSwap0 reverseSwap e1 e2 e3)
  from createReverseSwap_prepare_ok[OF persist(1)] obtain events1 request' where
    prepared: "newPreimage backend = Inr (rsPreimage reverseSwap0, ph)"
      "rsInvoice reverseSwap0 = rrespInvoice response"
      "e1 = events1 @ [BoltzCreateReverseSwap request']"
      "boltz_CreateReverseSwap backend request' = Inr response"
      "list_all (\<lambda>e. \<not> isExchangeRequest e) events1"
    by blast
  from createReverseSwap_verify_ok[OF persist(2)] obtain blindingPubKey where
    ok: "e2 = [SwapTreeCheck (rsSwapTree reverseSwap) True (rsTimeoutBlockHeight reverseSwap)
                 ph None,
               SwapTreeCheckAddress (rsSwapTree reverseSwap) (rrespLockupAddress response)
                 blindingPubKey None]"
      "zpay32_DecodeBtc backend (rsInvoice reverseSwap) = Inr ph"
      "rsPreimage reverseSwap = rsPreimage reverseSwap0"
      "rsInvoice reverseSwap = rsInvoice reverseSwap0"
    by blast
  from createReverseSwap_persist_events[OF persist(3)] obtain rest where
    rest: "e3 = DatabaseCreateReverseSwap reverseSwap
                  (database_CreateReverseSwap backend reverseSwap) # rest"
      "list_all otherCall rest" "list_all (\<lambda>e. \<not> isExchangeRequest e) rest"
    by blast
  note generated = newPreimage_result[OF prepared(1)]
  have hash: "ph = sha256_Sum256 backend (map (rand_bytes backend) [0..<32])"
    using generated by simp
  have only: "exchangeRequest = request'"
    if "BoltzCreateReverseSwap exchangeRequest \<in> set events" for exchangeRequest
    using that persist(4) prepared(3,5) ok(1) rest(1,3) by (auto simp: list_all_iff)
  have decoded: "zpay32_DecodeBtc backend (rrespInvoice response) =
      Inr (sha256_Sum256 backend (map (rand_bytes backend) [0..<32]))"
    using ok(2,4) prepared(2) hash by simp
  have first: "\<forall>exchangeRequest response'.
      BoltzCreateReverseSwap exchangeRequest \<in> set events \<and>
      boltz_CreateReverseSwap backend exchangeRequest = Inr response' \<and>
      zpay32_DecodeBtc backend (rrespInvoice response') \<noteq>
        Inr (sha256_Sum256 backend (map (rand_bytes backend) [0..<32])) \<longrightarrow>
      isl result \<and> \<not> list_ex isDatabaseCreate events"
    using only prepared(4) decoded by auto
  have second: "\<forall>exchangeRequest. BoltzCreateReverseSwap exchangeRequest \<in> set events \<longrightarrow>
      brPreimageHash exchangeRequest =
        sha256_Sum256 backend (map (rand_bytes backend) [0..<32])"
    using createReverseSwap_prepare_request[OF persist(1)] only prepared(3) by auto
  have row: "reverseSwap' = reverseSwap"
    if "DatabaseCreateReverseSwap reverseSwap' res \<in> set events" for reverseSwap' res
    using that persist(4) prepared(3) ok(1) rest(1,2)
      createReverseSwap_prepare_events[OF persist(1)]
    by (auto simp: list_all_iff)
  have third: "\<forall>reverseSwap' res. DatabaseCreateReverseSwap reverseSwap' res \<in> set events \<longrightarrow>
      rsPreimage reverseSwap' = map (rand_bytes backend) [0..<32] \<and>
      zpay32_DecodeBtc backend (rsInvoice reverseSwap') =
        Inr (sha256_Sum256 backend (rsPreimage reverseSwap'))"
    using row generated ok(2,3) by auto
  have fourth: "length (filter isExchangeRequest events) \<le> 1"
    using persist(4) prepared(3,5) ok(1) rest(1,3)
    by (auto simp: list_all_iff filter_empty_conv[THEN iffD2])
  from first second third fourth show ?thesis by blast
qed

theorem createReverseSwap_invoice_hash_witness:
  "createReverseSwap backend_invoice_ex False reverseRequest_ex =
     (Inl (Error ''invalid invoice preimage hash''),
      [BoltzCreateReverseSwap reverseExchangeRequest_ex,
       SwapTreeCheck [6] True 800100 (rev preimage_ex) None,
       SwapTreeCheckAddress [6] ''bcrt1qrlockup'' None None]) \<and>
   boltz_CreateReverseSwap backend_invoice_ex reverseExchangeRequest_ex =
     Inr (reverseResponse_ex\<lparr>rrespInvoice := ''lnbcrt1user''\<rparr>) \<and>
   zpay32_DecodeBtc backend_invoice_ex ''lnbcrt1user'' = Inr [9, 9] \<and>
   sha256_Sum256 backend_invoice_ex (map (rand_bytes backend_invoice_ex) [0..<32]) \<noteq> [9, 9] \<and>
   \<not> list_ex isDatabaseCreate
     (snd (createReverseSwap backend_invoice_ex False reverseRequest_ex)) \<and>
   brPreimageHash reverseExchangeRequest_ex =
     sha256_Sum256 backend_invoice_ex (map (rand_bytes backend_invoice_ex) [0..<32]) \<and>
   DatabaseCreateReverseSwap (createdReverse_ex ''lnbcrt1reverse'') None \<in>
     set (snd (createReverseSwap backend_ex False reverseRequest_ex)) \<and>
   zpay32_DecodeBtc backend_ex (rsInvoice (createdReverse_ex ''lnbcrt1reverse'')) =
     Inr (sha256_Sum256 backend_ex (rsPreimage (createdReverse_ex ''lnbcrt1reverse'')))"
proof -
  have sent: "BoltzCreateReverseSwap reverseExchangeRequest_ex \<in>
      set [BoltzCreateReverseSwap reverseExchangeRequest_ex,
           SwapTreeCheck [6] True 800100 (rev preimage_ex) None,
           SwapTreeCheckAddress [6] ''bcrt1qrlockup'' None None]"
    by simp
  have answer: "boltz_CreateReverseSwap backend_invoice_ex reverseExchangeRequest_ex =
      Inr (reverseResponse_ex\<lparr>rrespInvoice := ''lnbcrt1user''\<rparr>)"
    by (simp add: backend_invoice_ex_def)
  have decoded: "zpay32_DecodeBtc backend_invoice_ex ''lnbcrt1user'' = Inr [9, 9]"
    by (simp add: backend_invoice_ex_def backend_ex_fields)
  have hash: "sha256_Sum256 backend_invoice_ex (map (rand_bytes backend_invoice_ex) [0..<32]) =
      rev preimage_ex"
    by (simp add: backend_invoice_ex_def backend_ex_fields preimage_ex_def)
  have differs: "zpay32_DecodeBtc backend_invoice_ex
        (rrespInvoice (reverseResponse_ex\<lparr>rrespInvoice := ''lnbcrt1user''\<rparr>)) \<noteq>
      Inr (sha256_Sum256 backend_invoice_ex (map (rand_bytes backend_invoice_ex) [0..<32]))"
  proof
    assume "zpay32_DecodeBtc backend_invoice_ex
        (rrespInvoice (reverseResponse_ex\<lparr>rrespInvoice := ''lnbcrt1user''\<rparr>)) =
      Inr (sha256_Sum256 backend_invoice_ex (map (rand_bytes backend_invoice_ex) [0..<32]))"
    then have "zpay32_DecodeBtc backend_invoice_ex ''lnbcrt1user'' = Inr (rev preimage_ex)"
      by (simp only: hash) simp
    then have "[9, 9] = rev preimage_ex"
      by (simp only: decoded sum.inject)
    then have "rev preimage_ex = [9, 9]" by (rule sym)
    with preimage_ex_hash_differs show False by contradiction
  qed
  note checked = createReverseSwap_invoice_hash[OF createReverseSwap_invoice_run]
  from checked sent answer differs
  have unwritten: "\<not> list_ex isDatabaseCreate
      (snd (createReverseSwap backend_invoice_ex False reverseRequest_ex))"
    unfolding createReverseSwap_invoice_run snd_conv by blast
  from checked sent
  have requested: "brPreimageHash reverseExchangeRequest_ex =
      sha256_Sum256 backend_invoice_ex (map (rand_bytes backend_invoice_ex) [0..<32])"
    by blast
  have written: "DatabaseCreateReverseSwap (createdReverse_ex ''lnbcrt1reverse'') None \<in>
      set (snd (createReverseSwap backend_ex False reverseRequest_ex))"
    by (simp add: createReverseSwap_run)
  with createReverseSwap_invoice_hash[OF createReverseSwap_run]
  have stored: "zpay32_DecodeBtc backend_ex (rsInvoice (createdReverse_ex ''lnbcrt1reverse'')) =
      Inr (sha256_Sum256 backend_ex (rsPreimage (createdReverse_ex ''lnbcrt1reverse'')))"
    unfolding createReverseSwap_run snd_conv by blast
  have "sha256_Sum256 backend_invoice_ex (map (rand_bytes backend_invoice_ex) [0..<32]) \<noteq> [9, 9]"
    unfolding hash by (rule preimage_ex_hash_differs)
  with createReverseSwap_invoice_run answer decoded unwritten requested written stored
  show ?thesis by blast
qed


section \<open>Properties of the lock\<close>

lemma strings_Contains_sublist: "strings_Contains s substr \<longleftrightarrow> sublist substr s"
  by (induction s) (auto simp: sublist_Cons_right)

lemma loginAll_locked: "loginAll backend credentials server = (res, server') \<Longrightarrow>
  locked server' = locked server"
  by (induction credentials arbitrary: server) (auto split: sum.splits)

lemma unlock_locked:
  assumes "unlock backend password server = (res, server')"
  shows "(res = None \<longrightarrow> locked server \<and> \<not> locked server') \<and>
         (res \<noteq> None \<longrightarrow> locked server' = locked server)"
  using assms
  by (auto simp: unlock_def Let_def split: if_splits sum.splits prod.splits option.splits
      dest: loginAll_locked)

text \<open>Claim C10. While the server is locked, a request whose full method name does not
  contain \<open>Unlock\<close> is answered by both interceptors with \<^verbatim>\<open>errLocked\<close>, whatever the
  handler is, and the server is left as it was: the handler is not run. When \<^verbatim>\<open>unlock\<close>
  returns no error, the server was locked and is no longer, and both interceptors then run
  the handler of every request. When \<^verbatim>\<open>unlock\<close> returns an error the flag is as it
  was.\<close>

theorem locked_requests_rejected:
  "(locked server \<and> \<not> strings_Contains fullMethod ''Unlock'' \<longrightarrow>
      UnaryServerInterceptor server fullMethod handler = (Inl errLocked, server) \<and>
      StreamServerInterceptor server fullMethod streamHandler = (Some errLocked, server)) \<and>
   (unlock backend password server = (None, server') \<longrightarrow>
      locked server \<and> \<not> locked server' \<and>
      UnaryServerInterceptor server' fullMethod handler = handler server' \<and>
      StreamServerInterceptor server' fullMethod streamHandler = streamHandler server') \<and>
   (unlock backend password server = (Some err, server') \<longrightarrow> locked server' = locked server)"
proof (intro conjI impI)
  assume "locked server \<and> \<not> strings_Contains fullMethod ''Unlock''"
  then show "UnaryServerInterceptor server fullMethod handler = (Inl errLocked, server)"
    and "StreamServerInterceptor server fullMethod streamHandler = (Some errLocked, server)"
    by (simp_all add: UnaryServerInterceptor_def StreamServerInterceptor_def requestAllowed_def
        handleError_def)
next
  assume unlocked: "unlock backend password server = (None, server')"
  from unlock_locked[OF unlocked] show "locked server" and unlockedNow: "\<not> locked server'"
    by simp_all
  from unlockedNow show "UnaryServerInterceptor server' fullMethod handler = handler server'"
    and "StreamServerInterceptor server' fullMethod streamHandler = streamHandler server'"
    by (simp_all add: UnaryServerInterceptor_def StreamServerInterceptor_def requestAllowed_def)
next
  assume "unlock backend password server = (Some err, server')"
  from unlock_locked[OF this] show "locked server' = locked server" by simp
qed

theorem locked_requests_rejected_witness:
  "locked server_ex \<and> \<not> strings_Contains ''/boltzrpc.Boltz/GetInfo'' ''Unlock'' \<and>
   UnaryServerInterceptor server_ex ''/boltzrpc.Boltz/GetInfo'' unaryHandler_ex =
     (Inl errLocked, server_ex) \<and>
   StreamServerInterceptor server_ex ''/boltzrpc.Boltz/GetInfo'' streamHandler_ex =
     (Some errLocked, server_ex) \<and>
   unlock unlockBackend_ex ''secret'' server_ex =
     (None, \<lparr>locked = False, onchainWallets = [''main''], nurseryInitialised = True\<rparr>) \<and>
   UnaryServerInterceptor
     \<lparr>locked = False, onchainWallets = [''main''], nurseryInitialised = True\<rparr>
     ''/boltzrpc.Boltz/GetInfo'' unaryHandler_ex =
     (Inr ''handled'',
      \<lparr>locked = False, onchainWallets = [''touched'', ''main''], nurseryInitialised = True\<rparr>) \<and>
   unlock unlockBackend_ex ''wrong'' server_ex =
     (Some (StatusError InvalidArgument ''wrong password''), server_ex)"
proof -
  have locked: "locked server_ex \<and> \<not> strings_Contains ''/boltzrpc.Boltz/GetInfo'' ''Unlock''"
    by (simp add: server_ex_def)
  have unlocked: "unlock unlockBackend_ex ''secret'' server_ex =
     (None, \<lparr>locked = False, onchainWallets = [''main''], nurseryInitialised = True\<rparr>)"
    by (simp add: unlock_def decryptWalletCredentials_def unlockBackend_ex_def server_ex_def)
  have refused: "unlock unlockBackend_ex ''wrong'' server_ex =
     (Some (StatusError InvalidArgument ''wrong password''), server_ex)"
    by (simp add: unlock_def decryptWalletCredentials_def unlockBackend_ex_def server_ex_def)
  note claim = locked_requests_rejected[of server_ex "''/boltzrpc.Boltz/GetInfo''"
      unaryHandler_ex streamHandler_ex unlockBackend_ex "''secret''"
      "\<lparr>locked = False, onchainWallets = [''main''], nurseryInitialised = True\<rparr>"]
  from claim locked have rejected:
    "UnaryServerInterceptor server_ex ''/boltzrpc.Boltz/GetInfo'' unaryHandler_ex =
       (Inl errLocked, server_ex)"
    "StreamServerInterceptor server_ex ''/boltzrpc.Boltz/GetInfo'' streamHandler_ex =
       (Some errLocked, server_ex)"
    by blast+
  from claim unlocked have "UnaryServerInterceptor
       \<lparr>locked = False, onchainWallets = [''main''], nurseryInitialised = True\<rparr>
       ''/boltzrpc.Boltz/GetInfo'' unaryHandler_ex =
     unaryHandler_ex \<lparr>locked = False, onchainWallets = [''main''], nurseryInitialised = True\<rparr>"
    by blast
  then have passed: "UnaryServerInterceptor
       \<lparr>locked = False, onchainWallets = [''main''], nurseryInitialised = True\<rparr>
       ''/boltzrpc.Boltz/GetInfo'' unaryHandler_ex =
     (Inr ''handled'',
      \<lparr>locked = False, onchainWallets = [''touched'', ''main''], nurseryInitialised = True\<rparr>)"
    by (simp add: unaryHandler_ex_def)
  from locked rejected unlocked passed refused show ?thesis by blast
qed


section \<open>Properties of the websocket\<close>

subsection \<open>The read loop and the acknowledgement\<close>







subsection \<open>Subscribe\<close>











subsection \<open>The reconnect loop\<close>

lemma Connect_closed:
  "closed (ws s) \<Longrightarrow> Connect backend s = (Some (Error ''websocket is closed''), s)"
  by (simp add: Connect_def)

text \<open>Once the websocket is closed, an iteration of the reconnect loop is a sleep and a
  call of \<^verbatim>\<open>Connect\<close> that returns "websocket is closed" without a dial; the loop goes on
  with the next iteration.\<close>

lemma reconnectLoop_closed:
  assumes "closed (ws s)" and "\<forall>j\<ge>k. \<not> closes j"
  shows "reconnectLoop n backend closes k s =
           Looping (s\<lparr>wsEvents := wsEvents s @
                       concat (replicate n [Slept reconnectInterval, closedError])\<rparr>)"
  using assms
proof (induction n arbitrary: k s)
  case 0
  then show ?case by simp
next
  case (Suc n)
  let ?next = "s\<lparr>wsEvents := wsEvents s @ [Slept reconnectInterval, closedError]\<rparr>"
  have quiet: "\<not> closes k" "\<forall>j\<ge>Suc k. \<not> closes j"
    using Suc.prems(2) by auto
  have step: "reconnectLoop (Suc n) backend closes k s =
      reconnectLoop n backend closes (Suc k) ?next"
    using Suc.prems(1) quiet(1) by (simp add: Connect_closed closedError_def)
  have "closed (ws ?next)" using Suc.prems(1) by simp
  from Suc.IH[OF this quiet(2)] step show ?case by simp
qed

text \<open>While the websocket is not closed, the loop sleeps for the reconnect interval of 15
  seconds before every call of \<^verbatim>\<open>Connect\<close>, goes on as long as the dial fails, however
  often, and returns at the first dial that succeeds.\<close>

lemma reconnectLoop_until_dial_succeeds_aux:
  assumes "\<not> closed (ws s)" and "\<forall>j. \<not> closes j"
    and "\<forall>i<n. isl (websocket_Dial backend (dials s + i) target)"
    and "websocket_Dial backend (dials s + n) target = Inr c"
    and "\<forall>s'. apiUrl (ws s') = apiUrl (ws s) \<and> \<not> closed (ws s') \<longrightarrow>
           (\<exists>res s''. Connect backend s' = (res, s'') \<and>
              (case websocket_Dial backend (dials s') target of
                 Inl err \<Rightarrow> res \<noteq> None \<and> conn (ws s'') = None \<and>
                   wsEvents s'' = wsEvents s' @ [Dialed target (Some err)]
               | Inr c' \<Rightarrow> res = None \<and> conn (ws s'') = Some c' \<and>
                   wsEvents s'' = wsEvents s' @ [Dialed target None, Started c']) \<and>
              dials s'' = Suc (dials s') \<and> apiUrl (ws s'') = apiUrl (ws s') \<and>
              \<not> closed (ws s''))"
  shows "\<exists>s'. reconnectLoop (Suc n + m) backend closes k s = Returned s' \<and>
           conn (ws s') = Some c \<and> dials s' = dials s + Suc n \<and>
           filter (\<lambda>e. e = Slept reconnectInterval) (wsEvents s') =
             filter (\<lambda>e. e = Slept reconnectInterval) (wsEvents s) @
             replicate (Suc n) (Slept reconnectInterval) \<and>
           length (filter (\<lambda>e. \<exists>t r. e = Dialed t r) (wsEvents s')) =
             length (filter (\<lambda>e. \<exists>t r. e = Dialed t r) (wsEvents s)) + Suc n"
  using assms
proof (induction n arbitrary: k s)
  case 0
  let ?slept = "s\<lparr>wsEvents := wsEvents s @ [Slept reconnectInterval]\<rparr>"
  from "0.prems"(5)[rule_format, of ?slept] "0.prems"(1,4)
  obtain res s'' where connected: "Connect backend ?slept = (res, s'')"
      "res = None" "conn (ws s'') = Some c"
      "wsEvents s'' = wsEvents ?slept @ [Dialed target None, Started c]"
      "dials s'' = Suc (dials s)"
    by auto
  have "reconnectLoop (Suc 0 + m) backend closes k s =
      Returned (s''\<lparr>wsEvents := wsEvents s'' @ [ConnectReturned None]\<rparr>)"
    using "0.prems"(2) connected(1,2) by simp
  with connected(3,4,5) show ?case by simp
next
  case (Suc n)
  let ?slept = "s\<lparr>wsEvents := wsEvents s @ [Slept reconnectInterval]\<rparr>"
  from Suc.prems(3) have "isl (websocket_Dial backend (dials s) target)"
    by (metis add.right_neutral zero_less_Suc)
  then obtain err where failed: "websocket_Dial backend (dials s) target = Inl err"
    by (cases "websocket_Dial backend (dials s) target") auto
  from Suc.prems(5)[rule_format, of ?slept] Suc.prems(1) failed
  obtain res s'' where connected: "Connect backend ?slept = (res, s'')"
      "res \<noteq> None" "wsEvents s'' = wsEvents ?slept @ [Dialed target (Some err)]"
      "dials s'' = Suc (dials s)" "apiUrl (ws s'') = apiUrl (ws s)" "\<not> closed (ws s'')"
    by auto
  from connected(2) obtain e where e: "res = Some e" by auto
  let ?next = "s''\<lparr>wsEvents := wsEvents s'' @ [ConnectReturned (Some e)]\<rparr>"
  have step: "reconnectLoop (Suc (Suc n) + m) backend closes k s =
      reconnectLoop (Suc n + m) backend closes (Suc k) ?next"
    using Suc.prems(2) connected(1) e by simp
  have stillOpen: "\<not> closed (ws ?next)" using connected(6) by simp
  have dialsNext: "dials ?next = Suc (dials s)" using connected(4) by simp
  have failing: "\<forall>i<n. isl (websocket_Dial backend (dials ?next + i) target)"
  proof (intro allI impI)
    fix i assume "i < n"
    then have "Suc i < Suc n" by simp
    with Suc.prems(3) have "isl (websocket_Dial backend (dials s + Suc i) target)" by blast
    then show "isl (websocket_Dial backend (dials ?next + i) target)"
      by (simp add: dialsNext)
  qed
  have succeeding: "websocket_Dial backend (dials ?next + n) target = Inr c"
    using Suc.prems(4) by (simp add: dialsNext)
  have contract: "\<forall>s'. apiUrl (ws s') = apiUrl (ws ?next) \<and> \<not> closed (ws s') \<longrightarrow>
           (\<exists>res s''. Connect backend s' = (res, s'') \<and>
              (case websocket_Dial backend (dials s') target of
                 Inl err \<Rightarrow> res \<noteq> None \<and> conn (ws s'') = None \<and>
                   wsEvents s'' = wsEvents s' @ [Dialed target (Some err)]
               | Inr c' \<Rightarrow> res = None \<and> conn (ws s'') = Some c' \<and>
                   wsEvents s'' = wsEvents s' @ [Dialed target None, Started c']) \<and>
              dials s'' = Suc (dials s') \<and> apiUrl (ws s'') = apiUrl (ws s') \<and>
              \<not> closed (ws s''))"
    using Suc.prems(5) connected(5) by simp
  from Suc.IH[OF stillOpen Suc.prems(2) failing succeeding contract, of "Suc k"]
  obtain s' where s': "reconnectLoop (Suc n + m) backend closes (Suc k) ?next = Returned s'"
      "conn (ws s') = Some c" "dials s' = dials ?next + Suc n"
      "filter (\<lambda>e. e = Slept reconnectInterval) (wsEvents s') =
         filter (\<lambda>e. e = Slept reconnectInterval) (wsEvents ?next) @
         replicate (Suc n) (Slept reconnectInterval)"
      "length (filter (\<lambda>e. \<exists>t r. e = Dialed t r) (wsEvents s')) =
         length (filter (\<lambda>e. \<exists>t r. e = Dialed t r) (wsEvents ?next)) + Suc n"
    by blast
  have "filter (\<lambda>e. e = Slept reconnectInterval) (wsEvents ?next) =
      filter (\<lambda>e. e = Slept reconnectInterval) (wsEvents s) @ [Slept reconnectInterval]"
    using connected(3) by simp
  moreover have "length (filter (\<lambda>e. \<exists>t r. e = Dialed t r) (wsEvents ?next)) =
      Suc (length (filter (\<lambda>e. \<exists>t r. e = Dialed t r) (wsEvents s)))"
    using connected(3) by simp
  ultimately show ?case
    using step s' dialsNext by (simp add: replicate_append_same)
qed

lemma reconnectLoop_until_dial_succeeds:
  assumes "\<not> closed (ws s)" and "\<forall>j. \<not> closes j"
    and "url_Parse backend (apiUrl (ws s)) = Inr parsed"
    and "\<forall>i<n. isl (websocket_Dial backend (dials s + i) (url_String backend (wsUrlOf parsed)))"
    and "websocket_Dial backend (dials s + n) (url_String backend (wsUrlOf parsed)) = Inr c"
  shows "\<exists>s'. reconnectLoop (Suc n + m) backend closes k s = Returned s' \<and>
           conn (ws s') = Some c \<and> dials s' = dials s + Suc n \<and>
           filter (\<lambda>e. e = Slept reconnectInterval) (wsEvents s') =
             filter (\<lambda>e. e = Slept reconnectInterval) (wsEvents s) @
             replicate (Suc n) (Slept reconnectInterval) \<and>
           length (filter (\<lambda>e. \<exists>t r. e = Dialed t r) (wsEvents s')) =
             length (filter (\<lambda>e. \<exists>t r. e = Dialed t r) (wsEvents s)) + Suc n"
proof -
  let ?target = "url_String backend (wsUrlOf parsed)"
  have "\<forall>s'. apiUrl (ws s') = apiUrl (ws s) \<and> \<not> closed (ws s') \<longrightarrow>
           (\<exists>res s''. Connect backend s' = (res, s'') \<and>
              (case websocket_Dial backend (dials s') ?target of
                 Inl err \<Rightarrow> res \<noteq> None \<and> conn (ws s'') = None \<and>
                   wsEvents s'' = wsEvents s' @ [Dialed ?target (Some err)]
               | Inr c' \<Rightarrow> res = None \<and> conn (ws s'') = Some c' \<and>
                   wsEvents s'' = wsEvents s' @ [Dialed ?target None, Started c']) \<and>
              dials s'' = Suc (dials s') \<and> apiUrl (ws s'') = apiUrl (ws s') \<and>
              \<not> closed (ws s''))"
    using assms(3) by (auto simp: Connect_def Let_def split: sum.splits)
  from reconnectLoop_until_dial_succeeds_aux[OF assms(1,2,4,5) this] show ?thesis .
qed

text \<open>Claim C8, at the input where the code departs from it. The connection \<open>0\<close> is lost
  while the websocket is not closed, so the goroutine enters the reconnect loop; the client
  calls \<^verbatim>\<open>Close\<close> during the first sleep. After any number \<open>n + 1\<close> of iterations the
  goroutine is still in the loop: it has slept \<open>n + 1\<close> times for the reconnect interval
  and called \<^verbatim>\<open>Connect\<close> \<open>n + 1\<close> times, each call returning "websocket is closed". The
  retries of \<^verbatim>\<open>Connect\<close> do not cease; only the dials do.\<close>

theorem reconnect_goes_on_after_close:
  "connection (Suc n) wsBackend_ex closesFirst 0 [ReadError (Error ''unexpected EOF'')] wsState_ex =
     Looping (wsState_ex\<lparr>ws := (ws wsState_ex)\<lparr>closed := True\<rparr>,
                         wsEvents := concat (replicate (Suc n)
                                     [Slept reconnectInterval, closedError])\<rparr>)"
proof -
  let ?closed = "wsState_ex\<lparr>ws := (ws wsState_ex)\<lparr>closed := True\<rparr>,
                            wsEvents := [Slept reconnectInterval, closedError]\<rparr>"
  have lost: "readLoop 0 (updatesTaken wsBackend_ex) (subscriptionsTaken wsBackend_ex)
      [ReadError (Error ''unexpected EOF'')] wsState_ex = (LostConnection, wsState_ex)"
    by (simp add: wsState_ex_def)
  have first: "reconnectLoop (Suc n) wsBackend_ex closesFirst 0 wsState_ex =
      reconnectLoop n wsBackend_ex closesFirst (Suc 0) ?closed"
    by (simp add: closesFirst_def Close_def Connect_def closedError_def wsState_ex_def
        wsBackend_ex_def)
  have "closed (ws ?closed)" by simp
  moreover have "\<forall>j\<ge>Suc 0. \<not> closesFirst j" by (simp add: closesFirst_def)
  ultimately have "reconnectLoop n wsBackend_ex closesFirst (Suc 0) ?closed =
      Looping (?closed\<lparr>wsEvents := wsEvents ?closed @
                 concat (replicate n [Slept reconnectInterval, closedError])\<rparr>)"
    by (rule reconnectLoop_closed)
  with lost first show ?thesis
    by (simp add: connection_def)
qed


end
